(* ===== verification/Prelude.thy ===== *)
theory Prelude
  imports Main
begin

text \<open>
  Shared vocabulary of the anylist-cli development: the few pieces of JavaScript
  semantics the TypeScript sources rely on (truthiness, the \<open>||\<close> default,
  \<open>undefined\<close>, \<open>String.prototype.toLowerCase\<close>, the properties every object
  literal inherits from \<open>Object.prototype\<close>) and the list searches
  (\<open>Array.prototype.find\<close>, \<open>filter\<close>) that the client code is built from,
  with the lemmas the component theories share.
\<close>

named_theorems js_simps "evaluation rules of the modelled JavaScript semantics"
named_theorems find_simps "rules for the list searches of the model"

section \<open>JavaScript values\<close>

text \<open>
  The fields the client reads with a default (\<open>item.quantity || ""\<close>,
  \<open>item.categoryMatchId || "other"\<close>) and the optional arguments tested with
  \<open>if (quantity)\<close> or \<open>details !== undefined\<close> hold a string or
  \<open>undefined\<close>; a member access on an object literal can also yield an inherited
  non-string object (see \<open>Categories\<close>). \<open>JsObject d\<close> is such an object,
  \<open>d\<close> describing it.
\<close>

datatype jsval = JsUndefined | JsString string | JsObject string

fun js_truthy :: "jsval \<Rightarrow> bool" where
  "js_truthy JsUndefined = False"
| "js_truthy (JsString s) = (s \<noteq> [])"
| "js_truthy (JsObject _) = True"

text \<open>\<open>a || b\<close>: \<open>a\<close> when it is truthy, else \<open>b\<close>.\<close>

definition js_or :: "jsval \<Rightarrow> jsval \<Rightarrow> jsval" where
  "js_or a b = (if js_truthy a then a else b)"

text \<open>An optional string argument of a TypeScript function, as a value.\<close>

fun js_opt :: "string option \<Rightarrow> jsval" where
  "js_opt None = JsUndefined"
| "js_opt (Some s) = JsString s"

lemma js_or_truthy [js_simps]: "js_truthy a \<Longrightarrow> js_or a b = a"
  by (simp add: js_or_def)

lemma js_or_falsy [js_simps]: "\<not> js_truthy a \<Longrightarrow> js_or a b = b"
  by (simp add: js_or_def)

lemma js_or_default_truthy [js_simps]: "js_truthy b \<Longrightarrow> js_truthy (js_or a b)"
  by (simp add: js_or_def)

lemma js_truthy_opt [js_simps]: "js_truthy (js_opt s) \<longleftrightarrow> (\<exists>v. s = Some v \<and> v \<noteq> [])"
  by (cases s) auto

section \<open>String.prototype.toLowerCase\<close>

text \<open>
  Characters are the 8-bit \<open>char\<close> of HOL; \<open>toLowerCase\<close> maps the ASCII
  capitals \<open>A\<close>..\<open>Z\<close> (codes 65..90) to \<open>a\<close>..\<open>z\<close> and leaves every other
  character alone. The Unicode case mapping of non-ASCII text is not modelled.
\<close>

definition lower_char :: "char \<Rightarrow> char" where
  "lower_char c = (let n = of_char c :: nat in if 65 \<le> n \<and> n \<le> 90 then char_of (n + 32) else c)"

definition toLowerCase :: "string \<Rightarrow> string" where
  "toLowerCase s = map lower_char s"

lemma lower_char_idem [simp]: "lower_char (lower_char c) = lower_char c"
  by (simp add: lower_char_def Let_def)

lemma toLowerCase_idem [simp]: "toLowerCase (toLowerCase s) = toLowerCase s"
  by (simp add: toLowerCase_def comp_def)

lemma toLowerCase_empty [simp]: "toLowerCase [] = []"
  by (simp add: toLowerCase_def)

lemma toLowerCase_Nil [simp]: "toLowerCase s = [] \<longleftrightarrow> s = []"
  by (simp add: toLowerCase_def)

lemma length_toLowerCase [simp]: "length (toLowerCase s) = length s"
  by (simp add: toLowerCase_def)

lemma toLowerCase_append [simp]: "toLowerCase (s @ t) = toLowerCase s @ toLowerCase t"
  by (simp add: toLowerCase_def)

lemma eq_char_of_iff: "c = char_of n \<longleftrightarrow> take_bit 8 n = of_char c"
  by (auto simp: char_of_eq_iff [symmetric])

text \<open>Evaluating \<open>toLowerCase\<close> on literals by \<open>simp\<close>.\<close>

lemmas lower_eval = toLowerCase_def lower_char_def char_of_eq_iff eq_char_of_iff

section \<open>Array.prototype.join\<close>

fun join_with :: "string \<Rightarrow> string list \<Rightarrow> string" where
  "join_with sep [] = []"
| "join_with sep [x] = x"
| "join_with sep (x # y # zs) = x @ sep @ join_with sep (y # zs)"

lemma join_with_Cons: "join_with sep (x # xs) = (if xs = [] then x else x @ sep @ join_with sep xs)"
  by (cases xs) simp_all

lemma length_join_with_ge:
  "\<forall>x\<in>set xs. x \<noteq> [] \<Longrightarrow> length xs \<le> length (join_with sep xs)"
proof (induction sep xs rule: join_with.induct)
  case (3 sep x y zs)
  then have "length (y # zs) \<le> length (join_with sep (y # zs))" by simp
  moreover have "1 \<le> length x" using "3.prems" by (cases x) auto
  ultimately show ?case by (simp only: join_with.simps length_append list.size)
qed (simp_all add: Suc_le_eq)

section \<open>Array.prototype.find, by position\<close>

text \<open>
  The client mutates the object that \<open>find\<close> returns, and that object is the
  element of the array it was found in. The model therefore returns the position of the
  first element that satisfies the predicate, so that a mutation is an update of the
  array at that position.
\<close>

fun find_idx :: "('a \<Rightarrow> bool) \<Rightarrow> 'a list \<Rightarrow> nat option" where
  "find_idx P [] = None"
| "find_idx P (x # xs) = (if P x then Some 0 else map_option Suc (find_idx P xs))"

lemma find_idx_None_iff [find_simps]: "find_idx P xs = None \<longleftrightarrow> (\<forall>x\<in>set xs. \<not> P x)"
  by (induction xs) auto

lemma find_idx_Some_less [find_simps]: "find_idx P xs = Some i \<Longrightarrow> i < length xs"
  by (induction xs arbitrary: i) (auto split: if_splits)

lemma find_idx_Some_holds [find_simps]: "find_idx P xs = Some i \<Longrightarrow> P (xs ! i)"
  by (induction xs arbitrary: i) (auto split: if_splits)

lemma find_idx_Some_first [find_simps]:
  "find_idx P xs = Some i \<Longrightarrow> j < i \<Longrightarrow> \<not> P (xs ! j)"
proof (induction xs arbitrary: i j)
  case Nil
  then show ?case by simp
next
  case (Cons x xs)
  then show ?case by (cases j) (auto split: if_splits)
qed

lemma find_SomeD: "find P xs = Some x \<Longrightarrow> x \<in> set xs \<and> P x"
  by (induction xs) (auto split: if_splits)

lemma find_idx_cong:
  "(\<And>x. x \<in> set xs \<Longrightarrow> P x = Q x) \<Longrightarrow> find_idx P xs = find_idx Q xs"
  by (induction xs) auto

lemma find_idx_map: "find_idx P (map f xs) = find_idx (P \<circ> f) xs"
  by (induction xs) auto

lemma find_idx_eq_find: "map_option ((!) xs) (find_idx P xs) = find P xs"
  by (induction xs) (auto simp: option.map_comp comp_def)

section \<open>Lists of records with an identifier\<close>

text \<open>Replacing every element whose key is that of \<open>y\<close> by \<open>y\<close>.\<close>

definition replace_by_key :: "('a \<Rightarrow> 'k) \<Rightarrow> 'a \<Rightarrow> 'a list \<Rightarrow> 'a list" where
  "replace_by_key key y xs = map (\<lambda>x. if key x = key y then y else x) xs"

lemma replace_by_key_distinct:
  assumes "distinct (map key xs)" and "i < length xs" and "key (xs ! i) = key y"
  shows "replace_by_key key y xs = xs[i := y]"
proof (rule nth_equalityI)
  show "length (replace_by_key key y xs) = length (xs[i := y])"
    by (simp add: replace_by_key_def)
next
  fix j assume "j < length (replace_by_key key y xs)"
  then have j: "j < length xs" by (simp add: replace_by_key_def)
  have "key (xs ! j) = key y \<longleftrightarrow> j = i"
    using assms j by (metis distinct_conv_nth length_map nth_map)
  with j show "replace_by_key key y xs ! j = xs[i := y] ! j"
    by (auto simp: replace_by_key_def nth_list_update)
qed

lemma distinct_map_update:
  "distinct (map key xs) \<Longrightarrow> i < length xs \<Longrightarrow> key y = key (xs ! i) \<Longrightarrow>
   distinct (map key (xs[i := y]))"
proof -
  assume d: "distinct (map key xs)" and i: "i < length xs" and k: "key y = key (xs ! i)"
  have "map key (xs[i := y]) = map key xs"
    using i k by (simp add: map_update list_update_same_conv)
  with d show ?thesis by simp
qed

lemma filter_key_distinct:
  "distinct (map key xs) \<Longrightarrow> i < length xs \<Longrightarrow>
   filter (\<lambda>x. key x \<noteq> key (xs ! i)) xs = take i xs @ drop (Suc i) xs"
proof (induction xs arbitrary: i)
  case Nil
  then show ?case by simp
next
  case (Cons x xs)
  then have notin: "key x \<notin> key ` set xs" by simp
  show ?case
  proof (cases i)
    case 0
    from notin have "filter (\<lambda>y. key y \<noteq> key x) xs = xs"
      by (simp add: filter_id_conv) (metis image_eqI)
    with 0 show ?thesis by simp
  next
    case (Suc k)
    with Cons.prems have k: "k < length xs" by simp
    then have "key (xs ! k) \<in> key ` set xs" by simp
    with notin have "key x \<noteq> key (xs ! k)" by auto
    with Suc k Cons show ?thesis by simp
  qed
qed
end
