(* ===== verification/Client.thy ===== *)
theory Client
  imports Prelude
begin

text \<open>
  The client wrapper (\<open>src/src/types.ts\<close> lines 96--374, the module the CLI
  imports as \<open>./client.js\<close>) over the \<open>anylist\<close> library. The library's list and
  item objects are records; the operations of the library that the wrapper calls
  (\<open>getItemByName\<close>, \<open>getListByName\<close>, \<open>createItem\<close>, \<open>addItem\<close>,
  \<open>removeItem\<close>, \<open>save\<close>) are modelled from the spec, which treats the library
  as an opaque collaborator: a lookup by exact name, the creation of an unchecked item
  with a fresh identifier, and a remote call per change.

  Every wrapper operation takes the in-memory snapshot of one list and returns its
  result, the snapshot after the operation (the wrapper mutates the library's objects
  in place: an item found by name is the list's own element, so a mutation is an update
  of the list at that position) and the remote calls it made, in order.
\<close>

section \<open>The library's objects\<close>

record anylist_item =
  name :: string
  quantity :: jsval
  details :: jsval
  checked :: bool
  item_identifier :: string
  categoryMatchId :: jsval

record anylist_list =
  list_name :: string
  list_identifier :: string
  items :: "anylist_item list"

text \<open>\<open>ListInfo\<close> and \<open>ItemInfo\<close>, the serialisable summaries the wrapper returns.\<close>

record ListInfo =
  li_name :: string
  li_identifier :: string
  itemCount :: nat
  checkedCount :: nat

record ItemInfo =
  info_name :: string
  info_quantity :: jsval
  info_details :: jsval
  info_checked :: bool
  info_identifier :: string
  info_categoryMatchId :: jsval

text \<open>The calls that reach the service; the first argument names the list.\<close>

datatype remote_call =
    SaveItem string anylist_item
  | AddItem string anylist_item
  | RemoveItem string anylist_item

type_synonym 'a client_op = "'a \<times> anylist_list \<times> remote_call list"

section \<open>The library operations the wrapper calls\<close>

text \<open>\<open>list.getItemByName(name)\<close>: the first item of exactly that name.\<close>

definition getItemByName :: "anylist_list \<Rightarrow> string \<Rightarrow> nat option" where
  "getItemByName l n = find_idx (\<lambda>i. name i = n) (items l)"

text \<open>\<open>client.getListByName(name)\<close>: the first list of exactly that name.\<close>

definition client_getListByName :: "anylist_list list \<Rightarrow> string \<Rightarrow> anylist_list option" where
  "client_getListByName ls n = find (\<lambda>l. list_name l = n) ls"

text \<open>\<open>client.createItem(options)\<close>: an unchecked item; the identifier is fresh.\<close>

definition createItem :: "string \<Rightarrow> string \<Rightarrow> jsval \<Rightarrow> jsval \<Rightarrow> jsval \<Rightarrow> anylist_item" where
  "createItem fresh n q d c =
    \<lparr>name = n, quantity = q, details = d, checked = False, item_identifier = fresh,
     categoryMatchId = c\<rparr>"

text \<open>\<open>list.addItem(item)\<close>: sends the item and appends it; returns it.\<close>

definition list_addItem :: "anylist_list \<Rightarrow> anylist_item \<Rightarrow> anylist_item client_op" where
  "list_addItem l it =
    (it, l\<lparr>items := items l @ [it]\<rparr>, [AddItem (list_identifier l) it])"

text \<open>\<open>list.removeItem(item)\<close>: sends the removal and drops the item by identifier.\<close>

definition list_removeItem :: "anylist_list \<Rightarrow> anylist_item \<Rightarrow> anylist_list \<times> remote_call list" where
  "list_removeItem l it =
    (l\<lparr>items := filter (\<lambda>x. item_identifier x \<noteq> item_identifier it) (items l)\<rparr>,
     [RemoveItem (list_identifier l) it])"

section \<open>The wrapper\<close>

text \<open>\<open>getLists\<close>: one \<open>ListInfo\<close> per fetched list.\<close>

definition getLists :: "anylist_list list \<Rightarrow> ListInfo list" where
  "getLists ls =
    map (\<lambda>l. \<lparr>li_name = list_name l, li_identifier = list_identifier l,
              itemCount = length (items l),
              checkedCount = length (filter checked (items l))\<rparr>) ls"

text \<open>\<open>getListByName\<close>: the exact match first, then the first case-insensitive one.\<close>

definition getListByName :: "anylist_list list \<Rightarrow> string \<Rightarrow> anylist_list option" where
  "getListByName ls n =
    (case client_getListByName ls n of
       Some l \<Rightarrow> Some l
     | None \<Rightarrow> find (\<lambda>l. toLowerCase (list_name l) = toLowerCase n) ls)"

text \<open>The \<open>ItemInfo\<close> literal every item operation returns.\<close>

definition item_info :: "anylist_item \<Rightarrow> ItemInfo" where
  "item_info it =
    \<lparr>info_name = name it, info_quantity = js_or (quantity it) (JsString ''''),
     info_details = js_or (details it) (JsString ''''), info_checked = checked it,
     info_identifier = item_identifier it,
     info_categoryMatchId = js_or (categoryMatchId it) (JsString ''other'')\<rparr>"

definition getItems :: "anylist_list \<Rightarrow> bool \<Rightarrow> ItemInfo list" where
  "getItems l uncheckedOnly =
    map item_info (if uncheckedOnly then filter (\<lambda>i. \<not> checked i) (items l) else items l)"

text \<open>\<open>findItemByName\<close>: the exact match first, then the first case-insensitive one.\<close>

definition findItemByName :: "anylist_list \<Rightarrow> string \<Rightarrow> nat option" where
  "findItemByName l n =
    (case getItemByName l n of
       Some i \<Rightarrow> Some i
     | None \<Rightarrow> find_idx (\<lambda>i. toLowerCase (name i) = toLowerCase n) (items l))"

text \<open>
  \<open>addItem\<close>: an existing item (found by name) is unchecked and takes the given
  quantity, category and details, and is saved if anything changed; otherwise a new item
  is created from the options that are set and added to the list. \<open>fresh\<close> is the
  identifier the library gives a new item.
\<close>

definition addItem ::
  "string \<Rightarrow> anylist_list \<Rightarrow> string \<Rightarrow> jsval \<Rightarrow> jsval \<Rightarrow> jsval \<Rightarrow> ItemInfo client_op" where
  "addItem fresh l n q c d =
    (case findItemByName l n of
       Some i \<Rightarrow>
         (let e0 = items l ! i;
              (e1, s1) = (if checked e0 then (e0\<lparr>checked := False\<rparr>, True) else (e0, False));
              (e2, s2) = (if js_truthy q then (e1\<lparr>quantity := q\<rparr>, True) else (e1, s1));
              (e3, s3) = (if js_truthy c then (e2\<lparr>categoryMatchId := c\<rparr>, True) else (e2, s2));
              (e4, s4) = (if d \<noteq> JsUndefined then (e3\<lparr>details := d\<rparr>, True) else (e3, s3))
          in (item_info e4, l\<lparr>items := (items l)[i := e4]\<rparr>,
              if s4 then [SaveItem (list_identifier l) e4] else []))
     | None \<Rightarrow>
         (let it = createItem fresh n (if js_truthy q then q else JsUndefined)
                     (if d \<noteq> JsUndefined then d else JsUndefined)
                     (if js_truthy c then c else JsUndefined);
              (added, l', cs) = list_addItem l it
          in (item_info added, l', cs)))"

definition checkItem :: "anylist_list \<Rightarrow> string \<Rightarrow> ItemInfo option client_op" where
  "checkItem l n =
    (case findItemByName l n of
       None \<Rightarrow> (None, l, [])
     | Some i \<Rightarrow>
         (let it = (items l ! i)\<lparr>checked := True\<rparr>
          in (Some (item_info it), l\<lparr>items := (items l)[i := it]\<rparr>,
              [SaveItem (list_identifier l) it])))"

definition uncheckItem :: "anylist_list \<Rightarrow> string \<Rightarrow> ItemInfo option client_op" where
  "uncheckItem l n =
    (case findItemByName l n of
       None \<Rightarrow> (None, l, [])
     | Some i \<Rightarrow>
         (let it = (items l ! i)\<lparr>checked := False\<rparr>
          in (Some (item_info it), l\<lparr>items := (items l)[i := it]\<rparr>,
              [SaveItem (list_identifier l) it])))"

definition updateItemDetails :: "anylist_list \<Rightarrow> string \<Rightarrow> string \<Rightarrow> ItemInfo option client_op" where
  "updateItemDetails l n d =
    (case findItemByName l n of
       None \<Rightarrow> (None, l, [])
     | Some i \<Rightarrow>
         (let it = (items l ! i)\<lparr>details := JsString d\<rparr>
          in (Some (item_info it), l\<lparr>items := (items l)[i := it]\<rparr>,
              [SaveItem (list_identifier l) it])))"

definition removeItem :: "anylist_list \<Rightarrow> string \<Rightarrow> bool client_op" where
  "removeItem l n =
    (case findItemByName l n of
       None \<Rightarrow> (False, l, [])
     | Some i \<Rightarrow> (let (l', cs) = list_removeItem l (items l ! i) in (True, l', cs)))"

text \<open>
  \<open>clearChecked\<close>: the checked items are collected first (\<open>filter\<close> copies the
  array), then removed one by one while a counter goes up; \<open>clear_loop\<close> is the
  \<open>for\<close> loop over that copy.
\<close>

fun clear_loop :: "anylist_list \<Rightarrow> anylist_item list \<Rightarrow> nat \<Rightarrow> nat client_op" where
  "clear_loop l [] count = (count, l, [])"
| "clear_loop l (it # its) count =
    (let (l1, cs1) = list_removeItem l it;
         (count', l2, cs2) = clear_loop l1 its (Suc count)
     in (count', l2, cs1 @ cs2))"

definition clearChecked :: "anylist_list \<Rightarrow> nat client_op" where
  "clearChecked l = clear_loop l (filter checked (items l)) 0"

section \<open>The service's copy of a list\<close>

text \<open>
  What each call does to the service's copy of the list it names: a saved item replaces
  the item with its identifier, an added item is appended, a removed one is dropped.
\<close>

fun apply_call :: "anylist_list \<Rightarrow> remote_call \<Rightarrow> anylist_list" where
  "apply_call l (SaveItem lid it) =
    (if lid = list_identifier l then l\<lparr>items := replace_by_key item_identifier it (items l)\<rparr> else l)"
| "apply_call l (AddItem lid it) =
    (if lid = list_identifier l then l\<lparr>items := items l @ [it]\<rparr> else l)"
| "apply_call l (RemoveItem lid it) =
    (if lid = list_identifier l
     then l\<lparr>items := filter (\<lambda>x. item_identifier x \<noteq> item_identifier it) (items l)\<rparr> else l)"

definition apply_calls :: "anylist_list \<Rightarrow> remote_call list \<Rightarrow> anylist_list" where
  "apply_calls l cs = fold (\<lambda>c l. apply_call l c) cs l"

text \<open>The invariant of a list: its items have distinct identifiers.\<close>

definition wf_list :: "anylist_list \<Rightarrow> bool" where
  "wf_list l \<longleftrightarrow> distinct (map item_identifier (items l))"

section \<open>What addItem writes to an existing item\<close>

text \<open>
  The item \<open>addItem\<close> leaves behind when it finds one (unchecked; quantity and
  category when given truthy; details when given at all) and whether it saves it.
\<close>

definition add_update :: "anylist_item \<Rightarrow> jsval \<Rightarrow> jsval \<Rightarrow> jsval \<Rightarrow> anylist_item" where
  "add_update e q c d =
    e\<lparr>checked := False, quantity := (if js_truthy q then q else quantity e),
      categoryMatchId := (if js_truthy c then c else categoryMatchId e),
      details := (if d \<noteq> JsUndefined then d else details e)\<rparr>"

definition add_needs_save :: "anylist_item \<Rightarrow> jsval \<Rightarrow> jsval \<Rightarrow> jsval \<Rightarrow> bool" where
  "add_needs_save e q c d \<longleftrightarrow> checked e \<or> js_truthy q \<or> js_truthy c \<or> d \<noteq> JsUndefined"

section \<open>The wrapper's mutating operations as one step function\<close>

text \<open>
  Each CLI invocation fetches the lists, runs one mutating wrapper operation on one
  list and exits. \<open>client_cmd\<close> names these operations (with the fresh identifier
  the library would give a new item), \<open>client_step\<close> runs one of them on a snapshot.
\<close>

datatype client_cmd =
    CmdAdd string string jsval jsval jsval
  | CmdCheck string
  | CmdUncheck string
  | CmdDetails string string
  | CmdRemove string
  | CmdClear

fun client_step :: "anylist_list \<Rightarrow> client_cmd \<Rightarrow> anylist_list \<times> remote_call list" where
  "client_step l (CmdAdd fresh n q c d) = snd (addItem fresh l n q c d)"
| "client_step l (CmdCheck n) = snd (checkItem l n)"
| "client_step l (CmdUncheck n) = snd (uncheckItem l n)"
| "client_step l (CmdDetails n d) = snd (updateItemDetails l n d)"
| "client_step l (CmdRemove n) = snd (removeItem l n)"
| "client_step l CmdClear = snd (clearChecked l)"

text \<open>The library's identifiers are fresh: a new item's is not in the list.\<close>

fun cmd_fresh_ok :: "anylist_list \<Rightarrow> client_cmd \<Rightarrow> bool" where
  "cmd_fresh_ok l (CmdAdd fresh n q c d) = (fresh \<notin> set (map item_identifier (items l)))"
| "cmd_fresh_ok l _ = True"

text \<open>
  The service's copy of a list over successive invocations: created empty, then
  changed by the calls of one operation on a snapshot fetched from it.
\<close>

inductive server_reach :: "anylist_list \<Rightarrow> bool" where
  created: "server_reach \<lparr>list_name = n, list_identifier = lid, items = []\<rparr>"
| invocation: "server_reach s \<Longrightarrow> cmd_fresh_ok s c \<Longrightarrow> client_step s c = (l', cs) \<Longrightarrow>
    server_reach (apply_calls s cs)"

section \<open>The types the TypeScript declarations promise\<close>

text \<open>
  \<open>AnyListItem\<close> and \<open>ItemInfo\<close> declare \<open>quantity\<close>, \<open>details\<close> and
  \<open>categoryMatchId\<close> as strings; the library leaves unset ones \<open>undefined\<close>, and
  the wrapper's \<open>ItemInfo\<close> literals replace those by strings.
\<close>

fun js_str_or_undef :: "jsval \<Rightarrow> bool" where
  "js_str_or_undef JsUndefined = True"
| "js_str_or_undef (JsString _) = True"
| "js_str_or_undef (JsObject _) = False"

fun js_is_string :: "jsval \<Rightarrow> bool" where
  "js_is_string (JsString _) = True"
| "js_is_string _ = False"

definition item_typed :: "anylist_item \<Rightarrow> bool" where
  "item_typed it \<longleftrightarrow>
    js_str_or_undef (quantity it) \<and> js_str_or_undef (details it) \<and> js_str_or_undef (categoryMatchId it)"

definition list_typed :: "anylist_list \<Rightarrow> bool" where
  "list_typed l \<longleftrightarrow> list_all item_typed (items l)"

definition info_typed :: "ItemInfo \<Rightarrow> bool" where
  "info_typed i \<longleftrightarrow>
    js_is_string (info_quantity i) \<and> js_is_string (info_details i) \<and> js_is_string (info_categoryMatchId i)"

fun cmd_typed :: "client_cmd \<Rightarrow> bool" where
  "cmd_typed (CmdAdd fresh n q c d) = (js_str_or_undef q \<and> js_str_or_undef c \<and> js_str_or_undef d)"
| "cmd_typed _ = True"

section \<open>Lemmas: lookup by name\<close>

named_theorems client_defs "definitions unfolded by the client lemmas"

declare getItemByName_def [client_defs] findItemByName_def [client_defs]
  list_removeItem_def [client_defs] list_addItem_def [client_defs] createItem_def [client_defs]

lemma getItemByName_Some_name:
  "getItemByName l n = Some i \<Longrightarrow> i < length (items l) \<and> name (items l ! i) = n"
  unfolding getItemByName_def using find_idx_Some_less find_idx_Some_holds by fastforce

lemma findItemByName_Some:
  assumes "findItemByName l n = Some i"
  shows "i < length (items l) \<and> toLowerCase (name (items l ! i)) = toLowerCase n"
proof (cases "getItemByName l n")
  case None
  with assms have "find_idx (\<lambda>i. toLowerCase (name i) = toLowerCase n) (items l) = Some i"
    by (simp add: findItemByName_def)
  then show ?thesis using find_idx_Some_less find_idx_Some_holds by fastforce
next
  case (Some j)
  with assms have "j = i" by (simp add: findItemByName_def)
  with Some show ?thesis using getItemByName_Some_name by blast
qed

lemma findItemByName_None_iff:
  "findItemByName l n = None \<longleftrightarrow> (\<forall>it\<in>set (items l). toLowerCase (name it) \<noteq> toLowerCase n)"
proof (cases "getItemByName l n")
  case None
  then show ?thesis by (simp add: findItemByName_def find_idx_None_iff)
next
  case (Some j)
  then have "items l ! j \<in> set (items l)" and "name (items l ! j) = n"
    using getItemByName_Some_name by auto
  with Some show ?thesis by (auto simp: findItemByName_def)
qed

lemma findItemByName_exact:
  "getItemByName l n = Some i \<Longrightarrow> findItemByName l n = Some i"
  by (simp add: findItemByName_def)

lemma getItemByName_None_iff:
  "getItemByName l n = None \<longleftrightarrow> (\<forall>it\<in>set (items l). name it \<noteq> n)"
  by (simp add: getItemByName_def find_idx_None_iff)



section \<open>Lemmas: the service's copy\<close>

lemma apply_calls_Nil [simp]: "apply_calls l [] = l"
  by (simp add: apply_calls_def)

lemma apply_calls_Cons [simp]: "apply_calls l (c # cs) = apply_calls (apply_call l c) cs"
  by (simp add: apply_calls_def)

lemma apply_calls_append [simp]: "apply_calls l (cs @ ds) = apply_calls (apply_calls l cs) ds"
  by (simp add: apply_calls_def)

lemma wf_list_update:
  "wf_list l \<Longrightarrow> i < length (items l) \<Longrightarrow> item_identifier it = item_identifier (items l ! i) \<Longrightarrow>
   wf_list (l\<lparr>items := (items l)[i := it]\<rparr>)"
  by (simp add: wf_list_def distinct_map_update)

text \<open>
  Saving an item that the wrapper mutated in place has, on the service's copy, the
  effect of the mutation on the snapshot: the shared step of every operation that
  changes one item.
\<close>

lemma save_in_place:
  assumes "wf_list l" and "i < length (items l)"
    and "item_identifier it = item_identifier (items l ! i)"
  shows "apply_call l (SaveItem (list_identifier l) it) = l\<lparr>items := (items l)[i := it]\<rparr>"
  using assms replace_by_key_distinct [of item_identifier "items l" i it]
  by (simp add: wf_list_def)

lemma list_removeItem_sync:
  "list_removeItem l it = (l', cs) \<Longrightarrow> apply_calls l cs = l'"
  by (auto simp: list_removeItem_def)

lemma list_removeItem_wf:
  "wf_list l \<Longrightarrow> list_removeItem l it = (l', cs) \<Longrightarrow> wf_list l'"
  by (auto simp: list_removeItem_def wf_list_def distinct_map_filter)


section \<open>Lemmas: clearChecked\<close>

lemma clear_loop_eq:
  "clear_loop l its c =
    (c + length its,
     l\<lparr>items := filter (\<lambda>x. item_identifier x \<notin> item_identifier ` set its) (items l)\<rparr>,
     map (RemoveItem (list_identifier l)) its)"
proof (induction its arbitrary: l c)
  case Nil
  then show ?case by simp
next
  case (Cons it its)
  show ?case
    by (simp add: Cons.IH list_removeItem_def Let_def conj_commute)
qed

lemma filter_not_in_checked_ids:
  assumes "distinct (map item_identifier xs)"
  shows "filter (\<lambda>x. item_identifier x \<notin> item_identifier ` set (filter checked xs)) xs =
         filter (\<lambda>x. \<not> checked x) xs"
proof (rule filter_cong [OF refl])
  fix x assume x: "x \<in> set xs"
  have inj: "inj_on item_identifier (set xs)"
    using assms by (simp add: distinct_map)
  show "(item_identifier x \<notin> item_identifier ` set (filter checked xs)) = (\<not> checked x)"
    using inj x by (auto simp: inj_on_def)
qed

lemma clearChecked_count: "fst (clearChecked l) = length (filter checked (items l))"
  by (simp add: clearChecked_def clear_loop_eq)

text \<open>C3 (functional). On a list whose identifiers are distinct, \<open>clearChecked\<close>
  removes exactly the checked items, keeps the others in order, sends one removal per
  checked item in list order and returns their number.\<close>

theorem clearChecked_correct:
  "wf_list l \<Longrightarrow> clearChecked l =
     (length (filter checked (items l)),
      l\<lparr>items := filter (\<lambda>x. \<not> checked x) (items l)\<rparr>,
      map (RemoveItem (list_identifier l)) (filter checked (items l)))"
  using filter_not_in_checked_ids [of "items l"]
  by (simp add: clearChecked_def clear_loop_eq wf_list_def)

lemma apply_calls_removes:
  "apply_calls l (map (RemoveItem (list_identifier l)) its) =
     l\<lparr>items := filter (\<lambda>x. item_identifier x \<notin> item_identifier ` set its) (items l)\<rparr>"
proof (induction its arbitrary: l)
  case Nil
  then show ?case by simp
next
  case (Cons it its)
  have "apply_call l (RemoveItem (list_identifier l) it) =
        l\<lparr>items := filter (\<lambda>x. item_identifier x \<noteq> item_identifier it) (items l)\<rparr>"
    by simp
  then show ?case
    using Cons.IH [of "l\<lparr>items := filter (\<lambda>x. item_identifier x \<noteq> item_identifier it) (items l)\<rparr>"]
    by (simp add: conj_commute)
qed

lemma clearChecked_sync:
  "clearChecked l = (count, l', cs) \<Longrightarrow> apply_calls l cs = l'"
  by (auto simp: clearChecked_def clear_loop_eq apply_calls_removes)


section \<open>Lemmas: addItem\<close>
lemma item_checked_False_id [simp]: "\<not> checked e \<Longrightarrow> e\<lparr>checked := False\<rparr> = e"
  by (cases e) simp

lemma add_update_unchanged: "\<not> add_needs_save e q c d \<Longrightarrow> add_update e q c d = e"
  by (simp add: add_update_def add_needs_save_def)

lemma addItem_existing_eq:
  "findItemByName l n = Some i \<Longrightarrow> addItem fresh l n q c d =
    (let e = add_update (items l ! i) q c d
     in (item_info e, l\<lparr>items := (items l)[i := e]\<rparr>,
         if add_needs_save (items l ! i) q c d then [SaveItem (list_identifier l) e] else []))"
proof -
  assume found: "findItemByName l n = Some i"
  then have i: "i < length (items l)" using findItemByName_Some by blast
  show ?thesis
    using found i by (simp add: addItem_def add_update_def add_needs_save_def Let_def)
qed

lemma addItem_new_eq:
  "findItemByName l n = None \<Longrightarrow> addItem fresh l n q c d =
    (let it = createItem fresh n (if js_truthy q then q else JsUndefined)
                (if d \<noteq> JsUndefined then d else JsUndefined) (if js_truthy c then c else JsUndefined)
     in (item_info it, l\<lparr>items := items l @ [it]\<rparr>, [AddItem (list_identifier l) it]))"
  by (simp add: addItem_def list_addItem_def Let_def)

text \<open>C4 (functional). When an item of the name exists (up to case), \<open>addItem\<close>
  updates that item in place rather than adding one: it is unchecked, takes the truthy
  quantity and category and any given details, keeps its name and identifier, nothing else
  changes, and it is saved exactly when something was set or it was checked.\<close>

theorem addItem_existing:
  assumes found: "findItemByName l n = Some i" and run: "addItem fresh l n q c d = (info, l', cs)"
  shows "length (items l') = length (items l) \<and> (\<forall>j. j \<noteq> i \<longrightarrow> items l' ! j = items l ! j) \<and>
    \<not> checked (items l' ! i) \<and> \<not> info_checked info \<and>
    name (items l' ! i) = name (items l ! i) \<and>
    item_identifier (items l' ! i) = item_identifier (items l ! i) \<and>
    quantity (items l' ! i) = (if js_truthy q then q else quantity (items l ! i)) \<and>
    categoryMatchId (items l' ! i) = (if js_truthy c then c else categoryMatchId (items l ! i)) \<and>
    details (items l' ! i) = (if d \<noteq> JsUndefined then d else details (items l ! i)) \<and>
    info = item_info (items l' ! i) \<and>
    cs = (if checked (items l ! i) \<or> js_truthy q \<or> js_truthy c \<or> d \<noteq> JsUndefined
          then [SaveItem (list_identifier l) (items l' ! i)] else [])"
proof -
  have i: "i < length (items l)" using found findItemByName_Some by blast
  from run found have "l' = l\<lparr>items := (items l)[i := add_update (items l ! i) q c d]\<rparr>"
    and "info = item_info (add_update (items l ! i) q c d)"
    and "cs = (if add_needs_save (items l ! i) q c d
               then [SaveItem (list_identifier l) (add_update (items l ! i) q c d)] else [])"
    by (simp_all add: addItem_existing_eq Let_def)
  with i show ?thesis by (simp add: add_update_def add_needs_save_def item_info_def)
qed

text \<open>C5 (functional). When no item of the name exists, \<open>addItem\<close> appends one new,
  unchecked item with that name, the fresh identifier and the options that were set, and
  sends exactly one addition.\<close>

theorem addItem_new:
  assumes missing: "findItemByName l n = None" and run: "addItem fresh l n q c d = (info, l', cs)"
  shows "\<exists>it. items l' = items l @ [it] \<and> name it = n \<and> \<not> checked it \<and>
    item_identifier it = fresh \<and> quantity it = (if js_truthy q then q else JsUndefined) \<and>
    categoryMatchId it = (if js_truthy c then c else JsUndefined) \<and> details it = d \<and>
    list_name l' = list_name l \<and> list_identifier l' = list_identifier l \<and>
    info = item_info it \<and> cs = [AddItem (list_identifier l) it]"
  using run by (simp add: addItem_new_eq [OF missing] createItem_def Let_def) auto

lemma addItem_sync:
  assumes wf: "wf_list l" and fresh: "fresh \<notin> set (map item_identifier (items l))"
    and run: "addItem fresh l n q c d = (info, l', cs)"
  shows "apply_calls l cs = l' \<and> wf_list l'"
proof (cases "findItemByName l n")
  case None
  with run fresh wf show ?thesis
    by (auto simp: addItem_new_eq createItem_def Let_def wf_list_def)
next
  case (Some i)
  let ?e = "add_update (items l ! i) q c d"
  have i: "i < length (items l)" using Some findItemByName_Some by blast
  have ident: "item_identifier ?e = item_identifier (items l ! i)"
    by (simp add: add_update_def)
  have l': "l' = l\<lparr>items := (items l)[i := ?e]\<rparr>"
    using run by (simp add: addItem_existing_eq [OF Some] Let_def)
  have "apply_calls l cs = l'"
  proof (cases "add_needs_save (items l ! i) q c d")
    case True
    with run Some have "cs = [SaveItem (list_identifier l) ?e]"
      by (simp add: addItem_existing_eq Let_def)
    with l' show ?thesis using save_in_place [OF wf i ident] by simp
  next
    case False
    with run Some have "cs = []" by (simp add: addItem_existing_eq Let_def)
    with l' False show ?thesis by (simp add: add_update_unchanged)
  qed
  moreover have "wf_list l'" using l' wf_list_update [OF wf i ident] by simp
  ultimately show ?thesis ..
qed


section \<open>Lemmas: the item operations\<close>

text \<open>The shared shape of \<open>checkItem\<close>, \<open>uncheckItem\<close> and \<open>updateItemDetails\<close>.\<close>

lemma mutate_found_sync:
  assumes "wf_list l" and "findItemByName l n = Some i"
    and "item_identifier (f (items l ! i)) = item_identifier (items l ! i)"
  shows "apply_calls l [SaveItem (list_identifier l) (f (items l ! i))] =
           l\<lparr>items := (items l)[i := f (items l ! i)]\<rparr> \<and>
         wf_list (l\<lparr>items := (items l)[i := f (items l ! i)]\<rparr>)"
proof -
  have i: "i < length (items l)" using assms(2) findItemByName_Some by blast
  show ?thesis using save_in_place [OF assms(1) i assms(3)] wf_list_update [OF assms(1) i assms(3)]
    by simp
qed

text \<open>C6 (functional). When \<open>findItemByName\<close> finds an item, \<open>checkItem\<close> checks
  exactly that item, changes nothing else, saves it once and returns its summary.\<close>

theorem checkItem_found:
  assumes found: "findItemByName l n = Some i" and run: "checkItem l n = (r, l', cs)"
  shows "length (items l') = length (items l) \<and> (\<forall>j. j \<noteq> i \<longrightarrow> items l' ! j = items l ! j) \<and>
    checked (items l' ! i) \<and> (items l' ! i)\<lparr>checked := checked (items l ! i)\<rparr> = items l ! i \<and>
    toLowerCase (name (items l' ! i)) = toLowerCase n \<and>
    r = Some (item_info (items l' ! i)) \<and> cs = [SaveItem (list_identifier l) (items l' ! i)]"
proof -
  have i: "i < length (items l)" and nm: "toLowerCase (name (items l ! i)) = toLowerCase n"
    using found findItemByName_Some by blast+
  from run found show ?thesis using i nm by (auto simp: checkItem_def Let_def)
qed

text \<open>When \<open>findItemByName\<close> finds an item, \<open>uncheckItem\<close>
  unchecks exactly that item, changes nothing else, saves it once and returns its summary.\<close>

theorem uncheckItem_found:
  assumes found: "findItemByName l n = Some i" and run: "uncheckItem l n = (r, l', cs)"
  shows "length (items l') = length (items l) \<and> (\<forall>j. j \<noteq> i \<longrightarrow> items l' ! j = items l ! j) \<and>
    \<not> checked (items l' ! i) \<and> (items l' ! i)\<lparr>checked := checked (items l ! i)\<rparr> = items l ! i \<and>
    toLowerCase (name (items l' ! i)) = toLowerCase n \<and>
    r = Some (item_info (items l' ! i)) \<and> cs = [SaveItem (list_identifier l) (items l' ! i)]"
proof -
  have i: "i < length (items l)" and nm: "toLowerCase (name (items l ! i)) = toLowerCase n"
    using found findItemByName_Some by blast+
  from run found show ?thesis using i nm by (auto simp: uncheckItem_def Let_def)
qed

text \<open>C7 (error). When no item matches the name (up to case), \<open>checkItem\<close>,
  \<open>uncheckItem\<close> and \<open>updateItemDetails\<close> return \<open>null\<close> and \<open>removeItem\<close>
  returns false, each leaving the list as it was and sending nothing.\<close>

theorem item_not_found:
  assumes "\<forall>it\<in>set (items l). toLowerCase (name it) \<noteq> toLowerCase n"
  shows "checkItem l n = (None, l, []) \<and> uncheckItem l n = (None, l, []) \<and>
    updateItemDetails l n d = (None, l, []) \<and> removeItem l n = (False, l, [])"
proof -
  from assms have "findItemByName l n = None" by (simp add: findItemByName_None_iff)
  then show ?thesis
    by (simp add: checkItem_def uncheckItem_def updateItemDetails_def removeItem_def)
qed


text \<open>C10 (functional). On a list with distinct identifiers, when \<open>findItemByName\<close>
  finds an item, \<open>removeItem\<close> returns true, removes exactly that item (the others
  keep their order) and sends one removal.\<close>

theorem removeItem_found:
  assumes wf: "wf_list l" and found: "findItemByName l n = Some i"
    and run: "removeItem l n = (r, l', cs)"
  shows "r \<and> items l' = take i (items l) @ drop (Suc i) (items l) \<and>
    cs = [RemoveItem (list_identifier l) (items l ! i)]"
proof -
  have i: "i < length (items l)" using found findItemByName_Some by blast
  with wf have "filter (\<lambda>x. item_identifier x \<noteq> item_identifier (items l ! i)) (items l) =
        take i (items l) @ drop (Suc i) (items l)"
    by (simp add: wf_list_def filter_key_distinct)
  with run found show ?thesis by (auto simp: removeItem_def list_removeItem_def)
qed

section \<open>Lemmas: the service and the snapshot agree\<close>

lemma mutate_op_sync:
  assumes wf: "wf_list l"
    and op: "op l n = (case findItemByName l n of None \<Rightarrow> (r0, l, [])
        | Some i \<Rightarrow> (let it = f (items l ! i) in (g it, l\<lparr>items := (items l)[i := it]\<rparr>,
                      [SaveItem (list_identifier l) it])))"
    and run: "snd (op l n) = (l', cs)"
    and ident: "\<And>e. item_identifier (f e) = item_identifier e"
  shows "apply_calls l cs = l' \<and> wf_list l'"
proof (cases "findItemByName l n")
  case None
  with op run wf show ?thesis by simp
next
  case (Some i)
  with op run mutate_found_sync [OF wf Some, of f] ident show ?thesis
    by (simp add: Let_def)
qed

lemma client_step_sync:
  assumes wf: "wf_list l" and ok: "cmd_fresh_ok l c" and step: "client_step l c = (l', cs)"
  shows "apply_calls l cs = l' \<and> wf_list l'"
proof (cases c)
  case (CmdAdd fresh n q cat d)
  with step obtain info where "addItem fresh l n q cat d = (info, l', cs)"
    by (cases "addItem fresh l n q cat d") auto
  with CmdAdd wf ok show ?thesis using addItem_sync by auto
next
  case (CmdCheck n)
  with step have "snd (checkItem l n) = (l', cs)" by simp
  then show ?thesis
    by (rule mutate_op_sync [where op = checkItem and f = "\<lambda>e. e\<lparr>checked := True\<rparr>" and g = "\<lambda>it. Some (item_info it)",
          OF wf checkItem_def]) simp
next
  case (CmdUncheck n)
  with step have "snd (uncheckItem l n) = (l', cs)" by simp
  then show ?thesis
    by (rule mutate_op_sync [where op = uncheckItem and f = "\<lambda>e. e\<lparr>checked := False\<rparr>" and g = "\<lambda>it. Some (item_info it)",
          OF wf uncheckItem_def]) simp
next
  case (CmdDetails n d)
  with step have "snd (updateItemDetails l n d) = (l', cs)" by simp
  then show ?thesis
    by (rule mutate_op_sync [where op = "\<lambda>l n. updateItemDetails l n d" and f = "\<lambda>e. e\<lparr>details := JsString d\<rparr>" and g = "\<lambda>it. Some (item_info it)",
          OF wf updateItemDetails_def]) simp
next
  case (CmdRemove n)
  show ?thesis
  proof (cases "findItemByName l n")
    case None
    with step CmdRemove show ?thesis using wf by (simp add: removeItem_def)
  next
    case (Some i)
    with step CmdRemove have "list_removeItem l (items l ! i) = (l', cs)"
      by (simp add: removeItem_def split: prod.splits)
    with wf show ?thesis using list_removeItem_sync list_removeItem_wf by blast
  qed
next
  case CmdClear
  with step obtain count where run: "clearChecked l = (count, l', cs)"
    by (cases "clearChecked l") auto
  then have "apply_calls l cs = l'" by (rule clearChecked_sync)
  moreover have "wf_list l'"
    using run wf by (auto simp: clearChecked_def clear_loop_eq wf_list_def distinct_map_filter)
  ultimately show ?thesis ..
qed

lemma client_step_calls_short:
  "client_step l cc = (l', cs) \<Longrightarrow> cc \<noteq> CmdClear \<Longrightarrow> length cs \<le> 1"
  by (cases cc) (auto simp: addItem_def checkItem_def uncheckItem_def updateItemDetails_def removeItem_def
      list_removeItem_def list_addItem_def Let_def split: option.splits prod.splits if_splits)

text \<open>A step interrupted after any number of its calls leaves the service's copy well formed:
  only \<open>clearChecked\<close> sends more than one call, and a prefix of its removals removes
  some of the checked items.\<close>

lemma client_step_prefix_wf:
  assumes wf: "wf_list l" and ok: "cmd_fresh_ok l cc" and step: "client_step l cc = (l', cs)"
  shows "wf_list (apply_calls l (take j cs))"
proof (cases "length cs \<le> j")
  case True
  then show ?thesis using client_step_sync [OF wf ok step] by simp
next
  case short: False
  show ?thesis
  proof (cases "cc = CmdClear")
    case True
    then have "cs = map (RemoveItem (list_identifier l)) (filter checked (items l))"
      using step by (simp add: clearChecked_def clear_loop_eq)
    then show ?thesis
      using wf by (simp add: take_map apply_calls_removes wf_list_def distinct_map_filter)
  next
    case False
    with client_step_calls_short [OF step] short have "j = 0" by simp
    then show ?thesis using wf by simp
  qed
qed

lemma server_reach_imp_wf: "server_reach s \<Longrightarrow> wf_list s"
proof (induction rule: server_reach.induct)
  case (created n lid)
  then show ?case by (simp add: wf_list_def)
next
  case (invocation s c l' cs)
  then show ?case using client_step_sync by metis
qed


section \<open>Example data and evaluation\<close>

lemmas client_eval = addItem_def checkItem_def uncheckItem_def updateItemDetails_def removeItem_def
  clearChecked_def findItemByName_def getItemByName_def createItem_def list_addItem_def
  list_removeItem_def item_info_def js_or_def getLists_def getItems_def getListByName_def
  client_getListByName_def wf_list_def replace_by_key_def Let_def

abbreviation ex_milk :: anylist_item where
  "ex_milk \<equiv> \<lparr>name = ''Milk'', quantity = JsString ''2'', details = JsUndefined, checked = False,
              item_identifier = ''i1'', categoryMatchId = JsString ''dairy''\<rparr>"

abbreviation ex_eggs :: anylist_item where
  "ex_eggs \<equiv> \<lparr>name = ''Eggs'', quantity = JsUndefined, details = JsUndefined, checked = True,
              item_identifier = ''i2'', categoryMatchId = JsUndefined\<rparr>"

abbreviation ex_list :: anylist_list where
  "ex_list \<equiv> \<lparr>list_name = ''Grocery'', list_identifier = ''L1'', items = [ex_milk, ex_eggs]\<rparr>"


section \<open>Headline theorems\<close>

text \<open>C1 (refinement). Over any sequence of invocations, each running one mutating
  wrapper operation on a snapshot fetched from the service, the calls the operation sends
  turn the service's copy of the list into exactly the snapshot the wrapper left behind.\<close>

theorem server_reach_sync:
  assumes "server_reach s" and "cmd_fresh_ok s c" and "client_step s c = (l', cs)"
  shows "apply_calls s cs = l'"
  using assms server_reach_imp_wf client_step_sync by blast

theorem server_reach_sync_witness:
  "apply_calls \<lparr>list_name = ''Grocery'', list_identifier = ''L1'', items = [ex_milk]\<rparr>
     [SaveItem ''L1'' (ex_milk\<lparr>checked := True\<rparr>)] =
   \<lparr>list_name = ''Grocery'', list_identifier = ''L1'', items = [ex_milk\<lparr>checked := True\<rparr>]\<rparr>"
proof -
  let ?s0 = "\<lparr>list_name = ''Grocery'', list_identifier = ''L1'', items = []\<rparr>"
  let ?s1 = "\<lparr>list_name = ''Grocery'', list_identifier = ''L1'', items = [ex_milk]\<rparr>"
  let ?add = "CmdAdd ''i1'' ''Milk'' (JsString ''2'') (JsString ''dairy'') JsUndefined"
  have r0: "server_reach ?s0" by (rule server_reach.created)
  have st1: "client_step ?s0 ?add = (?s1, [AddItem ''L1'' ex_milk])"
    by (simp add: client_eval)
  have r1: "server_reach (apply_calls ?s0 [AddItem ''L1'' ex_milk])"
    by (rule server_reach.invocation [OF r0 _ st1]) simp
  have s1: "apply_calls ?s0 [AddItem ''L1'' ex_milk] = ?s1" by simp
  have st2: "client_step ?s1 (CmdCheck ''MILK'') =
     (?s1\<lparr>items := [ex_milk\<lparr>checked := True\<rparr>]\<rparr>, [SaveItem ''L1'' (ex_milk\<lparr>checked := True\<rparr>)])"
    by (simp add: client_eval lower_eval)
  show ?thesis using server_reach_sync [OF r1 [unfolded s1] _ st2] by simp
qed


lemma ex_reach: "server_reach \<lparr>list_name = ''Grocery'', list_identifier = ''L1'', items = [ex_milk]\<rparr>"
proof -
  let ?s0 = "\<lparr>list_name = ''Grocery'', list_identifier = ''L1'', items = []\<rparr>"
  have r0: "server_reach ?s0" by (rule server_reach.created)
  have st: "client_step ?s0 (CmdAdd ''i1'' ''Milk'' (JsString ''2'') (JsString ''dairy'') JsUndefined) =
      (?s0\<lparr>items := [ex_milk]\<rparr>, [AddItem ''L1'' ex_milk])"
    by (simp add: client_eval)
  have "server_reach (apply_calls ?s0 [AddItem ''L1'' ex_milk])"
    by (rule server_reach.invocation [OF r0 _ st]) simp
  then show ?thesis by simp
qed

text \<open>C2 (invariant). In every state the service's copy of a list can reach through
  the wrapper's operations, its items have pairwise distinct identifiers.\<close>

theorem server_reach_distinct_ids: "server_reach s \<Longrightarrow> distinct (map item_identifier (items s))"
  using server_reach_imp_wf by (simp add: wf_list_def)

theorem server_reach_distinct_ids_witness:
  "distinct (map item_identifier (items \<lparr>list_name = ''Grocery'', list_identifier = ''L1'', items = [ex_milk]\<rparr>))"
  by (rule server_reach_distinct_ids [OF ex_reach])

theorem clearChecked_correct_witness:
  "clearChecked ex_list = (1, ex_list\<lparr>items := [ex_milk]\<rparr>, [RemoveItem ''L1'' ex_eggs])"
proof -
  have "wf_list ex_list" by (simp add: wf_list_def)
  then show ?thesis using clearChecked_correct [of ex_list] by simp
qed

theorem addItem_existing_witness:
  "\<exists>info l' cs. addItem ''i9'' ex_list ''eggs'' (JsString ''12'') JsUndefined JsUndefined = (info, l', cs) \<and>
     \<not> checked (items l' ! 1) \<and> quantity (items l' ! 1) = JsString ''12'' \<and>
     cs = [SaveItem ''L1'' (items l' ! 1)]"
proof -
  have f: "findItemByName ex_list ''eggs'' = Some 1" by (simp add: client_eval lower_eval)
  obtain info l' cs where run: "addItem ''i9'' ex_list ''eggs'' (JsString ''12'') JsUndefined JsUndefined = (info, l', cs)"
    by (cases "addItem ''i9'' ex_list ''eggs'' (JsString ''12'') JsUndefined JsUndefined") auto
  from addItem_existing [OF f run] run show ?thesis by auto
qed

theorem addItem_new_witness:
  "\<exists>info l' cs. addItem ''i3'' ex_list ''Bread'' JsUndefined (JsString ''bakery-bread'') JsUndefined = (info, l', cs) \<and>
     items l' = [ex_milk, ex_eggs, \<lparr>name = ''Bread'', quantity = JsUndefined, details = JsUndefined,
        checked = False, item_identifier = ''i3'', categoryMatchId = JsString ''bakery-bread''\<rparr>] \<and>
     length cs = 1"
proof -
  have f: "findItemByName ex_list ''Bread'' = None" by (simp add: client_eval lower_eval)
  obtain info l' cs where run: "addItem ''i3'' ex_list ''Bread'' JsUndefined (JsString ''bakery-bread'') JsUndefined = (info, l', cs)"
    by (cases "addItem ''i3'' ex_list ''Bread'' JsUndefined (JsString ''bakery-bread'') JsUndefined") auto
  from addItem_new [OF f run] run show ?thesis by auto
qed

theorem checkItem_found_witness:
  "\<exists>r l' cs. checkItem ex_list ''MILK'' = (r, l', cs) \<and> checked (items l' ! 0) \<and>
     items l' ! 1 = ex_eggs \<and> cs = [SaveItem ''L1'' (items l' ! 0)]"
proof -
  have f: "findItemByName ex_list ''MILK'' = Some 0" by (simp add: client_eval lower_eval)
  obtain r l' cs where run: "checkItem ex_list ''MILK'' = (r, l', cs)"
    by (cases "checkItem ex_list ''MILK''") auto
  from checkItem_found [OF f run] run show ?thesis by auto
qed

theorem uncheckItem_found_witness:
  "\<exists>r l' cs. uncheckItem ex_list ''eggs'' = (r, l', cs) \<and> \<not> checked (items l' ! 1) \<and>
     items l' ! 0 = ex_milk \<and> length cs = 1"
proof -
  have f: "findItemByName ex_list ''eggs'' = Some 1" by (simp add: client_eval lower_eval)
  obtain r l' cs where run: "uncheckItem ex_list ''eggs'' = (r, l', cs)"
    by (cases "uncheckItem ex_list ''eggs''") auto
  from uncheckItem_found [OF f run] show ?thesis using run by auto
qed

theorem item_not_found_witness:
  "checkItem ex_list ''Bread'' = (None, ex_list, []) \<and> removeItem ex_list ''Bread'' = (False, ex_list, [])"
proof -
  have "\<forall>it\<in>set (items ex_list). toLowerCase (name it) \<noteq> toLowerCase ''Bread''"
    by (simp add: lower_eval)
  from item_not_found [OF this] show ?thesis by simp
qed

text \<open>C8 (functional). Whether an item is found does not depend on the casing of the
  name asked for.\<close>

theorem findItemByName_case_insensitive:
  "toLowerCase n = toLowerCase n' \<Longrightarrow> (findItemByName l n = None) = (findItemByName l n' = None)"
  by (simp add: findItemByName_None_iff)

theorem findItemByName_case_insensitive_witness:
  "(findItemByName ex_list ''milk'' = None) = (findItemByName ex_list ''MILK'' = None)"
  by (rule findItemByName_case_insensitive) (simp add: lower_eval)

text \<open>C9 (functional). \<open>findItemByName\<close> returns the position of an item whose name
  equals the one asked for up to case, and one of exactly that name when there is one.\<close>

theorem findItemByName_result:
  assumes "findItemByName l n = Some i"
  shows "i < length (items l) \<and> toLowerCase (name (items l ! i)) = toLowerCase n \<and>
    ((\<exists>it\<in>set (items l). name it = n) \<longrightarrow> name (items l ! i) = n)"
proof (cases "getItemByName l n")
  case None
  then have "\<not> (\<exists>it\<in>set (items l). name it = n)" by (simp add: getItemByName_None_iff)
  with assms show ?thesis using findItemByName_Some by blast
next
  case (Some j)
  with assms have "j = i" by (simp add: findItemByName_def)
  with Some assms show ?thesis using getItemByName_Some_name findItemByName_Some by blast
qed

theorem findItemByName_result_witness:
  "name (items ex_list ! 1) = ''Eggs''"
proof -
  have "findItemByName ex_list ''Eggs'' = Some 1" by (simp add: client_eval)
  from findItemByName_result [OF this] show ?thesis by simp
qed

theorem removeItem_found_witness:
  "\<exists>r l' cs. removeItem ex_list ''EGGS'' = (r, l', cs) \<and> r \<and> items l' = [ex_milk] \<and>
     cs = [RemoveItem ''L1'' ex_eggs]"
proof -
  have wf: "wf_list ex_list" by (simp add: wf_list_def)
  have f: "findItemByName ex_list ''EGGS'' = Some 1" by (simp add: client_eval lower_eval)
  obtain r l' cs where run: "removeItem ex_list ''EGGS'' = (r, l', cs)"
    by (cases "removeItem ex_list ''EGGS''") auto
  from removeItem_found [OF wf f run] run show ?thesis by auto
qed




text \<open>C17 (functional). \<open>getItems\<close> returns one summary per item, in order, or per
  unchecked item with \<open>--unchecked\<close>; every summary has a truthy category, \<open>other\<close>
  when the item has none.\<close>

theorem getItems_result:
  "getItems l u = map item_info (filter (\<lambda>i. u \<longrightarrow> \<not> checked i) (items l)) \<and>
   (\<forall>info\<in>set (getItems l u). (u \<longrightarrow> \<not> info_checked info) \<and> js_truthy (info_categoryMatchId info)) \<and>
   (\<not> u \<longrightarrow> length (getItems l u) = length (items l))"
  by (auto simp: getItems_def item_info_def js_or_def)

theorem getItems_result_witness:
  "getItems ex_list True = [item_info ex_milk] \<and> info_categoryMatchId (hd (getItems ex_list True)) = JsString ''dairy''"
  using getItems_result [of ex_list True] by (simp add: item_info_def js_or_def)

text \<open>C18 (functional). \<open>getListByName\<close> returns a fetched list whose name equals the
  one asked for up to case, one of exactly that name when there is one, and nothing only
  when no list matches.\<close>

theorem getListByName_result:
  "(getListByName ls n = None \<longleftrightarrow> (\<forall>l\<in>set ls. toLowerCase (list_name l) \<noteq> toLowerCase n)) \<and>
   (getListByName ls n = Some l \<longrightarrow> l \<in> set ls \<and> toLowerCase (list_name l) = toLowerCase n \<and>
      ((\<exists>l'\<in>set ls. list_name l' = n) \<longrightarrow> list_name l = n))"
proof (cases "find (\<lambda>l. list_name l = n) ls")
  case None
  then have eq: "getListByName ls n = find (\<lambda>l. toLowerCase (list_name l) = toLowerCase n) ls"
    by (simp add: getListByName_def client_getListByName_def)
  from None have "\<forall>l\<in>set ls. list_name l \<noteq> n" by (simp add: find_None_iff)
  then show ?thesis unfolding eq by (auto simp: find_None_iff dest: find_SomeD)
next
  case (Some l0)
  then have "l0 \<in> set ls \<and> list_name l0 = n" by (rule find_SomeD)
  with Some show ?thesis by (auto simp: getListByName_def client_getListByName_def)
qed

theorem getListByName_result_witness:
  "getListByName [ex_list] ''grocery'' = Some ex_list"
proof -
  have "getListByName [ex_list] ''grocery'' \<noteq> None"
    using getListByName_result [of "[ex_list]" "''grocery''"] by (simp add: lower_eval)
  moreover have "\<forall>l. getListByName [ex_list] ''grocery'' = Some l \<longrightarrow> l = ex_list"
    using getListByName_result [of "[ex_list]" "''grocery''"] by simp
  ultimately show ?thesis by auto
qed


lemma js_or_string: "js_str_or_undef a \<Longrightarrow> js_is_string (js_or a (JsString s))"
  by (cases a) (simp_all add: js_or_def)

lemma item_info_typed: "item_typed it \<Longrightarrow> info_typed (item_info it)"
  by (simp add: item_typed_def info_typed_def item_info_def js_or_string)

lemma list_typed_update:
  "list_typed l \<Longrightarrow> item_typed it \<Longrightarrow> list_typed (l\<lparr>items := (items l)[i := it]\<rparr>)"
  by (auto simp: list_typed_def list_all_iff dest: set_update_subset_insert [THEN subsetD])

lemma list_typed_filter: "list_typed l \<Longrightarrow> list_typed (l\<lparr>items := filter P (items l)\<rparr>)"
  by (simp add: list_typed_def list_all_iff)

lemma list_typed_nth: "list_typed l \<Longrightarrow> i < length (items l) \<Longrightarrow> item_typed (items l ! i)"
  by (simp add: list_typed_def list_all_length)

lemma found_typed:
  "list_typed l \<Longrightarrow> findItemByName l n = Some i \<Longrightarrow> item_typed (items l ! i)"
  using findItemByName_Some list_typed_nth by blast

lemma mutate_typed:
  assumes "list_typed l" and "findItemByName l n = Some i"
    and "item_typed (items l ! i) \<Longrightarrow> item_typed (f (items l ! i))"
  shows "list_typed (l\<lparr>items := (items l)[i := f (items l ! i)]\<rparr>)"
  using assms found_typed list_typed_update by blast

lemma js_str_or_undef_if: "js_str_or_undef a \<Longrightarrow> js_str_or_undef (if P then a else JsUndefined)"
  by simp

lemma client_step_typed_list:
  assumes typed: "list_typed l" and cmd: "cmd_typed cc" and step: "client_step l cc = (l', cs)"
  shows "list_typed l'"
proof (cases cc)
  case (CmdAdd fresh n q c d)
  show ?thesis
  proof (cases "findItemByName l n")
    case None
    then show ?thesis using typed cmd step CmdAdd
      by (auto simp: addItem_new_eq Let_def list_typed_def item_typed_def createItem_def)
  next
    case (Some i)
    have "i < length (items l)" using findItemByName_Some [OF Some] by simp
    then have "item_typed (items l ! i)" using typed by (rule list_typed_nth [rotated])
    then have "item_typed (add_update (items l ! i) q c d)"
      using cmd CmdAdd by (auto simp: item_typed_def add_update_def)
    then show ?thesis using typed step CmdAdd Some
      by (auto simp: addItem_existing_eq Let_def intro: list_typed_update)
  qed
next
  case (CmdCheck n)
  then show ?thesis using typed step
    by (cases "findItemByName l n")
      (auto simp: checkItem_def Let_def item_typed_def intro!: mutate_typed)
next
  case (CmdUncheck n)
  then show ?thesis using typed step
    by (cases "findItemByName l n")
      (auto simp: uncheckItem_def Let_def item_typed_def intro!: mutate_typed)
next
  case (CmdDetails n d)
  then show ?thesis using typed step
    by (cases "findItemByName l n")
      (auto simp: updateItemDetails_def Let_def item_typed_def intro!: mutate_typed)
next
  case (CmdRemove n)
  then show ?thesis using typed step
    by (auto simp: removeItem_def list_removeItem_def intro: list_typed_filter split: option.splits)
next
  case CmdClear
  then show ?thesis using typed step
    by (auto simp: clearChecked_def clear_loop_eq intro: list_typed_filter)
qed

text \<open>C38 (type). The fields the TypeScript types declare as strings stay strings: on a
  list whose items hold strings or \<open>undefined\<close> in \<open>quantity\<close>, \<open>details\<close> and
  \<open>categoryMatchId\<close>, every wrapper operation with such arguments leaves the list so,
  and every \<open>ItemInfo\<close> built from its items has string fields (the \<open>|| ""\<close> and
  \<open>|| "other"\<close> defaults). The category bug of \<open>add\<close> (C13) passes an inherited
  object as the category, which is exactly what the hypothesis on the arguments excludes.\<close>

theorem client_step_typed:
  assumes "list_typed l" and "cmd_typed cc" and "client_step l cc = (l', cs)"
  shows "list_typed l' \<and> list_all (\<lambda>it. info_typed (item_info it)) (items l')"
proof -
  have "list_typed l'" using client_step_typed_list [OF assms] .
  then show ?thesis by (auto simp: list_typed_def list_all_iff item_info_typed)
qed

theorem client_step_typed_witness:
  "list_typed (fst (client_step ex_list (CmdAdd ''i3'' ''Bread'' JsUndefined (JsString ''bakery-bread'') JsUndefined)))"
proof -
  let ?c = "CmdAdd ''i3'' ''Bread'' JsUndefined (JsString ''bakery-bread'') JsUndefined"
  have "list_typed ex_list" by (simp add: list_typed_def item_typed_def)
  from client_step_typed [OF this, of ?c "fst (client_step ex_list ?c)" "snd (client_step ex_list ?c)"]
  show ?thesis by simp
qed

text \<open>With the category \<open>add --category constructor\<close> resolves to, the new item's
  category is an inherited function, and its \<open>ItemInfo\<close> has no string category.\<close>

lemma inherited_category_untyped:
  "\<not> info_typed (item_info (last (items (fst (client_step ex_list
      (CmdAdd ''i3'' ''Bread'' JsUndefined (JsObject ''constructor'') JsUndefined))))))"
  by (simp add: client_eval info_typed_def lower_eval)

end
