(* ===== verification/Json.thy ===== *)
theory Json
  imports Prelude
begin

text \<open>
  The JSON layer the config file goes through: \<open>saveConfig\<close> writes
  \<open>JSON.stringify(config, null, 2)\<close> and \<open>loadConfig\<close> reads the file back with
  \<open>JSON.parse\<close> (\<open>src/src/config.ts\<close>). Both are ECMAScript built-ins, modelled here
  from the standard (ECMA-262 \<open>JSON.parse\<close>, \<open>SerializeJSONObject\<close>,
  \<open>QuoteJSONString\<close>; ECMA-404 for the grammar). Characters are the 8-bit
  \<open>char\<close> of HOL standing for UTF-16 code units: a \<open>\u\<close> escape of a code unit
  above 255 is outside the model and is rejected. A number is kept as its lexeme, checked
  against the grammar; the CLI only needs its truthiness.
\<close>

datatype json = JNull | JBool bool | JNum string | JStr string | JArr "json list"
  | JObj "(string \<times> json) list"

abbreviation dquote :: char where "dquote \<equiv> CHR 0x22"
abbreviation backslash :: char where "backslash \<equiv> CHR 0x5C"

section \<open>JavaScript view of a parsed value\<close>

text \<open>
  Truthiness (\<open>null\<close>, \<open>false\<close>, zero and the empty string are falsy) and the
  member access \<open>v?.key\<close> (\<open>None\<close> is \<open>undefined\<close>; for duplicate keys
  \<open>JSON.parse\<close> keeps the last one).
\<close>

definition is_digit :: "char \<Rightarrow> bool" where
  "is_digit c \<longleftrightarrow> 48 \<le> (of_char c :: nat) \<and> (of_char c :: nat) \<le> 57"

definition zero_lexeme :: "string \<Rightarrow> bool" where
  "zero_lexeme s \<longleftrightarrow>
    (\<forall>c\<in>set (takeWhile (\<lambda>c. c \<noteq> CHR ''e'' \<and> c \<noteq> CHR ''E'') s). \<not> is_digit c \<or> c = CHR ''0'')"

fun json_truthy :: "json \<Rightarrow> bool" where
  "json_truthy JNull = False"
| "json_truthy (JBool b) = b"
| "json_truthy (JNum s) = (\<not> zero_lexeme s)"
| "json_truthy (JStr s) = (s \<noteq> [])"
| "json_truthy (JArr _) = True"
| "json_truthy (JObj _) = True"

fun json_get :: "json \<Rightarrow> string \<Rightarrow> json option" where
  "json_get (JObj ms) k = map_of (rev ms) k"
| "json_get _ k = None"

section \<open>JSON.stringify for an object of strings, indented by two spaces\<close>

definition hex_digit :: "nat \<Rightarrow> char" where
  "hex_digit n = (if n < 10 then char_of (48 + n) else char_of (87 + n))"

text \<open>\<open>QuoteJSONString\<close>, one code unit.\<close>

definition quote_char :: "char \<Rightarrow> string" where
  "quote_char c =
    (let n = of_char c :: nat in
     if n = 8 then [backslash, CHR ''b''] else if n = 9 then [backslash, CHR ''t'']
     else if n = 10 then [backslash, CHR ''n''] else if n = 12 then [backslash, CHR ''f'']
     else if n = 13 then [backslash, CHR ''r''] else if n = 34 then [backslash, dquote]
     else if n = 92 then [backslash, backslash]
     else if n < 32 then [backslash, CHR ''u'', CHR ''0'', CHR ''0'', hex_digit (n div 16), hex_digit (n mod 16)]
     else [c])"

definition json_quote :: "string \<Rightarrow> string" where
  "json_quote s = dquote # concat (map quote_char s) @ [dquote]"

text \<open>
  \<open>SerializeJSONObject\<close> with the gap \<open>"  "\<close>: \<open>{}\<close> for no member, otherwise
  each member on its own line, indented, as \<open>"key": "value"\<close>.
\<close>

definition stringify_member :: "string \<times> string \<Rightarrow> string" where
  "stringify_member m = ''  '' @ json_quote (fst m) @ '': '' @ json_quote (snd m)"

definition stringify_obj :: "(string \<times> string) list \<Rightarrow> string" where
  "stringify_obj ms =
    (if ms = [] then ''{}''
     else CHR ''{'' # CHR 0x0A # join_with [CHR '','', CHR 0x0A] (map stringify_member ms)
          @ [CHR 0x0A, CHR ''}''])"

section \<open>JSON.parse\<close>

definition is_ws :: "char \<Rightarrow> bool" where
  "is_ws c \<longleftrightarrow> c = CHR '' '' \<or> c = CHR 0x09 \<or> c = CHR 0x0A \<or> c = CHR 0x0D"

definition skip_ws :: "string \<Rightarrow> string" where
  "skip_ws s = dropWhile is_ws s"

definition hex_val :: "char \<Rightarrow> nat option" where
  "hex_val c =
    (let n = of_char c :: nat in
     if 48 \<le> n \<and> n \<le> 57 then Some (n - 48)
     else if 97 \<le> n \<and> n \<le> 102 then Some (n - 87)
     else if 65 \<le> n \<and> n \<le> 70 then Some (n - 55) else None)"

definition hex4 :: "char \<Rightarrow> char \<Rightarrow> char \<Rightarrow> char \<Rightarrow> nat option" where
  "hex4 a b c d =
    (case (hex_val a, hex_val b, hex_val c, hex_val d) of
       (Some w, Some x, Some y, Some z) \<Rightarrow> Some (((w * 16 + x) * 16 + y) * 16 + z)
     | _ \<Rightarrow> None)"

text \<open>The one-character escapes \<open>\" \\ \/ \b \f \n \r \t\<close>.\<close>

definition unescape :: "char \<Rightarrow> char option" where
  "unescape e =
    (if e = dquote \<or> e = backslash \<or> e = CHR ''/'' then Some e
     else if e = CHR ''b'' then Some (CHR 0x08) else if e = CHR ''f'' then Some (CHR 0x0C)
     else if e = CHR ''n'' then Some (CHR 0x0A) else if e = CHR ''r'' then Some (CHR 0x0D)
     else if e = CHR ''t'' then Some (CHR 0x09) else None)"

text \<open>The characters of a string literal after its opening quote, and what follows it.\<close>

fun parse_str :: "string \<Rightarrow> (string \<times> string) option" where
  "parse_str [] = None"
| "parse_str (c # cs) =
    (if c = dquote then Some ([], cs)
     else if c = backslash then
       (case cs of
          [] \<Rightarrow> None
        | e # cs' \<Rightarrow>
            (if e = CHR ''u'' then
               (case cs' of
                  h1 # h2 # h3 # h4 # cs'' \<Rightarrow>
                    (case hex4 h1 h2 h3 h4 of
                       Some n \<Rightarrow> if n < 256 then map_option (\<lambda>(s, r). (char_of n # s, r)) (parse_str cs'')
                                 else None
                     | None \<Rightarrow> None)
                | _ \<Rightarrow> None)
             else (case unescape e of
                     Some ch \<Rightarrow> map_option (\<lambda>(s, r). (ch # s, r)) (parse_str cs')
                   | None \<Rightarrow> None)))
     else if (of_char c :: nat) < 32 then None
     else map_option (\<lambda>(s, r). (c # s, r)) (parse_str cs))"

text \<open>Numbers: \<open>-? (0 | [1-9][0-9]* ) (. [0-9]+)? ([eE] [+-]? [0-9]+)?\<close>.\<close>

definition parse_int_part :: "string \<Rightarrow> (string \<times> string) option" where
  "parse_int_part s =
    (case s of
       [] \<Rightarrow> None
     | d # r \<Rightarrow>
         if \<not> is_digit d then None
         else if d = CHR ''0'' then Some ([d], r)
         else Some (d # takeWhile is_digit r, dropWhile is_digit r))"

definition parse_frac :: "string \<Rightarrow> (string \<times> string) option" where
  "parse_frac s =
    (case s of
       c # r \<Rightarrow>
         if c = CHR ''.'' then
           (if takeWhile is_digit r = [] then None
            else Some (c # takeWhile is_digit r, dropWhile is_digit r))
         else Some ([], s)
     | [] \<Rightarrow> Some ([], s))"

definition parse_exp :: "string \<Rightarrow> (string \<times> string) option" where
  "parse_exp s =
    (case s of
       c # r \<Rightarrow>
         if c = CHR ''e'' \<or> c = CHR ''E'' then
           (let (sg, r') = (case r of
                              x # r'' \<Rightarrow> if x = CHR ''+'' \<or> x = CHR ''-'' then ([x], r'') else ([], r)
                            | [] \<Rightarrow> ([], r))
            in if takeWhile is_digit r' = [] then None
               else Some (c # sg @ takeWhile is_digit r', dropWhile is_digit r'))
         else Some ([], s)
     | [] \<Rightarrow> Some ([], s))"

definition parse_number :: "string \<Rightarrow> (json \<times> string) option" where
  "parse_number s =
    (let (sg, s1) = (case s of c # r \<Rightarrow> if c = CHR ''-'' then ([c], r) else ([], s) | [] \<Rightarrow> ([], s))
     in case parse_int_part s1 of
          None \<Rightarrow> None
        | Some (ip, s2) \<Rightarrow>
            (case parse_frac s2 of
               None \<Rightarrow> None
             | Some (fp, s3) \<Rightarrow>
                 (case parse_exp s3 of
                    None \<Rightarrow> None
                  | Some (ep, s4) \<Rightarrow> Some (JNum (sg @ ip @ fp @ ep), s4))))"

text \<open>
  Values, array elements and object members, by mutual recursion. The first argument is
  fuel: each call passes one less to the calls it makes, and every two nested calls
  consume at least one character, so \<open>2 * length s + 2\<close> never runs out on \<open>s\<close>.
\<close>

fun parse_value :: "nat \<Rightarrow> string \<Rightarrow> (json \<times> string) option"
and parse_elems :: "nat \<Rightarrow> string \<Rightarrow> (json list \<times> string) option"
and parse_members :: "nat \<Rightarrow> string \<Rightarrow> ((string \<times> json) list \<times> string) option" where
  "parse_value 0 s = None"
| "parse_value (Suc n) s =
    (case skip_ws s of
       [] \<Rightarrow> None
     | c # cs \<Rightarrow>
         if c = CHR ''{'' then
           (case skip_ws cs of
              [] \<Rightarrow> None
            | d # ds \<Rightarrow> if d = CHR ''}'' then Some (JObj [], ds)
                        else map_option (\<lambda>(ms, r). (JObj ms, r)) (parse_members n (d # ds)))
         else if c = CHR ''['' then
           (case skip_ws cs of
              [] \<Rightarrow> None
            | d # ds \<Rightarrow> if d = CHR '']'' then Some (JArr [], ds)
                        else map_option (\<lambda>(vs, r). (JArr vs, r)) (parse_elems n (d # ds)))
         else if c = dquote then map_option (\<lambda>(str, r). (JStr str, r)) (parse_str cs)
         else if take 4 (c # cs) = ''true'' then Some (JBool True, drop 4 (c # cs))
         else if take 5 (c # cs) = ''false'' then Some (JBool False, drop 5 (c # cs))
         else if take 4 (c # cs) = ''null'' then Some (JNull, drop 4 (c # cs))
         else parse_number (c # cs))"
| "parse_elems 0 s = None"
| "parse_elems (Suc n) s =
    (case parse_value n s of
       None \<Rightarrow> None
     | Some (v, r) \<Rightarrow>
         (case skip_ws r of
            [] \<Rightarrow> None
          | c # cs \<Rightarrow>
              if c = CHR '','' then map_option (\<lambda>(vs, r'). (v # vs, r')) (parse_elems n cs)
              else if c = CHR '']'' then Some ([v], cs) else None))"
| "parse_members 0 s = None"
| "parse_members (Suc n) s =
    (case skip_ws s of
       [] \<Rightarrow> None
     | c # cs \<Rightarrow>
         if c \<noteq> dquote then None
         else
           (case parse_str cs of
              None \<Rightarrow> None
            | Some (k, r) \<Rightarrow>
                (case skip_ws r of
                   [] \<Rightarrow> None
                 | d # ds \<Rightarrow>
                     if d \<noteq> CHR '':'' then None
                     else
                       (case parse_value n ds of
                          None \<Rightarrow> None
                        | Some (v, r') \<Rightarrow>
                            (case skip_ws r' of
                               [] \<Rightarrow> None
                             | e # es \<Rightarrow>
                                 if e = CHR '','' then
                                   map_option (\<lambda>(ms, r''). ((k, v) # ms, r'')) (parse_members n es)
                                 else if e = CHR ''}'' then Some ([(k, v)], es) else None)))))"

text \<open>\<open>JSON.parse(text)\<close>: one value, surrounded by white space only; \<open>None\<close> is the
  \<open>SyntaxError\<close> it throws.\<close>

definition json_parse :: "string \<Rightarrow> json option" where
  "json_parse s =
    (case parse_value (2 * length s + 2) s of
       None \<Rightarrow> None
     | Some (v, r) \<Rightarrow> if skip_ws r = [] then Some v else None)"

section \<open>Lemmas: JSON.parse inverts the serialisation of a config\<close>

lemma hex_val_hex_digit: "k < 16 \<Longrightarrow> hex_val (hex_digit k) = Some k"
  by (auto simp: hex_val_def hex_digit_def Let_def)

lemmas char_num_eqs = char_of_eq_iff eq_char_of_iff take_bit_eq_mod

lemma char_of_escapes:
  "char_of (8::nat) = CHR 0x08" "char_of (9::nat) = CHR 0x09" "char_of (10::nat) = CHR 0x0A"
  "char_of (12::nat) = CHR 0x0C" "char_of (13::nat) = CHR 0x0D" "char_of (34::nat) = CHR 0x22"
  "char_of (92::nat) = CHR 0x5C"
  by (simp_all add: char_num_eqs)

lemma parse_str_quote_char:
  "parse_str (quote_char c @ s) = map_option (\<lambda>(t, r). (c # t, r)) (parse_str s)"
proof -
  define n where "n = (of_char c :: nat)"
  have c: "c = char_of n" by (simp add: n_def)
  have n256: "n < 256" by (simp add: n_def)
  consider (esc) "n \<in> {8, 9, 10, 12, 13, 34, 92}"
    | (ctl) "n < 32" "n \<notin> {8, 9, 10, 12, 13}" | (plain) "32 \<le> n" "n \<noteq> 34" "n \<noteq> 92"
    by fastforce
  then show ?thesis
  proof cases
    case esc
    then show ?thesis unfolding c
      by (auto simp: quote_char_def unescape_def char_num_eqs char_of_escapes)
  next
    case ctl
    have h: "hex4 (CHR ''0'') (CHR ''0'') (hex_digit (n div 16)) (hex_digit (n mod 16)) = Some n"
      using ctl by (simp add: hex4_def hex_val_hex_digit) (simp add: hex_val_def)
    show ?thesis using ctl n256 h unfolding c
      by (simp add: quote_char_def char_num_eqs)
  next
    case plain
    then show ?thesis using n256 unfolding c by (simp add: quote_char_def char_num_eqs)
  qed
qed

lemma parse_str_quoted:
  "parse_str (concat (map quote_char s) @ dquote # rest) = Some (s, rest)"
  by (induction s) (simp_all add: parse_str_quote_char)

lemma skip_ws_Cons_not_ws [simp]: "\<not> is_ws c \<Longrightarrow> skip_ws (c # s) = c # s"
  by (simp add: skip_ws_def)

lemma skip_ws_Cons_ws [simp]: "is_ws c \<Longrightarrow> skip_ws (c # s) = skip_ws s"
  by (simp add: skip_ws_def)

lemma parse_value_quoted:
  "parse_value (Suc n) (CHR '' '' # dquote # concat (map quote_char v) @ dquote # rest) = Some (JStr v, rest)"
  by (simp add: is_ws_def parse_str_quoted)

lemma parse_members_one:
  assumes "\<And>s. parse_value (Suc n) (CHR '' '' # dquote # concat (map quote_char v) @ dquote # s) = Some (JStr v, s)"
  shows "parse_members (Suc (Suc n)) (stringify_member (k, v) @ s) =
    (case skip_ws s of
       [] \<Rightarrow> None
     | e # es \<Rightarrow> if e = CHR '','' then map_option (\<lambda>(ms, r). ((k, JStr v) # ms, r)) (parse_members (Suc n) es)
                 else if e = CHR ''}'' then Some ([(k, JStr v)], es) else None)"
  apply (subst parse_members.simps(2))
  apply (simp del: parse_value.simps parse_members.simps
      add: stringify_member_def json_quote_def is_ws_def parse_str_quoted assms)
  done

lemma parse_members_ws: "is_ws c \<Longrightarrow> parse_members (Suc n) (c # s) = parse_members (Suc n) s"
  by simp

lemma parse_members_stringified:
  "ms \<noteq> [] \<Longrightarrow> length ms < n \<Longrightarrow>
   parse_members n (join_with [CHR '','', CHR 0x0A] (map stringify_member ms) @ CHR 0x0A # CHR ''}'' # rest) =
   Some (map (\<lambda>(k, v). (k, JStr v)) ms, rest)"
proof (induction ms arbitrary: n)
  case Nil
  then show ?case by simp
next
  case (Cons m ms)
  obtain k v where m: "m = (k, v)" by fastforce
  from Cons.prems obtain n' where n: "n = Suc (Suc n')" and len: "length ms < Suc n'"
    by (cases n; cases "n - 1") auto
  have one: "parse_members (Suc (Suc n')) (stringify_member (k, v) @ s) =
    (case skip_ws s of
       [] \<Rightarrow> None
     | e # es \<Rightarrow> if e = CHR '','' then map_option (\<lambda>(ms, r). ((k, JStr v) # ms, r)) (parse_members (Suc n') es)
                 else if e = CHR ''}'' then Some ([(k, JStr v)], es) else None)" for s
    by (rule parse_members_one) (rule parse_value_quoted)
  show ?case
  proof (cases "ms = []")
    case True
    then show ?thesis by (simp add: m n one is_ws_def del: parse_members.simps)
  next
    case False
    have IH: "parse_members (Suc n') (join_with [CHR '','', CHR 0x0A] (map stringify_member ms) @ CHR 0x0A # CHR ''}'' # rest) =
        Some (map (\<lambda>(k, v). (k, JStr v)) ms, rest)"
      by (rule Cons.IH [OF False len])
    have "parse_members (Suc n') (CHR 0x0A # join_with [CHR '','', CHR 0x0A] (map stringify_member ms) @ CHR 0x0A # CHR ''}'' # rest) =
        Some (map (\<lambda>(k, v). (k, JStr v)) ms, rest)"
      using IH by (simp add: parse_members_ws is_ws_def del: parse_members.simps)
    then show ?thesis using False
      by (simp add: m n one join_with_Cons is_ws_def del: parse_members.simps)
  qed
qed

lemma parse_value_stringified_obj:
  assumes ne: "ms \<noteq> []" and len: "length ms < n"
  shows "parse_value (Suc n) (CHR ''{'' # CHR 0x0A # join_with [CHR '','', CHR 0x0A] (map stringify_member ms) @
      CHR 0x0A # CHR ''}'' # rest) = Some (JObj (map (\<lambda>(k, v). (k, JStr v)) ms), rest)"
proof -
  obtain n' where n: "n = Suc n'" using len by (cases n) auto
  obtain k v ms' where ms: "ms = (k, v) # ms'" using ne by (cases ms) auto
  define Y where "Y = concat (map quote_char k) @ dquote # '': '' @ json_quote v @
    (if ms' = [] then [] else [CHR '','', CHR 0x0A] @ join_with [CHR '','', CHR 0x0A] (map stringify_member ms'))
    @ CHR 0x0A # CHR ''}'' # rest"
  have body: "join_with [CHR '','', CHR 0x0A] (map stringify_member ms) @ CHR 0x0A # CHR ''}'' # rest =
      CHR '' '' # CHR '' '' # dquote # Y"
    by (simp add: ms Y_def join_with_Cons stringify_member_def json_quote_def)
  have "parse_members n (CHR '' '' # CHR '' '' # dquote # Y) = Some (map (\<lambda>(k, v). (k, JStr v)) ms, rest)"
    using parse_members_stringified [OF ne len, where rest = rest] unfolding body .
  then have pm: "parse_members n (dquote # Y) = Some (map (\<lambda>(k, v). (k, JStr v)) ms, rest)"
    unfolding n by (simp only: parse_members_ws is_ws_def simp_thms)
  show ?thesis
    by (simp add: body is_ws_def pm del: parse_members.simps)
qed

lemma json_parse_stringify_obj:
  "json_parse (stringify_obj ms) = Some (JObj (map (\<lambda>(k, v). (k, JStr v)) ms))"
proof (cases "ms = []")
  case True
  have "json_parse ''{}'' = Some (JObj [])" by code_simp
  with True show ?thesis by (simp add: stringify_obj_def)
next
  case False
  have len: "length ms < 2 * length (stringify_obj ms) + 1"
  proof -
    have "length ms \<le> length (join_with [CHR '','', CHR 0x0A] (map stringify_member ms))"
      using length_join_with_ge [of "map stringify_member ms"] by (simp add: stringify_member_def)
    also have "\<dots> \<le> length (stringify_obj ms)"
      using False by (simp add: stringify_obj_def)
    finally show ?thesis by simp
  qed
  have two: "2 * length (stringify_obj ms) + 2 = Suc (2 * length (stringify_obj ms) + 1)" by simp
  have eq: "stringify_obj ms = CHR ''{'' # CHR 0x0A # join_with [CHR '','', CHR 0x0A] (map stringify_member ms) @
      CHR 0x0A # CHR ''}'' # []"
    using False by (simp add: stringify_obj_def)
  have "parse_value (Suc (2 * length (stringify_obj ms) + 1)) (stringify_obj ms) =
      Some (JObj (map (\<lambda>(k, v). (k, JStr v)) ms), [])"
    by (subst (2) eq) (rule parse_value_stringified_obj [OF False len])
  then show ?thesis by (simp only: json_parse_def two) (simp add: skip_ws_def del: parse_value.simps)
qed

section \<open>Lemmas: the fuel is enough\<close>

text \<open>
  Every successful call consumes input; each of the three functions, given one more unit
  of fuel, depends only on the other two at shorter inputs (or, for \<open>parse_elems\<close>,
  on \<open>parse_value\<close> at the same input). Hence fuel above \<open>2 * length s + 1\<close> for a
  value and \<open>2 * length s + 2\<close> for elements and members changes nothing.
\<close>

lemma length_skip_ws: "length (skip_ws s) \<le> length s"
  by (simp add: skip_ws_def length_dropWhile_le)

lemma skip_ws_ConsD: "skip_ws s = c # cs \<Longrightarrow> length cs < length s"
  using length_skip_ws [of s] by simp

lemma parse_str_length: "parse_str s = Some (t, r) \<Longrightarrow> length r < length s"
proof (induction s arbitrary: t r rule: parse_str.induct)
  case (2 c cs)
  then show ?case
    by (auto split: if_splits list.splits option.splits) fastforce+
qed simp

lemma parse_number_length: "parse_number s = Some (v, r) \<Longrightarrow> length r < length s"
proof -
  have int: "parse_int_part s = Some (a, r) \<Longrightarrow> length r < length s" for s a r
    by (auto simp: parse_int_part_def length_dropWhile_le less_Suc_eq_le split: list.splits if_splits)
  have frac: "parse_frac s = Some (a, r) \<Longrightarrow> length r \<le> length s" for s a r
    by (auto simp: parse_frac_def length_dropWhile_le le_Suc_eq split: list.splits if_splits)
  have exp: "parse_exp s = Some (a, r) \<Longrightarrow> length r \<le> length s" for s a r
    by (auto simp: parse_exp_def length_dropWhile_le le_Suc_eq Let_def
        split: list.splits if_splits prod.splits)
  assume "parse_number s = Some (v, r)"
  then show ?thesis
    by (auto simp: parse_number_def split: list.splits if_splits option.splits prod.splits
        dest!: int frac exp)
qed

lemma parse_length:
  "(\<forall>s v r. parse_value n s = Some (v, r) \<longrightarrow> length r < length s) \<and>
   (\<forall>s vs r. parse_elems n s = Some (vs, r) \<longrightarrow> length r < length s) \<and>
   (\<forall>s ms r. parse_members n s = Some (ms, r) \<longrightarrow> length r < length s)"
proof (induction n)
  case 0
  then show ?case by simp
next
  case (Suc n)
  then have V: "parse_value n s = Some (v, r) \<Longrightarrow> length r < length s"
    and E: "parse_elems n s = Some (vs, r) \<Longrightarrow> length r < length s"
    and M: "parse_members n s = Some (ms, r) \<Longrightarrow> length r < length s" for s v vs r ms
    by blast+
  have pv: "length r < length s" if "parse_value (Suc n) s = Some (v, r)" for s v r
    using that
    by (fastforce split: list.splits if_splits option.splits prod.splits
        dest!: skip_ws_ConsD E M parse_str_length parse_number_length)
  have pe: "length r < length s" if "parse_elems (Suc n) s = Some (vs, r)" for s vs r
    using that
    by (fastforce split: list.splits if_splits option.splits prod.splits dest!: skip_ws_ConsD V E)
  have pm: "length r < length s" if "parse_members (Suc n) s = Some (ms, r)" for s ms r
    using that
    by (fastforce split: list.splits if_splits option.splits prod.splits
        dest!: skip_ws_ConsD V M parse_str_length)
  show ?case using pv pe pm by blast
qed

lemma parse_value_length: "parse_value n s = Some (v, r) \<Longrightarrow> length r < length s"
  using parse_length by blast

lemma parse_value_cong:
  assumes "\<And>t. length t < length s \<Longrightarrow> parse_elems m t = parse_elems m' t \<and> parse_members m t = parse_members m' t"
  shows "parse_value (Suc m) s = parse_value (Suc m') s"
proof (cases "skip_ws s")
  case Nil
  then show ?thesis by simp
next
  case (Cons c cs)
  have lc: "length cs < length s" using skip_ws_ConsD [OF Cons] .
  show ?thesis
  proof (cases "skip_ws cs")
    case Nil
    with Cons show ?thesis by simp
  next
    case (Cons d ds)
    have "length (d # ds) < length s" using skip_ws_ConsD [OF Cons] lc by simp
    with Cons \<open>skip_ws s = c # cs\<close> show ?thesis by (simp add: assms)
  qed
qed

lemma parse_elems_cong:
  assumes "\<And>t. length t \<le> length s \<Longrightarrow> parse_value m t = parse_value m' t"
    and "\<And>t. length t < length s \<Longrightarrow> parse_elems m t = parse_elems m' t"
  shows "parse_elems (Suc m) s = parse_elems (Suc m') s"
proof (cases "parse_value m s")
  case None
  with assms(1) [of s] show ?thesis by simp
next
  case (Some vr)
  obtain v r where vr: "vr = (v, r)" by fastforce
  have lr: "length r < length s" using parse_value_length Some vr by blast
  have v': "parse_value m' s = Some (v, r)" using assms(1) [of s] Some vr by simp
  show ?thesis
  proof (cases "skip_ws r")
    case Nil
    with Some vr v' show ?thesis by simp
  next
    case (Cons c cs)
    have "length cs < length s" using skip_ws_ConsD [OF Cons] lr by simp
    then have "parse_elems m cs = parse_elems m' cs" by (rule assms(2))
    with Cons Some vr v' show ?thesis by simp
  qed
qed

lemma parse_members_cong:
  assumes "\<And>t. length t < length s \<Longrightarrow> parse_value m t = parse_value m' t \<and> parse_members m t = parse_members m' t"
  shows "parse_members (Suc m) s = parse_members (Suc m') s"
proof (cases "skip_ws s")
  case Nil
  then show ?thesis by simp
next
  case (Cons c cs)
  have lc: "length cs < length s" using skip_ws_ConsD [OF Cons] .
  show ?thesis
  proof (cases "parse_str cs")
    case None
    with Cons show ?thesis by simp
  next
    case (Some kr)
    obtain k r where kr: "kr = (k, r)" by fastforce
    have lr: "length r < length s" using parse_str_length Some kr lc by fastforce
    show ?thesis
    proof (cases "skip_ws r")
      case Nil
      with Cons Some kr show ?thesis by simp
    next
      case (Cons d ds)
      have lds: "length ds < length s" using skip_ws_ConsD [OF Cons] lr by simp
      then have pv: "parse_value m ds = parse_value m' ds" using assms by blast
      show ?thesis
      proof (cases "parse_value m ds")
        case None
        with pv Cons \<open>skip_ws s = c # cs\<close> Some kr show ?thesis by simp
      next
        case (Some vr')
        obtain v r' where vr': "vr' = (v, r')" by fastforce
        have lr': "length r' < length s" using parse_value_length Some vr' lds by fastforce
        have pm: "parse_members m es = parse_members m' es" if "skip_ws r' = e # es" for e es
          using skip_ws_ConsD [OF that] lr' assms by fastforce
        have v': "parse_value m' ds = Some (v, r')" using pv Some vr' by simp
        from Some vr' v' Cons \<open>skip_ws s = c # cs\<close> \<open>parse_str cs = Some kr\<close> kr show ?thesis
          by (cases "skip_ws r'") (simp_all add: pm)
      qed
    qed
  qed
qed

lemma parse_fuel_step:
  "(\<forall>s. 2 * length s + 1 \<le> n \<longrightarrow> parse_value (Suc n) s = parse_value n s) \<and>
   (\<forall>s. 2 * length s + 2 \<le> n \<longrightarrow> parse_elems (Suc n) s = parse_elems n s) \<and>
   (\<forall>s. 2 * length s + 2 \<le> n \<longrightarrow> parse_members (Suc n) s = parse_members n s)"
proof (induction n)
  case 0
  then show ?case by simp
next
  case (Suc n)
  have V: "parse_value (Suc n) s = parse_value n s" if "2 * length s + 1 \<le> n" for s
    using Suc.IH that by blast
  have E: "parse_elems (Suc n) s = parse_elems n s" if "2 * length s + 2 \<le> n" for s
    using Suc.IH that by blast
  have M: "parse_members (Suc n) s = parse_members n s" if "2 * length s + 2 \<le> n" for s
    using Suc.IH that by blast
  have "parse_value (Suc (Suc n)) s = parse_value (Suc n) s" if "2 * length s + 1 \<le> Suc n" for s
    using that by (intro parse_value_cong conjI E M) auto
  moreover have "parse_elems (Suc (Suc n)) s = parse_elems (Suc n) s" if "2 * length s + 2 \<le> Suc n" for s
    using that by (intro parse_elems_cong V E) auto
  moreover have "parse_members (Suc (Suc n)) s = parse_members (Suc n) s" if "2 * length s + 2 \<le> Suc n" for s
    using that by (intro parse_members_cong conjI V M) auto
  ultimately show ?case by blast
qed

lemma parse_value_fuel_stable:
  "2 * length s + 1 \<le> n \<Longrightarrow> parse_value n s = parse_value (2 * length s + 1) s"
proof (induction n rule: dec_induct)
  case (step m)
  then show ?case using parse_fuel_step by simp
qed simp

lemma json_parse_fuel_enough:
  "2 * length s + 1 \<le> n \<Longrightarrow>
   json_parse s = (case parse_value n s of None \<Rightarrow> None | Some (v, r) \<Rightarrow> if skip_ws r = [] then Some v else None)"
proof -
  assume "2 * length s + 1 \<le> n"
  then have "parse_value n s = parse_value (2 * length s + 2) s"
    using parse_value_fuel_stable [of s n] parse_value_fuel_stable [of s "2 * length s + 2"] by simp
  then show ?thesis by (simp add: json_parse_def)
qed

end
