(* ===== verification/Categories.thy ===== *)
theory Categories
  imports Prelude
begin

text \<open>
  The constants of \<open>src/src/types.ts\<close> (lines 56--94): the table
  \<open>ANYLIST_CATEGORIES\<close> from friendly category names to AnyList's category
  identifiers, and the exit codes \<open>ExitCode\<close>. The \<open>add\<close> command of the CLI resolves
  its \<open>--category\<close> option through the table (\<open>types.ts\<close> lines 701--714):
  \<open>resolve_category\<close> models that block, with the JavaScript member access
  \<open>ANYLIST_CATEGORIES[k]\<close> that it performs, inherited properties included.
\<close>

section \<open>The category table and the exit codes\<close>

text \<open>The table as an association list, in the source's order (\<open>Object.keys\<close>).\<close>

definition ANYLIST_CATEGORIES :: "(string \<times> string) list" where
  "ANYLIST_CATEGORIES =
    [(''produce'', ''produce''),
     (''meat'', ''meat-seafood''),
     (''seafood'', ''meat-seafood''),
     (''dairy'', ''dairy''),
     (''bakery'', ''bakery-bread''),
     (''bread'', ''bakery-bread''),
     (''frozen'', ''frozen''),
     (''canned'', ''canned-goods''),
     (''condiments'', ''condiments''),
     (''beverages'', ''beverages''),
     (''snacks'', ''snacks''),
     (''pasta'', ''pasta-rice''),
     (''rice'', ''pasta-rice''),
     (''cereal'', ''breakfast''),
     (''breakfast'', ''breakfast''),
     (''baking'', ''baking''),
     (''spices'', ''spices-seasonings''),
     (''seasonings'', ''spices-seasonings''),
     (''household'', ''household''),
     (''personal care'', ''personal-care''),
     (''other'', ''other'')]"

text \<open>\<open>CategoryName\<close>, the type \<open>keyof typeof ANYLIST_CATEGORIES\<close>.\<close>

definition CategoryName :: "string set" where
  "CategoryName = set (map fst ANYLIST_CATEGORIES)"

definition ExitCode_Success :: nat where "ExitCode_Success = 0"
definition ExitCode_Failure :: nat where "ExitCode_Failure = 1"
definition ExitCode_InvalidUsage :: nat where "ExitCode_InvalidUsage = 2"
definition ExitCode_AuthFailure :: nat where "ExitCode_AuthFailure = 3"

lemmas exit_codes = ExitCode_Success_def ExitCode_Failure_def
  ExitCode_InvalidUsage_def ExitCode_AuthFailure_def

section \<open>Member access on an object literal\<close>

text \<open>
  The names an object literal inherits from \<open>Object.prototype\<close> (ECMAScript,
  section \<open>Properties of the Object Prototype Object\<close>, with Annex B's
  accessors and \<open>__proto__\<close>). Reading one of them from the literal yields a
  function or an object, which is truthy.
\<close>

definition object_prototype_keys :: "string list" where
  "object_prototype_keys =
    [''constructor'', ''hasOwnProperty'', ''isPrototypeOf'', ''propertyIsEnumerable'',
     ''toLocaleString'', ''toString'', ''valueOf'', ''__defineGetter__'',
     ''__defineSetter__'', ''__lookupGetter__'', ''__lookupSetter__'', ''__proto__'']"

text \<open>\<open>obj[k]\<close> for an object literal with the string-valued own properties \<open>obj\<close>.\<close>

definition js_member :: "(string \<times> string) list \<Rightarrow> string \<Rightarrow> jsval" where
  "js_member obj k =
    (case map_of obj k of
       Some v \<Rightarrow> JsString v
     | None \<Rightarrow> (if k \<in> set object_prototype_keys then JsObject k else JsUndefined))"

section \<open>The \<open>--category\<close> option of \<open>add\<close>\<close>

text \<open>
  \<^verbatim>\<open>
  let categoryId: string | undefined;
  if (options.category) {
    const lowerCategory = options.category.toLowerCase() as CategoryName;
    categoryId = ANYLIST_CATEGORIES[lowerCategory];
    if (!categoryId) { ...; process.exit(ExitCode.InvalidUsage); }
  }
  \<close>
  The result is \<open>Inl\<close> of the exit code when the process exits, and \<open>Inr\<close> of the
  value of \<open>categoryId\<close> otherwise (\<open>JsUndefined\<close> when no category was given).
\<close>

definition resolve_category :: "string option \<Rightarrow> nat + jsval" where
  "resolve_category opt =
    (if js_truthy (js_opt opt) then
       (let categoryId = js_member ANYLIST_CATEGORIES (toLowerCase (the opt)) in
        if \<not> js_truthy categoryId then Inl ExitCode_InvalidUsage else Inr categoryId)
     else Inr JsUndefined)"

section \<open>Lemmas\<close>

lemma distinct_category_names: "distinct (map fst ANYLIST_CATEGORIES)"
  by (simp add: ANYLIST_CATEGORIES_def)

lemma category_ids_nonempty: "(k, v) \<in> set ANYLIST_CATEGORIES \<Longrightarrow> v \<noteq> []"
  by (auto simp: ANYLIST_CATEGORIES_def)

lemma category_names_lower_all: "list_all (\<lambda>(k, v). toLowerCase k = k) ANYLIST_CATEGORIES"
  unfolding ANYLIST_CATEGORIES_def by code_simp

lemma category_names_lower: "(k, v) \<in> set ANYLIST_CATEGORIES \<Longrightarrow> toLowerCase k = k"
  using category_names_lower_all by (auto simp: list_all_iff)

lemma object_prototype_keys_lower_filter:
  "filter (\<lambda>k. toLowerCase k = k) object_prototype_keys = [''constructor'', ''__proto__'']"
  unfolding object_prototype_keys_def by code_simp

lemma object_prototype_keys_lower:
  "k \<in> set object_prototype_keys \<Longrightarrow> toLowerCase k = k \<longleftrightarrow> k \<in> {''constructor'', ''__proto__''}"
proof -
  assume "k \<in> set object_prototype_keys"
  then have "toLowerCase k = k \<longleftrightarrow> k \<in> set (filter (\<lambda>k. toLowerCase k = k) object_prototype_keys)"
    by simp
  then show ?thesis by (simp only: object_prototype_keys_lower_filter) simp
qed

lemma js_member_own: "map_of obj k = Some v \<Longrightarrow> js_member obj k = JsString v"
  by (simp add: js_member_def)

lemma js_member_truthy_iff:
  "(\<forall>(k, v) \<in> set obj. v \<noteq> []) \<Longrightarrow>
   js_truthy (js_member obj k) \<longleftrightarrow> map_of obj k \<noteq> None \<or> k \<in> set object_prototype_keys"
  by (auto simp: js_member_def dest: map_of_SomeD split: option.splits)

lemma resolve_category_None [simp]: "resolve_category None = Inr JsUndefined"
  by (simp add: resolve_category_def)

lemma resolve_category_empty [simp]: "resolve_category (Some []) = Inr JsUndefined"
  by (simp add: resolve_category_def)

lemma resolve_category_Some:
  "s \<noteq> [] \<Longrightarrow> resolve_category (Some s) =
     (let v = js_member ANYLIST_CATEGORIES (toLowerCase s) in
      if js_truthy v then Inr v else Inl ExitCode_InvalidUsage)"
  by (simp add: resolve_category_def Let_def)

section \<open>Headline theorems\<close>

text \<open>C11 (functional). A category given in any casing of a name of the table resolves
  to that name's AnyList identifier.\<close>

theorem resolve_category_known:
  assumes "map_of ANYLIST_CATEGORIES (toLowerCase s) = Some v"
  shows "resolve_category (Some s) = Inr (JsString v)"
proof -
  have mem: "(toLowerCase s, v) \<in> set ANYLIST_CATEGORIES" using assms by (rule map_of_SomeD)
  then have "v \<noteq> []" by (rule category_ids_nonempty)
  moreover have "s \<noteq> []"
    using mem by (auto simp: ANYLIST_CATEGORIES_def)
  ultimately show ?thesis
    using assms by (simp add: resolve_category_Some js_member_own)
qed

theorem resolve_category_known_witness:
  "resolve_category (Some ''Personal Care'') = Inr (JsString ''personal-care'')"
  by (rule resolve_category_known) (simp add: ANYLIST_CATEGORIES_def lower_eval)

text \<open>C12 (error). A non-empty category whose lower-case form is no name of the table
  makes \<open>add\<close> exit with \<open>InvalidUsage\<close> (2), unless that form is \<open>constructor\<close>
  or \<open>__proto__\<close>, which the member access finds on \<open>Object.prototype\<close>: then it
  is accepted and the inherited object becomes the category.\<close>

theorem resolve_category_unknown:
  assumes "s \<noteq> []" and "toLowerCase s \<notin> CategoryName"
  shows "resolve_category (Some s) =
    (if toLowerCase s \<in> {''constructor'', ''__proto__''} then Inr (JsObject (toLowerCase s))
     else Inl ExitCode_InvalidUsage)"
proof -
  have none: "map_of ANYLIST_CATEGORIES (toLowerCase s) = None"
    using assms(2) by (simp add: CategoryName_def map_of_eq_None_iff)
  have "toLowerCase s \<in> set object_prototype_keys \<longleftrightarrow> toLowerCase s \<in> {''constructor'', ''__proto__''}"
  proof
    assume "toLowerCase s \<in> set object_prototype_keys"
    then show "toLowerCase s \<in> {''constructor'', ''__proto__''}"
      using object_prototype_keys_lower [of "toLowerCase s"] by simp
  next
    assume "toLowerCase s \<in> {''constructor'', ''__proto__''}"
    then show "toLowerCase s \<in> set object_prototype_keys"
      by (auto simp: object_prototype_keys_def)
  qed
  with assms(1) none show ?thesis
    by (simp add: resolve_category_Some js_member_def)
qed

theorem resolve_category_unknown_witness:
  "resolve_category (Some ''Chips'') = Inl 2"
proof -
  have "toLowerCase ''Chips'' \<notin> CategoryName"
    by (simp add: CategoryName_def ANYLIST_CATEGORIES_def lower_eval)
  from resolve_category_unknown [OF _ this] show ?thesis
    by (simp add: lower_eval ExitCode_InvalidUsage_def)
qed

text \<open>\<open>add --category Constructor\<close> and \<open>add --category __proto__\<close> are
  not rejected: the category becomes an object inherited from \<open>Object.prototype\<close>.\<close>

theorem resolve_category_accepts_inherited:
  "resolve_category (Some ''Constructor'') = Inr (JsObject ''constructor'') \<and>
   resolve_category (Some ''__proto__'') = Inr (JsObject ''__proto__'') \<and>
   ''constructor'' \<notin> CategoryName \<and> ''__proto__'' \<notin> CategoryName"
  by (simp add: resolve_category_def js_member_def ANYLIST_CATEGORIES_def
      object_prototype_keys_def CategoryName_def lower_eval)

text \<open>The resolution of a category depends only on its lower-case form.\<close>

theorem resolve_category_case_insensitive:
  "toLowerCase s = toLowerCase t \<Longrightarrow> resolve_category (Some s) = resolve_category (Some t)"
proof -
  assume eq: "toLowerCase s = toLowerCase t"
  then have "s = [] \<longleftrightarrow> t = []" by (metis toLowerCase_Nil)
  with eq show ?thesis by (simp add: resolve_category_def)
qed

theorem resolve_category_case_insensitive_witness:
  "resolve_category (Some ''PRODUCE'') = resolve_category (Some ''produce'')"
  by (rule resolve_category_case_insensitive) (simp add: lower_eval)

end
