(* ===== verification/Config.thy ===== *)
theory Config
  imports Json Categories
begin

text \<open>
  Credentials (\<open>src/src/config.ts\<close>). The host the CLI runs on is a record: the
  environment variables, the files (content and permission bits) and directories, and
  the home directory. \<open>loadConfig\<close>, \<open>loadConfigFromEnv\<close>, \<open>saveConfig\<close>,
  \<open>clearConfig\<close> and \<open>requireConfig\<close> are functions of it; the messages the CLI
  prints are values of \<open>out_line\<close> (\<open>printError\<close> and \<open>printSuccess\<close> live in
  \<open>output.ts\<close>, which is not among the sources, and are modelled from the spec without
  their colours). The file-system calls return their exceptions as values;
  \<open>path.join\<close> is modelled for an absolute, normalised home directory.
\<close>

section \<open>Output lines\<close>

datatype out_line = Stdout string | Stderr string | StdoutJson json

definition printError :: "string \<Rightarrow> out_line" where
  "printError msg = Stderr msg"

definition printSuccess :: "string \<Rightarrow> out_line" where
  "printSuccess msg = Stdout msg"

section \<open>The host\<close>

record host =
  env :: "string \<Rightarrow> string option"
  files :: "string \<Rightarrow> (string \<times> nat) option"
  dirs :: "string set"
  home :: string

definition path_join :: "string \<Rightarrow> string \<Rightarrow> string" where
  "path_join a b = (if a \<noteq> [] \<and> last a = CHR ''/'' then a @ b else a @ CHR ''/'' # b)"

definition CONFIG_DIR :: "host \<Rightarrow> string" where
  "CONFIG_DIR h = path_join (path_join (home h) ''.config'') ''anylist-cli''"

definition CONFIG_FILE :: "host \<Rightarrow> string" where
  "CONFIG_FILE h = path_join (CONFIG_DIR h) ''config.json''"

text \<open>The anylist library's own credentials file, which \<open>clearConfig\<close> also removes.\<close>

definition anylist_credentials :: "host \<Rightarrow> string" where
  "anylist_credentials h = path_join (home h) ''.anylist_credentials''"

text \<open>Owner read and write, \<open>0o600\<close>.\<close>

definition mode_owner_rw :: nat where "mode_owner_rw = 384"

section \<open>The file-system calls (node:fs)\<close>

text \<open>
  The calls of \<open>node:fs\<close> that config.ts makes, with the errors Linux gives them. The
  process runs as the owner of its files and not as root, so the owner's permission
  bits decide whether a file can be read or written (the access check of the Unix model
  in the Isabelle distribution, with the owner's bits in place of the others').
  Directories carry no permission bits here: they are searchable and writable. An error
  is the message of the exception Node throws.
\<close>

datatype errno = EACCES | ENOENT | EISDIR | ENOTDIR | EEXIST

fun errno_text :: "errno \<Rightarrow> string" where
  "errno_text EACCES = ''EACCES: permission denied''"
| "errno_text ENOENT = ''ENOENT: no such file or directory''"
| "errno_text EISDIR = ''EISDIR: illegal operation on a directory''"
| "errno_text ENOTDIR = ''ENOTDIR: not a directory''"
| "errno_text EEXIST = ''EEXIST: file already exists''"

definition fs_error :: "errno \<Rightarrow> string \<Rightarrow> string \<Rightarrow> string" where
  "fs_error e syscall path = errno_text e @ '', '' @ syscall @ '' '' @ [CHR 0x27] @ path @ [CHR 0x27]"

text \<open>Owner read (\<open>0o400\<close>) and owner write (\<open>0o200\<close>).\<close>

definition owner_can_read :: "nat \<Rightarrow> bool" where
  "owner_can_read m = odd (m div 256)"

definition owner_can_write :: "nat \<Rightarrow> bool" where
  "owner_can_write m = odd (m div 128)"

definition existsSync :: "host \<Rightarrow> string \<Rightarrow> bool" where
  "existsSync h p = (p \<in> dirs h \<or> files h p \<noteq> None)"

text \<open>The directory part of a path, and the path's prefixes up to each separator
  (the directories a recursive \<open>mkdir\<close> walks), ending with the path itself.\<close>

definition parent_path :: "string \<Rightarrow> string" where
  "parent_path p = butlast (rev (dropWhile (\<lambda>c. c \<noteq> CHR ''/'') (rev p)))"

definition path_prefixes :: "string \<Rightarrow> string list" where
  "path_prefixes p = map (\<lambda>i. take i p) (filter (\<lambda>i. p ! i = CHR ''/'') [1..<length p]) @ [p]"

definition readFileSync :: "host \<Rightarrow> string \<Rightarrow> errno + string" where
  "readFileSync h p =
    (case files h p of
       None \<Rightarrow> Inl (if p \<in> dirs h then EISDIR else ENOENT)
     | Some (data, m) \<Rightarrow> if owner_can_read m then Inr data else Inl EACCES)"

text \<open>\<open>mkdirSync(p, { recursive: true })\<close>: every missing directory of the path is
  created; a file in the way is an error.\<close>

definition mkdirSync :: "host \<Rightarrow> string \<Rightarrow> string + host" where
  "mkdirSync h p =
    (if files h p \<noteq> None then Inl (fs_error EEXIST ''mkdir'' p)
     else if list_ex (\<lambda>q. files h q \<noteq> None) (butlast (path_prefixes p)) then Inl (fs_error ENOTDIR ''mkdir'' p)
     else Inr (h\<lparr>dirs := dirs h \<union> set (path_prefixes p)\<rparr>))"

text \<open>\<open>writeFileSync(p, text, { mode })\<close>: an existing file is truncated and keeps its
  permission bits, so \<open>mode\<close> only applies to a new file.\<close>

definition writeFileSync :: "host \<Rightarrow> string \<Rightarrow> string \<Rightarrow> nat \<Rightarrow> string + host" where
  "writeFileSync h p text mode =
    (if p \<in> dirs h then Inl (fs_error EISDIR ''open'' p)
     else if list_ex (\<lambda>q. files h q \<noteq> None) (butlast (path_prefixes p)) then Inl (fs_error ENOTDIR ''open'' p)
     else if parent_path p \<notin> dirs h then Inl (fs_error ENOENT ''open'' p)
     else case files h p of
       Some (_, m) \<Rightarrow>
         if owner_can_write m then Inr (h\<lparr>files := (files h)(p \<mapsto> (text, m))\<rparr>)
         else Inl (fs_error EACCES ''open'' p)
     | None \<Rightarrow> Inr (h\<lparr>files := (files h)(p \<mapsto> (text, mode))\<rparr>))"

definition unlinkSync :: "host \<Rightarrow> string \<Rightarrow> string + host" where
  "unlinkSync h p =
    (case files h p of
       Some _ \<Rightarrow> Inr (h\<lparr>files := (files h)(p := None)\<rparr>)
     | None \<Rightarrow> Inl (fs_error (if p \<in> dirs h then EISDIR else ENOENT) ''unlink'' p))"

section \<open>config.ts\<close>

text \<open>
  \<open>loadConfig\<close>: \<open>null\<close> (here \<open>JNull\<close>) when the file is missing, cannot be read
  or does not parse (the \<open>catch\<close>), otherwise whatever \<open>JSON.parse\<close> returns (the
  cast to \<open>AnyListConfig\<close> checks nothing).
\<close>

definition loadConfig :: "host \<Rightarrow> json" where
  "loadConfig h =
    (if \<not> existsSync h (CONFIG_FILE h) then JNull
     else case readFileSync h (CONFIG_FILE h) of
       Inl _ \<Rightarrow> JNull
     | Inr data \<Rightarrow> (case json_parse data of None \<Rightarrow> JNull | Some v \<Rightarrow> v))"

definition loadConfigFromEnv :: "host \<Rightarrow> (string \<times> string) option" where
  "loadConfigFromEnv h =
    (case (env h ''ANYLIST_EMAIL'', env h ''ANYLIST_PASSWORD'') of
       (Some email, Some password) \<Rightarrow> if email \<noteq> [] \<and> password \<noteq> [] then Some (email, password) else None
     | _ \<Rightarrow> None)"

text \<open>
  \<open>saveConfig\<close>: creates the directory if nothing is at its path, then writes the
  file; an exception of either call propagates to the caller (\<open>Inl\<close>).
\<close>

definition saveConfig :: "host \<Rightarrow> string \<Rightarrow> string \<Rightarrow> string + host" where
  "saveConfig h email password =
    (case (if \<not> existsSync h (CONFIG_DIR h) then mkdirSync h (CONFIG_DIR h) else Inr h) of
       Inl e \<Rightarrow> Inl e
     | Inr h1 \<Rightarrow> writeFileSync h1 (CONFIG_FILE h1) (stringify_obj [(''email'', email), (''password'', password)])
                  mode_owner_rw)"

definition clearConfig :: "host \<Rightarrow> string + host" where
  "clearConfig h =
    (case (if existsSync h (CONFIG_FILE h) then unlinkSync h (CONFIG_FILE h) else Inr h) of
       Inl e \<Rightarrow> Inl e
     | Inr h1 \<Rightarrow> if existsSync h1 (anylist_credentials h1) then unlinkSync h1 (anylist_credentials h1) else Inr h1)"

text \<open>
  \<open>requireConfig\<close>: the environment's credentials first, then the file's when both
  of its fields are truthy; otherwise two messages and exit with \<open>AuthFailure\<close>. The
  result is the pair \<open>(config.email, config.password)\<close> the callers read.
\<close>

definition not_authenticated :: "out_line list" where
  "not_authenticated =
    [printError ''Not authenticated. Run: anylist auth'',
     printError ''Or set ANYLIST_EMAIL and ANYLIST_PASSWORD environment variables.'']"

definition requireConfig :: "host \<Rightarrow> (out_line list \<times> nat) + (json \<times> json)" where
  "requireConfig h =
    (case loadConfigFromEnv h of
       Some (email, password) \<Rightarrow> Inr (JStr email, JStr password)
     | None \<Rightarrow>
         (let fileConfig = loadConfig h in
          case (json_get fileConfig ''email'', json_get fileConfig ''password'') of
            (Some email, Some password) \<Rightarrow>
              if json_truthy email \<and> json_truthy password then Inr (email, password)
              else Inl (not_authenticated, ExitCode_AuthFailure)
          | _ \<Rightarrow> Inl (not_authenticated, ExitCode_AuthFailure)))"

section \<open>Lemmas\<close>

lemma paths_by_home:
  "home h' = home h \<Longrightarrow> CONFIG_DIR h' = CONFIG_DIR h \<and> CONFIG_FILE h' = CONFIG_FILE h \<and>
     anylist_credentials h' = anylist_credentials h"
  by (simp add: CONFIG_FILE_def CONFIG_DIR_def anylist_credentials_def)

lemma config_file_ne_credentials: "CONFIG_FILE h \<noteq> anylist_credentials h"
proof -
  have "length (CONFIG_FILE h) \<noteq> length (anylist_credentials h)"
    by (simp add: CONFIG_FILE_def CONFIG_DIR_def anylist_credentials_def path_join_def)
  then show ?thesis by metis
qed

lemma loadConfigFromEnv_files [simp]: "loadConfigFromEnv (h\<lparr>files := fs\<rparr>) = loadConfigFromEnv h"
  by (simp add: loadConfigFromEnv_def)

lemma paths_files_update [simp]:
  "CONFIG_DIR (h\<lparr>files := fs\<rparr>) = CONFIG_DIR h"
  "CONFIG_FILE (h\<lparr>files := fs\<rparr>) = CONFIG_FILE h"
  "anylist_credentials (h\<lparr>files := fs\<rparr>) = anylist_credentials h"
  "CONFIG_DIR (h\<lparr>dirs := ds\<rparr>) = CONFIG_DIR h"
  "CONFIG_FILE (h\<lparr>dirs := ds\<rparr>) = CONFIG_FILE h"
  by (simp_all add: CONFIG_FILE_def CONFIG_DIR_def anylist_credentials_def)

text \<open>What a successful call of the file system changes.\<close>

lemma mkdirSync_Inr: "mkdirSync h p = Inr h' \<Longrightarrow> h' = h\<lparr>dirs := dirs h \<union> set (path_prefixes p)\<rparr>"
  by (simp add: mkdirSync_def split: if_splits)

lemma writeFileSync_Inr:
  "writeFileSync h p t mode = Inr h' \<Longrightarrow>
   h' = h\<lparr>files := (files h)(p \<mapsto> (t, case files h p of Some (_, m) \<Rightarrow> m | None \<Rightarrow> mode))\<rparr> \<and>
   (case files h p of Some (_, m) \<Rightarrow> owner_can_write m | None \<Rightarrow> True)"
  by (auto simp: writeFileSync_def split: if_splits option.splits)

lemma files_update_None [simp]: "files h p = None \<Longrightarrow> h\<lparr>files := (files h)(p := None)\<rparr> = h"
  by (simp add: fun_upd_idem)

lemma unlinkSync_Inr: "unlinkSync h p = Inr h' \<Longrightarrow> h' = h\<lparr>files := (files h)(p := None)\<rparr>"
  by (auto simp: unlinkSync_def split: option.splits)

lemma saveConfig_Inr:
  assumes "saveConfig h e p = Inr h'"
  shows "home h' = home h \<and> env h' = env h \<and>
    files h' = (files h)(CONFIG_FILE h \<mapsto> (stringify_obj [(''email'', e), (''password'', p)],
       case files h (CONFIG_FILE h) of Some (_, m) \<Rightarrow> m | None \<Rightarrow> mode_owner_rw)) \<and>
    (case files h (CONFIG_FILE h) of Some (_, m) \<Rightarrow> owner_can_write m | None \<Rightarrow> True)"
proof -
  obtain h1 where h1: "(if \<not> existsSync h (CONFIG_DIR h) then mkdirSync h (CONFIG_DIR h) else Inr h) = Inr h1"
    and w: "writeFileSync h1 (CONFIG_FILE h1) (stringify_obj [(''email'', e), (''password'', p)]) mode_owner_rw = Inr h'"
    using assms by (auto simp: saveConfig_def split: sum.splits)
  have eq: "h1 = h \<or> h1 = h\<lparr>dirs := dirs h \<union> set (path_prefixes (CONFIG_DIR h))\<rparr>"
    using h1 by (auto split: if_splits dest: mkdirSync_Inr)
  then have "CONFIG_FILE h1 = CONFIG_FILE h" and "files h1 = files h" and "home h1 = home h" and "env h1 = env h"
    by auto
  with writeFileSync_Inr [OF w] show ?thesis by simp
qed

lemma clearConfig_Inr:
  assumes "clearConfig h = Inr h'"
  shows "home h' = home h \<and> env h' = env h \<and> dirs h' = dirs h \<and>
    files h' = (files h)(CONFIG_FILE h := None, anylist_credentials h := None)"
proof -
  obtain h1 where h1: "(if existsSync h (CONFIG_FILE h) then unlinkSync h (CONFIG_FILE h) else Inr h) = Inr h1"
    and r: "(if existsSync h1 (anylist_credentials h1) then unlinkSync h1 (anylist_credentials h1) else Inr h1) = Inr h'"
    using assms by (auto simp: clearConfig_def split: sum.splits)
  have f1: "h1 = h\<lparr>files := (files h)(CONFIG_FILE h := None)\<rparr>"
    using h1 by (cases "files h (CONFIG_FILE h)") (auto simp: existsSync_def unlinkSync_def split: if_splits)
  have "h' = h1\<lparr>files := (files h1)(anylist_credentials h1 := None)\<rparr>"
    using r by (cases "files h1 (anylist_credentials h1)") (auto simp: existsSync_def unlinkSync_def split: if_splits)
  with f1 show ?thesis by (simp add: fun_upd_twist config_file_ne_credentials)
qed

lemma loadConfig_file:
  "files h (CONFIG_FILE h) = Some (d, m) \<Longrightarrow>
   loadConfig h = (if owner_can_read m then (case json_parse d of None \<Rightarrow> JNull | Some v \<Rightarrow> v) else JNull)"
  by (simp add: loadConfig_def existsSync_def readFileSync_def)

lemma loadConfig_no_file: "files h (CONFIG_FILE h) = None \<Longrightarrow> loadConfig h = JNull"
  by (simp add: loadConfig_def existsSync_def readFileSync_def)

lemma mode_owner_rw_perms [simp]: "owner_can_read mode_owner_rw" "owner_can_write mode_owner_rw"
  by (simp_all add: owner_can_read_def owner_can_write_def mode_owner_rw_def)

lemma loadConfig_saveConfig:
  assumes "saveConfig h e p = Inr h'"
    and "case files h (CONFIG_FILE h) of Some (_, m) \<Rightarrow> owner_can_read m | None \<Rightarrow> True"
  shows "loadConfig h' = JObj [(''email'', JStr e), (''password'', JStr p)]"
proof -
  note sv = saveConfig_Inr [OF assms(1)]
  have "CONFIG_FILE h' = CONFIG_FILE h" using paths_by_home [of h' h] sv by simp
  then show ?thesis
    using sv assms(2) by (auto simp: loadConfig_file json_parse_stringify_obj split: option.splits)
qed

lemma requireConfig_Inl: "requireConfig h = Inl r \<Longrightarrow> r = (not_authenticated, ExitCode_AuthFailure)"
  by (auto simp: requireConfig_def Let_def split: option.splits prod.splits if_splits)

lemma requireConfig_saveConfig:
  "saveConfig h e p = Inr h' \<Longrightarrow> case files h (CONFIG_FILE h) of Some (_, m) \<Rightarrow> owner_can_read m | None \<Rightarrow> True \<Longrightarrow>
   loadConfigFromEnv h = None \<Longrightarrow> e \<noteq> [] \<Longrightarrow> p \<noteq> [] \<Longrightarrow>
   requireConfig h' = Inr (JStr e, JStr p)"
  using saveConfig_Inr [of h e p h']
  by (simp add: requireConfig_def loadConfig_saveConfig loadConfigFromEnv_def)

section \<open>Example host\<close>

abbreviation ex_host :: host where
  "ex_host \<equiv> \<lparr>env = Map.empty, files = Map.empty, dirs = {''/home/u''}, home = ''/home/u''\<rparr>"

section \<open>Headline theorems\<close>

text \<open>C19 (roundtrip). With no credentials in the environment, credentials that
  \<open>saveConfig\<close> wrote to a file the owner can read are what \<open>loadConfig\<close> reads
  back and what \<open>requireConfig\<close> returns, whatever characters they contain.\<close>

theorem saveConfig_roundtrip:
  assumes "loadConfigFromEnv h = None" and "e \<noteq> []" and "p \<noteq> []" and save: "saveConfig h e p = Inr h'"
    and "case files h (CONFIG_FILE h) of Some (_, m) \<Rightarrow> owner_can_read m | None \<Rightarrow> True"
  shows "loadConfig h' = JObj [(''email'', JStr e), (''password'', JStr p)] \<and>
    requireConfig h' = Inr (JStr e, JStr p)"
  using loadConfig_saveConfig [OF save assms(5)] requireConfig_saveConfig [OF save assms(5,1-3)] by simp

theorem saveConfig_roundtrip_witness:
  "\<exists>h'. saveConfig ex_host ''me@example.com'' [CHR 0x22, CHR 0x5C, CHR 0x0A] = Inr h' \<and>
     requireConfig h' = Inr (JStr ''me@example.com'', JStr [CHR 0x22, CHR 0x5C, CHR 0x0A])"
proof -
  obtain h' where save: "saveConfig ex_host ''me@example.com'' [CHR 0x22, CHR 0x5C, CHR 0x0A] = Inr h'"
    by (simp add: saveConfig_def existsSync_def mkdirSync_def writeFileSync_def CONFIG_FILE_def CONFIG_DIR_def
        path_join_def path_prefixes_def parent_path_def)
  have "loadConfigFromEnv ex_host = None" by (simp add: loadConfigFromEnv_def)
  from saveConfig_roundtrip [OF this _ _ save] save show ?thesis
    by (auto simp: CONFIG_FILE_def CONFIG_DIR_def path_join_def)
qed

text \<open>C20 (error). \<open>requireConfig\<close> fails exactly when the environment lacks one of
  the two variables (or one is empty) and the file does not hold a truthy email and a
  truthy password; it then prints its two messages and exits with \<open>AuthFailure\<close> (3).\<close>

theorem requireConfig_fails_iff:
  "(requireConfig h = Inl (not_authenticated, ExitCode_AuthFailure) \<longleftrightarrow>
     loadConfigFromEnv h = None \<and>
     \<not> (\<exists>e p. json_get (loadConfig h) ''email'' = Some e \<and> json_get (loadConfig h) ''password'' = Some p \<and>
              json_truthy e \<and> json_truthy p)) \<and>
   (\<forall>r. requireConfig h = Inl r \<longrightarrow> r = (not_authenticated, ExitCode_AuthFailure))"
proof (cases "loadConfigFromEnv h")
  case (Some ep)
  then show ?thesis by (cases ep) (simp add: requireConfig_def)
next
  case None
  show ?thesis
  proof (cases "json_get (loadConfig h) ''email''")
    case None
    with \<open>loadConfigFromEnv h = None\<close> show ?thesis by (simp add: requireConfig_def)
  next
    case (Some e)
    with \<open>loadConfigFromEnv h = None\<close> show ?thesis
      by (cases "json_get (loadConfig h) ''password''") (simp_all add: requireConfig_def)
  qed
qed

theorem requireConfig_fails_iff_witness:
  "requireConfig ex_host = Inl (not_authenticated, 3)"
proof -
  have env: "loadConfigFromEnv ex_host = None" by (simp add: loadConfigFromEnv_def)
  have nofile: "loadConfig ex_host = JNull" by (simp add: loadConfig_no_file)
  have "requireConfig ex_host = Inl (not_authenticated, ExitCode_AuthFailure)"
    using requireConfig_fails_iff [of ex_host] env nofile by simp
  then show ?thesis by (simp add: ExitCode_AuthFailure_def)
qed


text \<open>C21 (error). After a successful \<open>logout\<close> (\<open>clearConfig\<close>) both credential
  files are gone and, with no credentials in the environment, \<open>requireConfig\<close> fails
  with \<open>AuthFailure\<close>.\<close>

theorem clearConfig_logs_out:
  assumes "loadConfigFromEnv h = None" and clear: "clearConfig h = Inr h'"
  shows "files h' (CONFIG_FILE h) = None \<and> files h' (anylist_credentials h) = None \<and>
    requireConfig h' = Inl (not_authenticated, ExitCode_AuthFailure)"
proof -
  note c = clearConfig_Inr [OF clear]
  have paths: "CONFIG_FILE h' = CONFIG_FILE h" using paths_by_home [of h' h] c by simp
  have "loadConfigFromEnv h' = None" using assms(1) c by (simp add: loadConfigFromEnv_def)
  moreover have "loadConfig h' = JNull"
    using c by (simp add: loadConfig_no_file paths config_file_ne_credentials)
  ultimately show ?thesis using c by (simp add: requireConfig_def)
qed

theorem clearConfig_logs_out_witness:
  "clearConfig (ex_host\<lparr>files := [''/home/u/.config/anylist-cli/config.json'' \<mapsto> (''{}'', 384)]\<rparr>) = Inr ex_host \<and>
   requireConfig ex_host = Inl (not_authenticated, 3)"
proof -
  let ?h = "ex_host\<lparr>files := [''/home/u/.config/anylist-cli/config.json'' \<mapsto> (''{}'', 384)]\<rparr>"
  have c: "clearConfig ?h = Inr ex_host"
    by (simp add: clearConfig_def existsSync_def unlinkSync_def CONFIG_FILE_def CONFIG_DIR_def
        anylist_credentials_def path_join_def)
  have "loadConfigFromEnv ?h = None" by (simp add: loadConfigFromEnv_def)
  from clearConfig_logs_out [OF this c] c show ?thesis by (simp add: ExitCode_AuthFailure_def)
qed

text \<open>C22 (safety). A successful \<open>saveConfig\<close> writes the serialised credentials to
  the config file and to no other file; a new file is created owner read/write only
  (\<open>0o600\<close>), but an existing file keeps the permission bits it had, and an existing
  file its owner cannot write is never saved over.\<close>

theorem saveConfig_file_mode:
  assumes "saveConfig h e p = Inr h'"
  shows "files h' (CONFIG_FILE h) =
     Some (stringify_obj [(''email'', e), (''password'', p)],
           case files h (CONFIG_FILE h) of None \<Rightarrow> mode_owner_rw | Some (_, m) \<Rightarrow> m) \<and>
   (\<forall>f. f \<noteq> CONFIG_FILE h \<longrightarrow> files h' f = files h f) \<and>
   (\<forall>d m. files h (CONFIG_FILE h) = Some (d, m) \<longrightarrow> owner_can_write m)"
  using saveConfig_Inr [OF assms] by (simp split: option.splits prod.splits)

theorem saveConfig_file_mode_witness:
  "\<exists>h'. saveConfig (ex_host\<lparr>files := [''/home/u/.config/anylist-cli/config.json'' \<mapsto> (''{}'', 420)]\<rparr>)
      ''me@example.com'' ''pw'' = Inr h' \<and> snd (the (files h' ''/home/u/.config/anylist-cli/config.json'')) = 420"
proof -
  let ?h = "ex_host\<lparr>files := [''/home/u/.config/anylist-cli/config.json'' \<mapsto> (''{}'', 420)]\<rparr>"
  obtain h' where save: "saveConfig ?h ''me@example.com'' ''pw'' = Inr h'"
    by (simp add: saveConfig_def existsSync_def mkdirSync_def writeFileSync_def CONFIG_FILE_def CONFIG_DIR_def
        path_join_def path_prefixes_def parent_path_def owner_can_write_def)
  have "CONFIG_FILE ?h = ''/home/u/.config/anylist-cli/config.json''"
    by (simp add: CONFIG_FILE_def CONFIG_DIR_def path_join_def)
  with saveConfig_file_mode [OF save] save show ?thesis by auto
qed

text \<open>C23 (error). A config file that its owner cannot read, or that is not valid JSON,
  is read as \<open>null\<close>, and then, with no credentials in the environment,
  \<open>requireConfig\<close> fails with \<open>AuthFailure\<close>.\<close>

theorem loadConfig_malformed:
  assumes "files h (CONFIG_FILE h) = Some (d, m)" and "\<not> owner_can_read m \<or> json_parse d = None"
    and "loadConfigFromEnv h = None"
  shows "loadConfig h = JNull \<and> requireConfig h = Inl (not_authenticated, ExitCode_AuthFailure)"
proof -
  have "loadConfig h = JNull" using assms(1,2) by (auto simp: loadConfig_file)
  then show ?thesis using assms(3) by (simp add: requireConfig_def)
qed

theorem loadConfig_malformed_witness:
  "requireConfig (ex_host\<lparr>files := [''/home/u/.config/anylist-cli/config.json'' \<mapsto> (''{\"email\": '', 384)]\<rparr>) =
     Inl (not_authenticated, 3)"
proof -
  let ?h = "ex_host\<lparr>files := [''/home/u/.config/anylist-cli/config.json'' \<mapsto> (''{\"email\": '', 384)]\<rparr>"
  have f: "files ?h (CONFIG_FILE ?h) = Some (''{\"email\": '', 384)"
    by (simp add: CONFIG_FILE_def CONFIG_DIR_def path_join_def)
  have p: "\<not> owner_can_read 384 \<or> json_parse ''{\"email\": '' = None" by code_simp
  have e: "loadConfigFromEnv ?h = None" by (simp add: loadConfigFromEnv_def)
  from loadConfig_malformed [OF f p e] show ?thesis by (simp add: ExitCode_AuthFailure_def)
qed

text \<open>C37 (termination). \<open>loadConfig\<close> reads a readable file with the fuel-bounded
  \<open>JSON.parse\<close>, and the fuel is never what makes it fail: with any fuel of at least
  \<open>2 * length d + 1\<close> for the file's contents \<open>d\<close> the parser gives the result
  \<open>loadConfig\<close> uses, so the fuel-bounded parser is the total one.\<close>

theorem loadConfig_fuel_enough:
  assumes "files h (CONFIG_FILE h) = Some (d, m)" and "owner_can_read m" and "2 * length d + 1 \<le> n"
  shows "loadConfig h =
    (case parse_value n d of None \<Rightarrow> JNull | Some (v, r) \<Rightarrow> if skip_ws r = [] then v else JNull)"
  using assms(1,2) json_parse_fuel_enough [OF assms(3)]
  by (simp add: loadConfig_file split: option.splits prod.splits)

theorem loadConfig_fuel_enough_witness:
  "loadConfig (ex_host\<lparr>files := [''/home/u/.config/anylist-cli/config.json'' \<mapsto> (''[{}]'', 384)]\<rparr>) =
     (case parse_value 100 ''[{}]'' of None \<Rightarrow> JNull | Some (v, r) \<Rightarrow> if skip_ws r = [] then v else JNull)"
  by (rule loadConfig_fuel_enough [where d = "''[{}]''" and m = 384])
    (simp_all add: CONFIG_FILE_def CONFIG_DIR_def path_join_def owner_can_read_def)

end
