(* ===== verification/Prompts.thy ===== *)
theory Prompts
  imports Categories
begin

text \<open>
  The two prompts of the CLI (\<open>prompt\<close>, \<open>src/src/types.ts\<close> lines 437--482): the
  line prompt of \<open>rl.question\<close>, which \<open>auth\<close> uses for the email, and the hidden
  prompt, the raw-mode \<open>onData\<close> handler it uses for the password. Both read the
  sequence of \<open>data\<close> chunks the terminal delivers. The lemmas relate the hidden
  prompt to a reference line editor and show when each prompt answers.
\<close>

section \<open>Prompts (lines 437--482)\<close>

text \<open>
  The standard input is the sequence of \<open>data\<close> chunks the terminal delivers. A
  prompt either answers with the remaining chunks, ends the process, or waits for input
  that never comes in this sequence.
\<close>

datatype prompt_outcome = Answer string "string list" | PromptExit nat | Waiting

definition is_line_end :: "char \<Rightarrow> bool" where
  "is_line_end c = (c = CHR 0x0A \<or> c = CHR 0x0D)"

text \<open>
  \<open>rl.question\<close>: the answer is the text before the first line end; the rest of the
  chunk holding it stays in the closed interface's buffer and is lost. Line editing by
  \<open>readline\<close> is not modelled.
\<close>

fun line_prompt :: "string \<Rightarrow> string list \<Rightarrow> prompt_outcome" where
  "line_prompt acc [] = Waiting"
| "line_prompt acc (c # cs) =
    (if list_ex is_line_end c then Answer (acc @ takeWhile (\<lambda>x. \<not> is_line_end x) c) cs
     else line_prompt (acc @ c) cs)"

text \<open>
  The hidden prompt's \<open>onData\<close> handler: each chunk is compared as a whole with the
  line ends, Ctrl-D, Ctrl-C and the two backspace characters; any other chunk is appended
  to the password.
\<close>

definition ctrl_d :: string where "ctrl_d = [CHR 0x04]"
definition ctrl_c :: string where "ctrl_c = [CHR 0x03]"

fun hidden_prompt :: "string \<Rightarrow> string list \<Rightarrow> prompt_outcome" where
  "hidden_prompt password [] = Waiting"
| "hidden_prompt password (c # cs) =
    (if c = [CHR 0x0A] \<or> c = [CHR 0x0D] \<or> c = ctrl_d then Answer password cs
     else if c = ctrl_c then PromptExit ExitCode_Failure
     else if c = [CHR 0x7F] \<or> c = [CHR 0x08] then
       hidden_prompt (if 0 < length password then butlast password else password) cs
     else hidden_prompt (password @ c) cs)"

text \<open>A reference for the password prompt: a line editor in which the two backspace
  characters delete the last character and every other key is appended.\<close>

definition edit_key :: "string \<Rightarrow> char \<Rightarrow> string" where
  "edit_key p c = (if c = CHR 0x7F \<or> c = CHR 0x08 then butlast p else p @ [c])"

section \<open>Lemmas\<close>

lemma line_prompt_answers:
  "list_ex (list_ex is_line_end) xs \<Longrightarrow> \<exists>e k. line_prompt acc (xs @ zs) = Answer e (drop k xs @ zs)"
proof (induction xs arbitrary: acc)
  case (Cons x xs)
  show ?case
  proof (cases "list_ex is_line_end x")
    case True
    then show ?thesis by (auto intro: exI [of _ 1])
  next
    case False
    with Cons.prems have "list_ex (list_ex is_line_end) xs" by simp
    then obtain e k where "line_prompt (acc @ x) (xs @ zs) = Answer e (drop k xs @ zs)"
      using Cons.IH by blast
    with False show ?thesis by (auto intro: exI [of _ "Suc k"])
  qed
qed simp

lemma hidden_prompt_enter: "hidden_prompt p (cs @ [CHR 0x0D] # rest) \<noteq> Waiting"
  by (induction cs arbitrary: p) auto

lemma hidden_prompt_keys:
  "list_all (\<lambda>c. c \<notin> {CHR 0x0A, CHR 0x0D, CHR 0x04, CHR 0x03}) keys \<Longrightarrow>
   hidden_prompt p (map (\<lambda>c. [c]) keys @ cs) = hidden_prompt (foldl edit_key p keys) cs"
  by (induction keys arbitrary: p) (auto simp: ctrl_d_def ctrl_c_def edit_key_def)

text \<open>C32 (equivalence). Typed one key per chunk, the password prompt is the reference
  line editor: at Enter it returns the text the editor builds from the keys, backspace
  deleting the last character.\<close>

theorem hidden_prompt_editor:
  assumes "list_all (\<lambda>c. c \<notin> {CHR 0x0A, CHR 0x0D, CHR 0x04, CHR 0x03}) keys"
  shows "hidden_prompt [] (map (\<lambda>c. [c]) keys @ [CHR 0x0D] # rest) = Answer (foldl edit_key [] keys) rest"
  using hidden_prompt_keys [OF assms] by simp

text \<open>C33 (error). The password prompt compares a whole chunk with the line ends, so a
  chunk of two or more characters (a pasted password, its line end included) is appended
  whole to the password: input made only of such chunks never ends the prompt, which
  waits for a line end typed on its own.\<close>

theorem hidden_prompt_pasted_line:
  assumes "list_all (\<lambda>c. 2 \<le> length c) cs"
  shows "hidden_prompt p (cs @ rest) = hidden_prompt (p @ concat cs) rest \<and> hidden_prompt p cs = Waiting"
  using assms
proof (induction cs arbitrary: p)
  case Nil
  then show ?case by simp
next
  case (Cons c cs)
  then have "c \<noteq> [x]" for x by auto
  with Cons show ?case by (simp add: ctrl_d_def ctrl_c_def)
qed

theorem hidden_prompt_editor_witness:
  "hidden_prompt [] [[CHR ''a''], [CHR ''b''], [CHR 0x7F], [CHR ''c''], [CHR 0x0D]] = Answer ''ac'' []"
  using hidden_prompt_editor [of "[CHR ''a'', CHR ''b'', CHR 0x7F, CHR ''c'']" "[]"] by (simp add: edit_key_def)

theorem hidden_prompt_pasted_line_witness:
  "hidden_prompt [] [''pw'' @ [CHR 0x0D]] = Waiting \<and>
   hidden_prompt [] [''pw'' @ [CHR 0x0D], [CHR 0x0D]] = Answer (''pw'' @ [CHR 0x0D]) []"
  using hidden_prompt_pasted_line [of "[''pw'' @ [CHR 0x0D]]" "[]" "[[CHR 0x0D]]"] by simp

end
