(* ===== verification/Cli.thy ===== *)
theory Cli
  imports Client Config Prompts
begin

text \<open>
  The command-line program (\<open>src/src/types.ts\<close> lines 376--908, the module
  \<open>cli.ts\<close>) and the session handle of the client wrapper (\<open>getClient\<close>,
  \<open>teardown\<close>, lines 110--133). One invocation is a function of a \<open>world\<close>: the
  host (environment and files), whether stdin is a terminal and the data it delivers, the
  account the service knows and its lists, the wrapper's \<open>clientInstance\<close>, the
  identifier the library will give the next new item, the lines written so far and the
  exit code once \<open>process.exit\<close> was called. A handler that calls
  \<open>process.exit\<close> stops there: the helpers return \<open>Inl\<close> of the final world in
  that case and \<open>Inr\<close> of the world to continue with otherwise. A handler that
  returns normally leaves \<open>exit_code\<close> as \<open>None\<close>: the process then ends with 0.
  \<open>no_color\<close> is the flag \<open>setNoColor\<close> of output.ts sets; \<open>service_error\<close> says which remote call of the invocation, if any, throws; the
  \<open>catch\<close> block of the command then ends it (\<open>deliver\<close>, \<open>library_error\<close>).
  Colours (\<open>style\<close>, \<open>--no-color\<close>) are not modelled: text is compared without
  escape codes.
\<close>

section \<open>The world of one invocation\<close>

record world =
  host :: host
  tty :: bool
  stdin :: "string list"
  account :: "string \<times> string"
  service :: "anylist_list list"
  clientInstance :: "(json \<times> json) option"
  next_item_id :: string
  service_error :: "nat option"
  no_color :: bool
  out :: "out_line list"
  exit_code :: "nat option"

definition emit :: "out_line list \<Rightarrow> world \<Rightarrow> world" where
  "emit ls w = w\<lparr>out := out w @ ls\<rparr>"

definition process_exit :: "nat \<Rightarrow> world \<Rightarrow> world" where
  "process_exit c w = w\<lparr>exit_code := Some c\<rparr>"

definition exit_status :: "world \<Rightarrow> nat" where
  "exit_status w = (case exit_code w of None \<Rightarrow> ExitCode_Success | Some c \<Rightarrow> c)"

section \<open>Text helpers\<close>

text \<open>A number in a template literal, and \<open>String(v)\<close> of a parsed JSON value.\<close>

fun nat_str :: "nat \<Rightarrow> string" where
  "nat_str n = (if n < 10 then [char_of (48 + n)] else nat_str (n div 10) @ [char_of (48 + n mod 10)])"

declare nat_str.simps [simp del]

fun json_to_string :: "json \<Rightarrow> string" where
  "json_to_string JNull = ''null''"
| "json_to_string (JBool b) = (if b then ''true'' else ''false'')"
| "json_to_string (JNum s) = s"
| "json_to_string (JStr s) = s"
| "json_to_string (JArr vs) = join_with '','' (map json_to_string vs)"
| "json_to_string (JObj _) = ''[object Object]''"

text \<open>\<open>String(v)\<close> of a wrapper value (the strings it holds, or an inherited function).\<close>

fun js_to_string :: "jsval \<Rightarrow> string" where
  "js_to_string JsUndefined = ''undefined''"
| "js_to_string (JsString s) = s"
| "js_to_string (JsObject k) =
    (if k = ''__proto__'' then ''[object Object]'' else ''function '' @ k @ ''() { [native code] }'')"

text \<open>
  \<open>JSON.stringify\<close> of a wrapper value as an object member: \<open>undefined\<close> and
  functions are left out, \<open>Object.prototype\<close> is an empty object.
\<close>

fun js_to_json :: "jsval \<Rightarrow> json option" where
  "js_to_json JsUndefined = None"
| "js_to_json (JsString s) = Some (JStr s)"
| "js_to_json (JsObject k) = (if k = ''__proto__'' then Some (JObj []) else None)"

definition json_members :: "(string \<times> json option) list \<Rightarrow> json" where
  "json_members ms = JObj (List.map_filter (\<lambda>(k, v). map_option (\<lambda>x. (k, x)) v) ms)"

definition item_json :: "ItemInfo \<Rightarrow> json" where
  "item_json i =
    json_members
      [(''name'', Some (JStr (info_name i))), (''quantity'', js_to_json (info_quantity i)),
       (''details'', js_to_json (info_details i)), (''checked'', Some (JBool (info_checked i))),
       (''identifier'', Some (JStr (info_identifier i))),
       (''categoryMatchId'', js_to_json (info_categoryMatchId i))]"

definition list_json :: "ListInfo \<Rightarrow> json" where
  "list_json li =
    JObj [(''name'', JStr (li_name li)), (''identifier'', JStr (li_identifier li)),
          (''itemCount'', JNum (nat_str (itemCount li))), (''checkedCount'', JNum (nat_str (checkedCount li)))]"

text \<open>The bullet, the check mark and the arrow (U+2022, U+2713, U+2192), as their UTF-8 bytes.\<close>

definition bullet :: string where "bullet = [CHR 0xE2, CHR 0x80, CHR 0xA2]"
definition checkmark :: string where "checkmark = [CHR 0xE2, CHR 0x9C, CHR 0x93]"
definition arrow :: string where "arrow = [CHR 0xE2, CHR 0x86, CHR 0x92]"

section \<open>The session handle (types.ts 110--133)\<close>

text \<open>
  \<open>getClient\<close>: \<open>client.login()\<close> succeeds only for the account's credentials (the
  library rejects anything else, and its message is not modelled); on success the client
  becomes \<open>clientInstance\<close>. \<open>teardown\<close> closes it and clears the handle.
\<close>

definition login_failed :: string where "login_failed = ''login failed''"

definition getClient :: "world \<Rightarrow> json \<Rightarrow> json \<Rightarrow> string + world" where
  "getClient w email password =
    (if (email, password) = (JStr (fst (account w)), JStr (snd (account w)))
     then Inr (w\<lparr>clientInstance := Some (email, password)\<rparr>)
     else Inl login_failed)"

definition teardown :: "world \<Rightarrow> world" where
  "teardown w = (if clientInstance w \<noteq> None then w\<lparr>clientInstance := None\<rparr> else w)"

text \<open>\<open>getAuthenticatedClient\<close> (lines 487--498).\<close>

definition getAuthenticatedClient :: "world \<Rightarrow> world + world" where
  "getAuthenticatedClient w =
    (case requireConfig (host w) of
       Inl (msgs, code) \<Rightarrow> Inl (process_exit code (emit msgs w))
     | Inr (email, password) \<Rightarrow>
         (case getClient w email password of
            Inl msg \<Rightarrow> Inl (process_exit ExitCode_AuthFailure
                          (emit [printError (''Authentication failed: '' @ msg)] w))
          | Inr w' \<Rightarrow> Inr w'))"

text \<open>The list lookup every list command starts with, and its failure branch.\<close>

definition find_list :: "string \<Rightarrow> world \<Rightarrow> world + (anylist_list \<times> world)" where
  "find_list listName w =
    (case getListByName (service w) listName of
       None \<Rightarrow> Inl (process_exit ExitCode_Failure (teardown (emit [printError (''List not found: '' @ listName)] w)))
     | Some l \<Rightarrow> Inr (l, w))"

text \<open>The service after the calls of one wrapper operation.\<close>

definition send_calls :: "remote_call list \<Rightarrow> world \<Rightarrow> world" where
  "send_calls cs w = w\<lparr>service := map (\<lambda>l. apply_calls l cs) (service w)\<rparr>"

text \<open>
  A remote call can fail (the network, or the service refusing it): \<open>service_error\<close>
  is \<open>Some k\<close> when the call numbered \<open>k\<close> (from 0) of this invocation throws. The
  calls before it have reached the service, and the wrapper's \<open>await\<close> rethrows the
  library's error (\<open>Inl\<close>), which the command's \<open>catch\<close> block handles.
\<close>

definition service_failure :: string where "service_failure = ''request failed''"

definition delivered :: "remote_call list \<Rightarrow> world \<Rightarrow> remote_call list" where
  "delivered cs w = (case service_error w of None \<Rightarrow> cs | Some k \<Rightarrow> take k cs)"

definition deliver :: "remote_call list \<Rightarrow> world \<Rightarrow> world + world" where
  "deliver cs w =
    (if delivered cs w = cs then Inr (send_calls cs w) else Inl (send_calls (delivered cs w) w))"

text \<open>The \<open>catch\<close> block of every command that uses the service: the message, exit 1,
  and no \<open>teardown\<close>.\<close>

definition library_error :: "world \<Rightarrow> world" where
  "library_error w = process_exit ExitCode_Failure (emit [printError service_failure] w)"

section \<open>Read-only commands\<close>

definition list_line :: "ListInfo \<Rightarrow> string" where
  "list_line li =
    ''  '' @ bullet @ '' '' @ li_name li @ '' - '' @ nat_str (itemCount li) @ '' items'' @
    (if 0 < checkedCount li then '' ('' @ nat_str (checkedCount li) @ '' checked)'' else [])"

definition cmd_lists :: "bool \<Rightarrow> world \<Rightarrow> world" where
  "cmd_lists json w =
    (case getAuthenticatedClient w of
       Inl w' \<Rightarrow> w'
     | Inr w1 \<Rightarrow>
         (let lists = getLists (service w1); w2 = teardown w1 in
          if json then emit [StdoutJson (JArr (map list_json lists))] w2
          else if lists = [] then emit [Stdout ''No lists found.''] w2
          else emit (Stdout (''Your lists:'' @ [CHR 0x0A]) # map (Stdout \<circ> list_line) lists) w2))"

definition qty_suffix :: "jsval \<Rightarrow> string" where
  "qty_suffix q = (if js_truthy q then '' ('' @ js_to_string q @ '')'' else [])"

definition items_text :: "string \<Rightarrow> bool \<Rightarrow> ItemInfo list \<Rightarrow> out_line list" where
  "items_text lname uncheckedOpt infos =
    (let unchecked = filter (\<lambda>i. \<not> info_checked i) infos;
         checked = filter info_checked infos
     in Stdout (lname @ '':'' @ [CHR 0x0A]) #
        map (\<lambda>i. Stdout (''  '' @ bullet @ '' '' @ info_name i @ qty_suffix (info_quantity i))) unchecked @
        (if checked \<noteq> [] \<and> \<not> uncheckedOpt then
           (if unchecked \<noteq> [] then [Stdout ''''] else []) @ [Stdout ''Checked:''] @
           map (\<lambda>i. Stdout (''  '' @ checkmark @ '' '' @ info_name i @ qty_suffix (info_quantity i))) checked
         else []))"

definition cmd_items :: "string \<Rightarrow> bool \<Rightarrow> bool \<Rightarrow> world \<Rightarrow> world" where
  "cmd_items listName json uncheckedOpt w =
    (case getAuthenticatedClient w of
       Inl w' \<Rightarrow> w'
     | Inr w1 \<Rightarrow>
         (case find_list listName w1 of
            Inl w' \<Rightarrow> w'
          | Inr (l, w2) \<Rightarrow>
              (let infos = getItems l uncheckedOpt; w3 = teardown w2 in
               if json then emit [StdoutJson (JObj [(''name'', JStr (list_name l)), (''items'', JArr (map item_json infos))])] w3
               else if infos = [] then
                 emit [Stdout (list_name l @ '': '' @ (if uncheckedOpt then ''No unchecked items'' else ''List is empty''))] w3
               else emit (items_text (list_name l) uncheckedOpt infos) w3)))"

section \<open>Commands that change a list\<close>

text \<open>\<open>add\<close> (lines 674--736): the list first, then the category, then \<open>addItem\<close>.\<close>

definition cmd_add :: "string \<Rightarrow> string \<Rightarrow> string option \<Rightarrow> string option \<Rightarrow> bool \<Rightarrow> world \<Rightarrow> world" where
  "cmd_add listName itemName quantityOpt categoryOpt json w =
    (case getAuthenticatedClient w of
       Inl w' \<Rightarrow> w'
     | Inr w1 \<Rightarrow>
         (case find_list listName w1 of
            Inl w' \<Rightarrow> w'
          | Inr (l, w2) \<Rightarrow>
              (case resolve_category categoryOpt of
                 Inl code \<Rightarrow>
                   process_exit code (teardown (emit
                     [printError (''Unknown category: '' @ the categoryOpt),
                      Stderr (''Available categories: '' @ join_with '', '' (map fst ANYLIST_CATEGORIES))] w2))
               | Inr categoryId \<Rightarrow>
                   (let (item, l', cs) = addItem (next_item_id w2) l itemName (js_opt quantityOpt) categoryId JsUndefined
                    in case deliver cs w2 of
                         Inl w' \<Rightarrow> library_error w'
                       | Inr w2' \<Rightarrow>
                           let w3 = teardown w2'
                           in if json then emit [StdoutJson (item_json item)] w3
                              else emit [printSuccess (''Added \"'' @ info_name item @ ''\"'' @
                                    qty_suffix (info_quantity item) @ '' to '' @ list_name l)] w3))))"

text \<open>\<open>check\<close> and \<open>uncheck\<close> (lines 738--820) differ in the wrapper call and the verb.\<close>

definition cmd_check :: "string \<Rightarrow> string \<Rightarrow> bool \<Rightarrow> world \<Rightarrow> world" where
  "cmd_check listName itemName json w =
    (case getAuthenticatedClient w of
       Inl w' \<Rightarrow> w'
     | Inr w1 \<Rightarrow>
         (case find_list listName w1 of
            Inl w' \<Rightarrow> w'
          | Inr (l, w2) \<Rightarrow>
              (let (item, l', cs) = checkItem l itemName
               in case deliver cs w2 of
                    Inl w' \<Rightarrow> library_error w'
                  | Inr w2' \<Rightarrow>
                      let w3 = teardown w2'
                      in case item of
                           None \<Rightarrow> process_exit ExitCode_Failure (emit [printError (''Item not found: '' @ itemName)] w3)
                         | Some i \<Rightarrow>
                             if json then emit [StdoutJson (item_json i)] w3
                             else emit [printSuccess (''Checked \"'' @ info_name i @ ''\"'')] w3)))"

definition cmd_uncheck :: "string \<Rightarrow> string \<Rightarrow> bool \<Rightarrow> world \<Rightarrow> world" where
  "cmd_uncheck listName itemName json w =
    (case getAuthenticatedClient w of
       Inl w' \<Rightarrow> w'
     | Inr w1 \<Rightarrow>
         (case find_list listName w1 of
            Inl w' \<Rightarrow> w'
          | Inr (l, w2) \<Rightarrow>
              (let (item, l', cs) = uncheckItem l itemName
               in case deliver cs w2 of
                    Inl w' \<Rightarrow> library_error w'
                  | Inr w2' \<Rightarrow>
                      let w3 = teardown w2'
                      in case item of
                           None \<Rightarrow> process_exit ExitCode_Failure (emit [printError (''Item not found: '' @ itemName)] w3)
                         | Some i \<Rightarrow>
                             if json then emit [StdoutJson (item_json i)] w3
                             else emit [printSuccess (''Unchecked \"'' @ info_name i @ ''\"'')] w3)))"

definition cmd_remove :: "string \<Rightarrow> string \<Rightarrow> world \<Rightarrow> world" where
  "cmd_remove listName itemName w =
    (case getAuthenticatedClient w of
       Inl w' \<Rightarrow> w'
     | Inr w1 \<Rightarrow>
         (case find_list listName w1 of
            Inl w' \<Rightarrow> w'
          | Inr (l, w2) \<Rightarrow>
              (let (removed, l', cs) = removeItem l itemName
               in case deliver cs w2 of
                    Inl w' \<Rightarrow> library_error w'
                  | Inr w2' \<Rightarrow>
                      let w3 = teardown w2'
                      in if \<not> removed then process_exit ExitCode_Failure (emit [printError (''Item not found: '' @ itemName)] w3)
                         else emit [printSuccess (''Removed \"'' @ itemName @ ''\" from '' @ list_name l)] w3)))"

definition cmd_clear :: "string \<Rightarrow> world \<Rightarrow> world" where
  "cmd_clear listName w =
    (case getAuthenticatedClient w of
       Inl w' \<Rightarrow> w'
     | Inr w1 \<Rightarrow>
         (case find_list listName w1 of
            Inl w' \<Rightarrow> w'
          | Inr (l, w2) \<Rightarrow>
              (let (count, l', cs) = clearChecked l
               in case deliver cs w2 of
                    Inl w' \<Rightarrow> library_error w'
                  | Inr w2' \<Rightarrow>
                      let w3 = teardown w2'
                      in if count = 0 then emit [Stdout ''No checked items to clear.''] w3
                         else emit [printSuccess (''Cleared '' @ nat_str count @ '' checked item'' @
                                     (if count = 1 then [] else ''s'') @ '' from '' @ list_name l)] w3)))"

section \<open>Commands without the service\<close>

definition cmd_categories :: "bool \<Rightarrow> world \<Rightarrow> world" where
  "cmd_categories json w =
    (if json then emit [StdoutJson (JArr (map (\<lambda>(n, i). JObj [(''name'', JStr n), (''id'', JStr i)]) ANYLIST_CATEGORIES))] w
     else emit (Stdout (''Available categories:'' @ [CHR 0x0A]) #
                map (\<lambda>(n, i). Stdout (''  '' @ n @ (if n \<noteq> i then '' '' @ arrow @ '' '' @ i else []))) ANYLIST_CATEGORIES) w)"

text \<open>\<open>logout\<close> (lines 545--551) has no \<open>catch\<close>: an exception of
  \<open>clearConfig\<close> is uncaught, and Node prints it and exits with 1.\<close>

definition uncaught_exception :: "string \<Rightarrow> world \<Rightarrow> world" where
  "uncaught_exception msg w = process_exit 1 (emit [Stderr msg] w)"

definition cmd_logout :: "world \<Rightarrow> world" where
  "cmd_logout w =
    (case clearConfig (host w) of
       Inl msg \<Rightarrow> uncaught_exception msg w
     | Inr h \<Rightarrow> emit [printSuccess ''Credentials cleared.''] (w\<lparr>host := h\<rparr>))"

text \<open>\<open>whoami\<close> (lines 553--574) reads the file only, never the environment.\<close>

definition cmd_whoami :: "bool \<Rightarrow> world \<Rightarrow> world" where
  "cmd_whoami json w =
    (let config = loadConfig (host w) in
     if \<not> json_truthy config then
       (if json then emit [StdoutJson (JObj [(''authenticated'', JBool False)])] w
        else emit [Stdout ''Not authenticated. Run: anylist auth''] w)
     else if json then
       emit [StdoutJson (JObj ((''authenticated'', JBool True) #
               (case json_get config ''email'' of None \<Rightarrow> [] | Some e \<Rightarrow> [(''email'', e)])))] w
     else emit [Stdout (''Authenticated as: '' @
               (case json_get config ''email'' of None \<Rightarrow> ''undefined'' | Some e \<Rightarrow> json_to_string e))] w)"

section \<open>Usage errors\<close>

text \<open>
  \<open>exitOverride\<close> (lines 416--427): four of commander's error codes become
  \<open>InvalidUsage\<close>; every other error exits with commander's own exit code.
\<close>

definition exitOverride :: "string \<Rightarrow> nat \<Rightarrow> nat" where
  "exitOverride code exitCode =
    (if code \<in> {''commander.missingArgument'', ''commander.unknownOption'',
                 ''commander.invalidArgument'', ''commander.missingMandatoryOptionValue''}
     then ExitCode_InvalidUsage else exitCode)"

section \<open>Authentication commands\<close>

text \<open>
  \<open>auth\<close> (lines 504--543). \<open>None\<close> is an invocation still waiting at a prompt.
  The prompt texts written without a line end are not modelled.
\<close>

definition auth_verify :: "string \<Rightarrow> string \<Rightarrow> world \<Rightarrow> world" where
  "auth_verify email password w =
    (let w1 = emit [Stdout ''Verifying credentials...''] w in
     case getClient w1 (JStr email) (JStr password) of
       Inl msg \<Rightarrow> process_exit ExitCode_AuthFailure (emit [printError (''Authentication failed: '' @ msg)] w1)
     | Inr w2 \<Rightarrow>
         (let lists = getLists (service w2);
              w3 = teardown w2
          in case saveConfig (host w3) email password of
               Inl msg \<Rightarrow> process_exit ExitCode_AuthFailure (emit [printError (''Authentication failed: '' @ msg)] w3)
             | Inr h \<Rightarrow>
                 let w4 = w3\<lparr>host := h\<rparr>
                 in emit [printSuccess (''Authenticated successfully. Found '' @ nat_str (length lists) @ '' list'' @
                                        (if length lists = 1 then [] else ''s'') @ ''.''),
                          Stdout (''Credentials saved to '' @ CONFIG_FILE (host w4))] w4))"

definition cmd_auth :: "world \<Rightarrow> world option" where
  "cmd_auth w =
    (if \<not> tty w then
       Some (process_exit ExitCode_InvalidUsage (emit
         [printError ''Interactive authentication requires a TTY.'',
          printError ''For non-interactive use, set ANYLIST_EMAIL and ANYLIST_PASSWORD environment variables.''] w))
     else
       (case line_prompt [] (stdin w) of
          Answer email rest \<Rightarrow>
            (case hidden_prompt [] rest of
               Answer password rest' \<Rightarrow>
                 (let w1 = w\<lparr>stdin := rest'\<rparr> in
                  if email = [] \<or> password = [] then
                    Some (process_exit ExitCode_InvalidUsage (emit [printError ''Email and password are required.''] w1))
                  else Some (auth_verify email password w1))
             | PromptExit c \<Rightarrow> Some (process_exit c w)
             | Waiting \<Rightarrow> None)
        | PromptExit c \<Rightarrow> Some (process_exit c w)
        | Waiting \<Rightarrow> None))"

section \<open>One invocation\<close>

text \<open>The subcommands with the arguments and options commander hands to their actions.\<close>

datatype command =
    Auth | Logout | Whoami bool | Lists bool | Items string bool bool
  | Add string string "string option" "string option" bool
  | Check string string bool | Uncheck string string bool | Remove string string
  | Clear string | Categories bool

fun run_command :: "command \<Rightarrow> world \<Rightarrow> world option" where
  "run_command Auth w = cmd_auth w"
| "run_command Logout w = Some (cmd_logout w)"
| "run_command (Whoami j) w = Some (cmd_whoami j w)"
| "run_command (Lists j) w = Some (cmd_lists j w)"
| "run_command (Items l j u) w = Some (cmd_items l j u w)"
| "run_command (Add l n q c j) w = Some (cmd_add l n q c j w)"
| "run_command (Check l n j) w = Some (cmd_check l n j w)"
| "run_command (Uncheck l n j) w = Some (cmd_uncheck l n j w)"
| "run_command (Remove l n) w = Some (cmd_remove l n w)"
| "run_command (Clear l) w = Some (cmd_clear l w)"
| "run_command (Categories j) w = Some (cmd_categories j w)"

section \<open>Specification of one invocation\<close>

text \<open>
  What the lemmas below are stated over: being signed in (the stored or environment
  credentials are the account's), the invariant of the service's lists, the list a
  command names, the wrapper operation it runs there, and the service it should leave.
\<close>

definition signed_in :: "world \<Rightarrow> bool" where
  "signed_in w \<longleftrightarrow> requireConfig (host w) = Inr (JStr (fst (account w)), JStr (snd (account w)))"

definition wf_service :: "anylist_list list \<Rightarrow> bool" where
  "wf_service ls \<longleftrightarrow> distinct (map list_identifier ls) \<and> list_all wf_list ls"

definition fresh_id :: "world \<Rightarrow> bool" where
  "fresh_id w \<longleftrightarrow> list_all (\<lambda>l. next_item_id w \<notin> set (map item_identifier (items l))) (service w)"

fun cmd_list_arg :: "command \<Rightarrow> string option" where
  "cmd_list_arg (Items l _ _) = Some l"
| "cmd_list_arg (Add l _ _ _ _) = Some l"
| "cmd_list_arg (Check l _ _) = Some l"
| "cmd_list_arg (Uncheck l _ _) = Some l"
| "cmd_list_arg (Remove l _) = Some l"
| "cmd_list_arg (Clear l) = Some l"
| "cmd_list_arg _ = None"

fun client_cmd_of :: "command \<Rightarrow> string \<Rightarrow> client_cmd option" where
  "client_cmd_of (Add _ n q c _) fresh =
     (case resolve_category c of Inl _ \<Rightarrow> None | Inr cat \<Rightarrow> Some (CmdAdd fresh n (js_opt q) cat JsUndefined))"
| "client_cmd_of (Check _ n _) _ = Some (CmdCheck n)"
| "client_cmd_of (Uncheck _ n _) _ = Some (CmdUncheck n)"
| "client_cmd_of (Remove _ n) _ = Some (CmdRemove n)"
| "client_cmd_of (Clear _) _ = Some CmdClear"
| "client_cmd_of _ _ = None"

abbreviation ex_env :: "string \<Rightarrow> string option" where
  "ex_env \<equiv> [''ANYLIST_EMAIL'' \<mapsto> ''me@example.com'', ''ANYLIST_PASSWORD'' \<mapsto> ''pw'']"

abbreviation ex_world :: world where
  "ex_world \<equiv> \<lparr>host = ex_host\<lparr>env := ex_env\<rparr>, tty = True, stdin = [], account = (''me@example.com'', ''pw''),
     service = [ex_list], clientInstance = None, next_item_id = ''i3'', service_error = None,
     no_color = False, out = [], exit_code = None\<rparr>"

fun call_list :: "remote_call \<Rightarrow> string" where
  "call_list (SaveItem lid _) = lid"
| "call_list (AddItem lid _) = lid"
| "call_list (RemoveItem lid _) = lid"

definition service_after :: "command \<Rightarrow> world \<Rightarrow> anylist_list list" where
  "service_after c w =
    (case cmd_list_arg c of
       None \<Rightarrow> service w
     | Some ln \<Rightarrow>
         (case getListByName (service w) ln of
            None \<Rightarrow> service w
          | Some l \<Rightarrow>
              (case client_cmd_of c (next_item_id w) of
                 None \<Rightarrow> service w
               | Some cc \<Rightarrow> map (\<lambda>m. if list_identifier m = list_identifier l then fst (client_step l cc) else m)
                              (service w))))"

abbreviation ex_login :: "string \<Rightarrow> world" where
  "ex_login pw \<equiv> ex_world\<lparr>host := ex_host,
     stdin := [''me@example.com'' @ [CHR 0x0D]] @ map (\<lambda>c. [c]) pw @ [[CHR 0x0D]]\<rparr>"

text \<open>
  \<open>next_invocation\<close> starts the next process on the state the last one left (the
  host and the service persist; the module state, the input and the output are new);
  \<open>cli_reach\<close> is the set of worlds reachable by invocations in sequence, the library
  giving each new item a fresh identifier.
\<close>

definition next_invocation :: "world \<Rightarrow> bool \<Rightarrow> string list \<Rightarrow> string \<Rightarrow> nat option \<Rightarrow> world" where
  "next_invocation w t i f e =
     w\<lparr>tty := t, stdin := i, clientInstance := None, next_item_id := f, service_error := e,
       no_color := False, out := [], exit_code := None\<rparr>"

inductive cli_reach :: "world \<Rightarrow> bool" where
  start: "wf_service (service w) \<Longrightarrow> fresh_id w \<Longrightarrow> cli_reach w"
| invoke: "cli_reach w \<Longrightarrow> run_command c w = Some w' \<Longrightarrow> fresh_id (next_invocation w' t i f e) \<Longrightarrow>
    cli_reach (next_invocation w' t i f e)"

section \<open>Lemmas\<close>

lemma teardown_eq [simp]: "teardown w = w\<lparr>clientInstance := None\<rparr>"
  by (cases w; cases "clientInstance w") (auto simp: teardown_def)

lemma send_calls_Nil [simp]: "send_calls [] w = w"
  by (simp add: send_calls_def)

lemma delivered_None [simp]: "service_error w = None \<Longrightarrow> delivered cs w = cs"
  by (simp add: delivered_def)

lemma deliver_None [simp]: "service_error w = None \<Longrightarrow> deliver cs w = Inr (send_calls cs w)"
  by (simp add: deliver_def)

lemma deliver_Nil [simp]: "deliver [] w = Inr w"
  by (simp add: deliver_def delivered_def split: option.split)

lemma deliver_result: "deliver cs w = Inl w' \<or> deliver cs w = Inr w' \<Longrightarrow> w' = send_calls (delivered cs w) w"
  by (auto simp: deliver_def split: if_splits)

lemma delivered_update [simp]:
  "delivered cs (w\<lparr>clientInstance := ci\<rparr>) = delivered cs w"
  by (simp add: delivered_def)

lemmas world_ops = emit_def process_exit_def exit_status_def library_error_def uncaught_exception_def

lemma getAuthenticatedClient_signed_in:
  "signed_in w \<Longrightarrow>
   getAuthenticatedClient w = Inr (w\<lparr>clientInstance := Some (JStr (fst (account w)), JStr (snd (account w)))\<rparr>)"
  by (simp add: getAuthenticatedClient_def signed_in_def getClient_def)

lemma getAuthenticatedClient_Inl:
  "getAuthenticatedClient w = Inl w' \<Longrightarrow>
   \<exists>ms. w' = w\<lparr>out := out w @ ms, exit_code := Some ExitCode_AuthFailure\<rparr>"
  by (auto simp: getAuthenticatedClient_def world_ops getClient_def
      dest: requireConfig_Inl split: sum.splits prod.splits if_splits)

lemma getAuthenticatedClient_Inr:
  "getAuthenticatedClient w = Inr w' \<Longrightarrow> \<exists>ci. w' = w\<lparr>clientInstance := Some ci\<rparr>"
  by (auto simp: getAuthenticatedClient_def getClient_def split: sum.splits prod.splits if_splits)

text \<open>C25 (safety). When no remote call fails, every invocation that ends leaves no open client session (\<open>clientInstance\<close> is reset by \<open>teardown\<close> on every path that opened one).\<close>

theorem session_closed:
  assumes "run_command c w = Some w'" and "clientInstance w = None" and "service_error w = None"
  shows "clientInstance w' = None"
  using assms
proof (cases c)
  case Auth
  then show ?thesis using assms
    by (auto simp: cmd_auth_def auth_verify_def getClient_def world_ops Let_def
        split: prompt_outcome.splits if_splits sum.splits)
qed (auto simp: cmd_lists_def cmd_items_def cmd_add_def cmd_check_def cmd_uncheck_def cmd_remove_def
    cmd_clear_def cmd_categories_def cmd_logout_def cmd_whoami_def find_list_def world_ops Let_def
    split: sum.splits prod.splits option.splits dest!: getAuthenticatedClient_Inl getAuthenticatedClient_Inr)

lemma getListByName_in: "getListByName ls n = Some l \<Longrightarrow> l \<in> set ls"
  by (auto simp: getListByName_def client_getListByName_def dest: find_SomeD split: option.splits)

lemma list_identifier_apply_calls [simp]: "list_identifier (apply_calls l cs) = list_identifier l"
proof (induction cs arbitrary: l)
  case (Cons c cs)
  then show ?case by (cases c) simp_all
qed simp

lemma apply_calls_other:
  "list_all (\<lambda>c. call_list c \<noteq> list_identifier m) cs \<Longrightarrow> apply_calls m cs = m"
proof (induction cs)
  case (Cons c cs)
  then show ?case by (cases c) simp_all
qed simp

lemma client_step_targets:
  "client_step l cc = (l', cs) \<Longrightarrow> list_all (\<lambda>c. call_list c = list_identifier l) cs"
  by (cases cc) (auto simp: addItem_def checkItem_def uncheckItem_def updateItemDetails_def removeItem_def
      list_removeItem_def list_addItem_def clearChecked_def clear_loop_eq list_all_iff Let_def
      split: option.splits prod.splits if_splits)

lemma send_calls_targeted:
  assumes wf: "wf_service (service w)" and l: "l \<in> set (service w)"
    and tg: "list_all (\<lambda>c. call_list c = list_identifier l) ds" and wfl': "wf_list (apply_calls l ds)"
  shows "service (send_calls ds w) =
           map (\<lambda>m. if list_identifier m = list_identifier l then apply_calls l ds else m) (service w) \<and>
         wf_service (service (send_calls ds w))"
proof -
  have same: "m = l" if "m \<in> set (service w)" "list_identifier m = list_identifier l" for m
    using wf that l by (auto simp: wf_service_def dest: inj_onD [OF distinct_map [THEN iffD1, THEN conjunct2]])
  have other: "apply_calls m ds = m" if "list_identifier m \<noteq> list_identifier l" for m
    using tg that by (auto intro: apply_calls_other simp: list_all_iff)
  have eq: "service (send_calls ds w) =
      map (\<lambda>m. if list_identifier m = list_identifier l then apply_calls l ds else m) (service w)"
    by (auto simp: send_calls_def other dest: same intro!: map_cong)
  have ids: "map list_identifier (service (send_calls ds w)) = map list_identifier (service w)"
    by (simp add: eq comp_def)
  have "list_all wf_list (service (send_calls ds w))"
    using wf wfl' by (auto simp: eq wf_service_def list_all_iff)
  moreover have "distinct (map list_identifier (service (send_calls ds w)))"
    unfolding ids using wf by (simp add: wf_service_def)
  ultimately show ?thesis using eq by (simp add: wf_service_def)
qed

lemma send_calls_step:
  assumes wf: "wf_service (service w)" and l: "l \<in> set (service w)"
    and ok: "cmd_fresh_ok l cc" and step: "client_step l cc = (l', cs)"
  shows "service (send_calls cs w) =
           map (\<lambda>m. if list_identifier m = list_identifier l then l' else m) (service w) \<and>
         wf_service (service (send_calls cs w))"
proof -
  have wfl: "wf_list l" using wf l by (simp add: wf_service_def list_all_iff)
  have sync: "apply_calls l cs = l'" and wfl': "wf_list l'"
    using client_step_sync [OF wfl ok step] by simp_all
  show ?thesis
    using send_calls_targeted [OF wf l client_step_targets [OF step], unfolded sync, OF wfl'] .
qed

lemma send_calls_delivered_wf:
  assumes wf: "wf_service (service w)" and l: "l \<in> set (service w)"
    and ok: "cmd_fresh_ok l cc" and step: "client_step l cc = (l', cs)"
  shows "wf_service (service (send_calls (delivered cs w) w))"
proof -
  have "delivered cs w = take (case service_error w of None \<Rightarrow> length cs | Some k \<Rightarrow> k) cs"
    by (simp add: delivered_def split: option.split)
  then obtain j where j: "delivered cs w = take j cs" ..
  have wfl: "wf_list l" using wf l by (simp add: wf_service_def list_all_iff)
  have "list_all (\<lambda>c. call_list c = list_identifier l) (take j cs)"
    using client_step_targets [OF step] by (auto simp: list_all_iff dest: in_set_takeD)
  from send_calls_targeted [OF wf l this client_step_prefix_wf [OF wfl ok step]]
  show ?thesis unfolding j by (rule conjunct2)
qed

lemma service_run_command:
  assumes "signed_in w" and "run_command c w = Some w'"
  shows "service w' =
    (case cmd_list_arg c of
       None \<Rightarrow> service w
     | Some ln \<Rightarrow>
         (case getListByName (service w) ln of
            None \<Rightarrow> service w
          | Some l \<Rightarrow>
              (case client_cmd_of c (next_item_id w) of
                 None \<Rightarrow> service w
               | Some cc \<Rightarrow> service (send_calls (delivered (snd (client_step l cc)) w) w))))"
  using assms
proof (cases c)
  case Auth
  then show ?thesis using assms
    by (auto simp: cmd_auth_def auth_verify_def getClient_def world_ops Let_def
        split: prompt_outcome.splits if_splits sum.splits)
next
  case (Add ln n q cat j)
  then show ?thesis using assms
    by (auto simp: cmd_add_def getAuthenticatedClient_signed_in find_list_def world_ops send_calls_def deliver_def Let_def
        split: sum.splits prod.splits option.splits if_splits)
qed (auto simp: cmd_lists_def cmd_items_def cmd_check_def cmd_uncheck_def cmd_remove_def
    cmd_clear_def cmd_categories_def cmd_logout_def cmd_whoami_def find_list_def world_ops Let_def
    getAuthenticatedClient_signed_in send_calls_def deliver_def split: prod.splits option.splits if_splits sum.splits)

lemma client_cmd_of_fresh_ok:
  "client_cmd_of c f = Some cc \<Longrightarrow> f \<notin> set (map item_identifier (items l)) \<Longrightarrow> cmd_fresh_ok l cc"
  by (cases c) (auto split: sum.splits)

lemma service_step:
  assumes signed: "signed_in w" and wf: "wf_service (service w)" and fresh: "fresh_id w"
    and ok: "service_error w = None" and run: "run_command c w = Some w'"
  shows "service w' = service_after c w \<and> wf_service (service w')"
proof (cases "\<exists>ln l cc. cmd_list_arg c = Some ln \<and> getListByName (service w) ln = Some l \<and>
                        client_cmd_of c (next_item_id w) = Some cc")
  case True
  then obtain ln l cc where arg: "cmd_list_arg c = Some ln" and l: "getListByName (service w) ln = Some l"
    and cc: "client_cmd_of c (next_item_id w) = Some cc" by blast
  obtain l' cs where step: "client_step l cc = (l', cs)" by fastforce
  have mem: "l \<in> set (service w)" using getListByName_in [OF l] .
  have "cmd_fresh_ok l cc"
    using fresh mem by (auto simp: fresh_id_def list_all_iff intro: client_cmd_of_fresh_ok [OF cc])
  then have e1: "service (send_calls cs w) =
      map (\<lambda>m. if list_identifier m = list_identifier l then l' else m) (service w)"
    and e2: "wf_service (service (send_calls cs w))"
    using send_calls_step [OF wf mem _ step] by blast+
  have sw: "service w' = service (send_calls cs w)"
    using service_run_command [OF signed run] ok by (simp add: arg l cc step)
  show ?thesis unfolding sw service_after_def using e2 by (simp add: arg l cc step e1)
next
  case False
  then have "service w' = service w \<and> service_after c w = service w"
    using service_run_command [OF signed run]
    by (auto simp: service_after_def split: option.splits)
  with wf show ?thesis by simp
qed

lemma service_wf_step:
  assumes signed: "signed_in w" and wf: "wf_service (service w)" and fresh: "fresh_id w"
    and run: "run_command c w = Some w'"
  shows "wf_service (service w')"
proof (cases "\<exists>ln l cc. cmd_list_arg c = Some ln \<and> getListByName (service w) ln = Some l \<and>
                        client_cmd_of c (next_item_id w) = Some cc")
  case True
  then obtain ln l cc where arg: "cmd_list_arg c = Some ln" and l: "getListByName (service w) ln = Some l"
    and cc: "client_cmd_of c (next_item_id w) = Some cc" by blast
  obtain l' cs where step: "client_step l cc = (l', cs)" by fastforce
  have mem: "l \<in> set (service w)" using getListByName_in [OF l] .
  have "cmd_fresh_ok l cc"
    using fresh mem by (auto simp: fresh_id_def list_all_iff intro: client_cmd_of_fresh_ok [OF cc])
  from send_calls_delivered_wf [OF wf mem this step]
  show ?thesis using service_run_command [OF signed run] by (simp add: arg l cc step)
next
  case False
  then have "service w' = service w"
    using service_run_command [OF signed run] by (auto split: option.splits)
  with wf show ?thesis by simp
qed

text \<open>C24 (refinement). Signed in, when the service accepts every call, on a service whose lists have distinct identifiers and distinct item identifiers and with a fresh identifier for a new item, every invocation changes the service exactly as the wrapper operation it runs changes its local copy of the named list: the list is replaced by that copy, the other lists are untouched, and the invariant holds afterwards.\<close>

theorem run_command_service:
  assumes signed: "signed_in w" and wf: "wf_service (service w)" and fresh: "fresh_id w"
    and ok: "service_error w = None" and run: "run_command c w = Some w'"
  shows "service w' = service_after c w \<and> wf_service (service w')"
  using assms by (rule service_step)

lemma resolve_category_rejects:
  assumes "s \<noteq> []" and "toLowerCase s \<notin> CategoryName" and "toLowerCase s \<notin> set object_prototype_keys"
  shows "resolve_category (Some s) = Inl ExitCode_InvalidUsage"
proof -
  have "\<forall>(k, v) \<in> set ANYLIST_CATEGORIES. v \<noteq> []" using category_ids_nonempty by blast
  then have "\<not> js_truthy (js_member ANYLIST_CATEGORIES (toLowerCase s))"
    using assms(2,3) by (simp add: js_member_truthy_iff CategoryName_def map_of_eq_None_iff)
  then show ?thesis using assms(1) by (simp add: resolve_category_Some)
qed

lemma signed_in_ex_world: "signed_in ex_world"
  by (simp add: signed_in_def requireConfig_def loadConfigFromEnv_def)

text \<open>C26 (error). Signed in, a list command naming a list that no name of the service matches (case-insensitively) prints \<open>List not found\<close>, exits with \<open>Failure\<close> (1), closes the session and changes nothing.\<close>

theorem list_not_found_exit:
  assumes "signed_in w" and "cmd_list_arg c = Some ln" and "getListByName (service w) ln = None"
    and "run_command c w = Some w'"
  shows "exit_status w' = ExitCode_Failure \<and> service w' = service w \<and> host w' = host w \<and>
    clientInstance w' = None \<and> out w' = out w @ [printError (''List not found: '' @ ln)]"
  using assms
  by (cases c) (auto simp: cmd_items_def cmd_add_def cmd_check_def cmd_uncheck_def cmd_remove_def
      cmd_clear_def getAuthenticatedClient_signed_in find_list_def world_ops)

theorem list_not_found_exit_witness:
  "exit_status (cmd_clear ''Hardware'' ex_world) = 1"
proof -
  have "getListByName [ex_list] ''Hardware'' = None"
    by (simp add: getListByName_def client_getListByName_def lower_eval)
  then show ?thesis
    using list_not_found_exit [of ex_world "Clear ''Hardware''" "''Hardware''" "cmd_clear ''Hardware'' ex_world"]
      signed_in_ex_world by (simp add: ExitCode_Failure_def)
qed

text \<open>C27 (error). Signed in, \<open>check\<close>, \<open>uncheck\<close> and \<open>remove\<close> of an item that no item of the list matches print \<open>Item not found\<close>, exit with \<open>Failure\<close> (1) and change nothing.\<close>

theorem item_not_found_exit:
  assumes "signed_in w" and "getListByName (service w) ln = Some l" and "findItemByName l n = None"
    and "c = Check ln n j \<or> c = Uncheck ln n j \<or> c = Remove ln n" and "run_command c w = Some w'"
  shows "exit_status w' = ExitCode_Failure \<and> service w' = service w \<and> host w' = host w \<and>
    clientInstance w' = None \<and> out w' = out w @ [printError (''Item not found: '' @ n)]"
  using assms
  by (auto simp: cmd_check_def cmd_uncheck_def cmd_remove_def checkItem_def uncheckItem_def removeItem_def
      getAuthenticatedClient_signed_in find_list_def world_ops)

theorem item_not_found_exit_witness:
  "exit_status (cmd_check ''grocery'' ''Bread'' False ex_world) = 1"
proof -
  have l: "getListByName [ex_list] ''grocery'' = Some ex_list"
    by (simp add: getListByName_def client_getListByName_def lower_eval)
  have n: "findItemByName ex_list ''Bread'' = None"
    by (simp add: findItemByName_def getItemByName_def lower_eval)
  show ?thesis
    using item_not_found_exit [of ex_world "''grocery''" ex_list "''Bread''" "Check ''grocery'' ''Bread'' False" False
        "cmd_check ''grocery'' ''Bread'' False ex_world"] signed_in_ex_world l n
    by (simp add: ExitCode_Failure_def)
qed

text \<open>C28 (error). Signed in and with the list found, \<open>add --category\<close> with a non-empty category that is neither a name of the table nor a key of \<open>Object.prototype\<close> (in lower case) prints the two messages, exits with \<open>InvalidUsage\<close> (2) and adds nothing.\<close>

theorem unknown_category_exit:
  assumes "signed_in w" and "getListByName (service w) ln = Some l"
    and "cat \<noteq> []" and "toLowerCase cat \<notin> CategoryName" and "toLowerCase cat \<notin> set object_prototype_keys"
    and "run_command (Add ln n q (Some cat) j) w = Some w'"
  shows "exit_status w' = ExitCode_InvalidUsage \<and> service w' = service w \<and> host w' = host w \<and>
    clientInstance w' = None \<and>
    out w' = out w @ [printError (''Unknown category: '' @ cat),
                      Stderr (''Available categories: '' @ join_with '', '' (map fst ANYLIST_CATEGORIES))]"
  using assms resolve_category_rejects [OF assms(3-5)]
  by (auto simp: cmd_add_def getAuthenticatedClient_signed_in find_list_def world_ops)

theorem unknown_category_exit_witness:
  "exit_status (cmd_add ''Grocery'' ''Salsa'' None (Some ''Chips'') False ex_world) = 2"
proof -
  have l: "getListByName [ex_list] ''Grocery'' = Some ex_list"
    by (simp add: getListByName_def client_getListByName_def)
  have c1: "toLowerCase ''Chips'' \<notin> CategoryName"
    by (simp add: CategoryName_def ANYLIST_CATEGORIES_def lower_eval)
  have c2: "toLowerCase ''Chips'' \<notin> set object_prototype_keys"
    by (simp add: object_prototype_keys_def lower_eval)
  show ?thesis
    using unknown_category_exit [of ex_world "''Grocery''" ex_list "''Chips''" "''Salsa''" None False
        "cmd_add ''Grocery'' ''Salsa'' None (Some ''Chips'') False ex_world"] signed_in_ex_world l c1 c2
    by (simp add: ExitCode_InvalidUsage_def)
qed

text \<open>C30 (roundtrip). \<open>auth\<close> with the account's credentials typed at the prompts, when the config file can be written and read back, exits with 0, leaves the session closed and the service unchanged, and saves the credentials so that \<open>requireConfig\<close> returns them to the next invocation.\<close>

theorem auth_saves_credentials:
  assumes "tty w" and "line_prompt [] (stdin w) = Answer e rest" and "hidden_prompt [] rest = Answer p rest'"
    and "e \<noteq> []" and "p \<noteq> []" and "account w = (e, p)" and "loadConfigFromEnv (host w) = None"
    and "exit_code w = None" and save: "saveConfig (host w) e p = Inr h'"
    and "case files (host w) (CONFIG_FILE (host w)) of Some (_, m) \<Rightarrow> owner_can_read m | None \<Rightarrow> True"
  shows "\<exists>w'. cmd_auth w = Some w' \<and> exit_status w' = ExitCode_Success \<and> host w' = h' \<and>
    requireConfig (host w') = Inr (JStr e, JStr p) \<and> service w' = service w \<and> clientInstance w' = None"
  using assms requireConfig_saveConfig [OF save assms(10,7,4,5)]
  by (simp add: cmd_auth_def auth_verify_def getClient_def world_ops Let_def ExitCode_Success_def)

text \<open>C31 (error). \<open>auth\<close> with credentials the service rejects exits with \<open>AuthFailure\<close> (3), saves nothing and prints the verification line and the failure.\<close>

theorem auth_rejects_wrong_credentials:
  assumes "tty w" and "line_prompt [] (stdin w) = Answer e rest" and "hidden_prompt [] rest = Answer p rest'"
    and "e \<noteq> []" and "p \<noteq> []" and "account w \<noteq> (e, p)"
  shows "\<exists>w'. cmd_auth w = Some w' \<and> exit_status w' = ExitCode_AuthFailure \<and> host w' = host w \<and>
    out w' = out w @ [Stdout ''Verifying credentials...'', printError (''Authentication failed: '' @ login_failed)]"
  using assms
  by (auto simp: cmd_auth_def auth_verify_def getClient_def world_ops Let_def)

text \<open>C15 (error). \<open>auth\<close> with the account's credentials, when \<open>saveConfig\<close> throws
  (an existing config file its owner cannot write, a file where a directory of its path
  should be), reports the file-system error as \<open>Authentication failed\<close> and exits with
  \<open>AuthFailure\<close> (3) although the service accepted the credentials: the session is
  closed and nothing was saved.\<close>

theorem auth_save_failure:
  assumes "tty w" and "line_prompt [] (stdin w) = Answer e rest" and "hidden_prompt [] rest = Answer p rest'"
    and "e \<noteq> []" and "p \<noteq> []" and "account w = (e, p)" and "saveConfig (host w) e p = Inl msg"
  shows "\<exists>w'. cmd_auth w = Some w' \<and> exit_status w' = ExitCode_AuthFailure \<and> host w' = host w \<and>
    clientInstance w' = None \<and> service w' = service w \<and>
    out w' = out w @ [Stdout ''Verifying credentials...'', printError (''Authentication failed: '' @ msg)]"
  using assms
  by (simp add: cmd_auth_def auth_verify_def getClient_def teardown_def world_ops Let_def)

text \<open>C34 (error). \<open>whoami\<close> reads only the config file: with credentials in the environment and no file, the commands that need the service authenticate while \<open>whoami\<close> reports \<open>Not authenticated\<close>.\<close>

theorem whoami_ignores_env:
  assumes "files (host w) (CONFIG_FILE (host w)) = None" and "loadConfigFromEnv (host w) = Some (e, p)"
  shows "requireConfig (host w) = Inr (JStr e, JStr p) \<and>
    out (cmd_whoami False w) = out w @ [Stdout ''Not authenticated. Run: anylist auth'']"
  using assms by (simp add: requireConfig_def cmd_whoami_def loadConfig_no_file world_ops)


text \<open>C29 (error). Without usable credentials every command that needs the service prints the two \<open>Not authenticated\<close> lines and exits with \<open>AuthFailure\<close> (3) before any other effect.\<close>

theorem credentials_required:
  assumes "requireConfig (host w) = Inl r" and "cmd_list_arg c \<noteq> None \<or> c = Lists j"
  shows "run_command c w = Some (process_exit ExitCode_AuthFailure (emit not_authenticated w))"
proof -
  have r: "r = (not_authenticated, ExitCode_AuthFailure)" using requireConfig_Inl [OF assms(1)] .
  have "getAuthenticatedClient w = Inl (process_exit ExitCode_AuthFailure (emit not_authenticated w))"
    using assms(1) by (simp add: getAuthenticatedClient_def r)
  then show ?thesis using assms(2)
    by (cases c) (simp_all add: cmd_lists_def cmd_items_def cmd_add_def cmd_check_def cmd_uncheck_def
        cmd_remove_def cmd_clear_def)
qed

theorem session_closed_witness: "clientInstance (cmd_lists False ex_world) = None"
  using session_closed [of "Lists False" ex_world "cmd_lists False ex_world"] by simp

theorem run_command_service_witness:
  "service (cmd_check ''grocery'' ''MILK'' False ex_world) = [ex_list\<lparr>items := [ex_milk\<lparr>checked := True\<rparr>, ex_eggs]\<rparr>]"
proof -
  have wf: "wf_service [ex_list]" by (simp add: wf_service_def wf_list_def)
  have fr: "fresh_id ex_world" by (simp add: fresh_id_def)
  have "service_after (Check ''grocery'' ''MILK'' False) ex_world = [ex_list\<lparr>items := [ex_milk\<lparr>checked := True\<rparr>, ex_eggs]\<rparr>]"
    by (simp add: service_after_def getListByName_def client_getListByName_def checkItem_def
        findItemByName_def getItemByName_def lower_eval Let_def)
  then show ?thesis
    using run_command_service [of ex_world "Check ''grocery'' ''MILK'' False" "cmd_check ''grocery'' ''MILK'' False ex_world"]
      signed_in_ex_world wf fr by simp
qed

lemma ex_login_prompts:
  "line_prompt [] (stdin (ex_login pw)) = Answer ''me@example.com'' (map (\<lambda>c. [c]) pw @ [[CHR 0x0D]])"
  by (simp add: is_line_end_def)

theorem auth_saves_credentials_witness:
  "\<exists>w'. cmd_auth (ex_login ''pw'') = Some w' \<and> exit_status w' = 0 \<and>
     requireConfig (host w') = Inr (JStr ''me@example.com'', JStr ''pw'')"
proof -
  have h: "hidden_prompt [] (map (\<lambda>c. [c]) ''pw'' @ [[CHR 0x0D]]) = Answer ''pw'' []"
    by (simp add: ctrl_d_def ctrl_c_def)
  have e: "loadConfigFromEnv ex_host = None" by (simp add: loadConfigFromEnv_def)
  obtain h' where sv: "saveConfig ex_host ''me@example.com'' ''pw'' = Inr h'"
    by (simp add: saveConfig_def existsSync_def mkdirSync_def writeFileSync_def CONFIG_FILE_def CONFIG_DIR_def
        path_join_def path_prefixes_def parent_path_def)
  have "\<exists>w'. cmd_auth (ex_login ''pw'') = Some w' \<and> exit_status w' = ExitCode_Success \<and> host w' = h' \<and>
    requireConfig (host w') = Inr (JStr ''me@example.com'', JStr ''pw'') \<and>
    service w' = service (ex_login ''pw'') \<and> clientInstance w' = None"
    by (rule auth_saves_credentials [OF _ ex_login_prompts h]) (use e sv in simp_all)
  then show ?thesis by (auto simp: ExitCode_Success_def)
qed

theorem auth_rejects_wrong_credentials_witness:
  "\<exists>w'. cmd_auth (ex_login ''px'') = Some w' \<and> exit_status w' = 3 \<and> host w' = ex_host"
proof -
  have h: "hidden_prompt [] (map (\<lambda>c. [c]) ''px'' @ [[CHR 0x0D]]) = Answer ''px'' []"
    by (simp add: ctrl_d_def ctrl_c_def)
  show ?thesis
    using auth_rejects_wrong_credentials [of "ex_login ''px''" "''me@example.com''" _ "''px''" "[]"] ex_login_prompts h
    by (auto simp: ExitCode_AuthFailure_def is_line_end_def)
qed

theorem auth_save_failure_witness:
  "\<exists>w'. cmd_auth ((ex_login ''pw'')\<lparr>host := ex_host\<lparr>files := [''/home/u/.config/anylist-cli/config.json'' \<mapsto> (''{}'', 256)]\<rparr>\<rparr>) =
      Some w' \<and> exit_status w' = 3 \<and>
    out w' = [Stdout ''Verifying credentials...'', printError (''Authentication failed: '' @
      fs_error EACCES ''open'' ''/home/u/.config/anylist-cli/config.json'')]"
proof -
  let ?h = "ex_host\<lparr>files := [''/home/u/.config/anylist-cli/config.json'' \<mapsto> (''{}'', 256)]\<rparr>"
  have h: "hidden_prompt [] (map (\<lambda>c. [c]) ''pw'' @ [[CHR 0x0D]]) = Answer ''pw'' []"
    by (simp add: ctrl_d_def ctrl_c_def)
  have l: "line_prompt [] (stdin ((ex_login ''pw'')\<lparr>host := ?h\<rparr>)) =
      Answer ''me@example.com'' (map (\<lambda>c. [c]) ''pw'' @ [[CHR 0x0D]])"
    using ex_login_prompts [of "''pw''"] by simp
  have sv: "saveConfig ?h ''me@example.com'' ''pw'' =
      Inl (fs_error EACCES ''open'' ''/home/u/.config/anylist-cli/config.json'')"
    by (simp add: saveConfig_def existsSync_def mkdirSync_def writeFileSync_def CONFIG_FILE_def CONFIG_DIR_def
        path_join_def path_prefixes_def parent_path_def owner_can_write_def)
  have "\<exists>w'. cmd_auth ((ex_login ''pw'')\<lparr>host := ?h\<rparr>) = Some w' \<and> exit_status w' = ExitCode_AuthFailure \<and>
    host w' = ?h \<and> clientInstance w' = None \<and> service w' = [ex_list] \<and>
    out w' = [] @ [Stdout ''Verifying credentials...'', printError (''Authentication failed: '' @
      fs_error EACCES ''open'' ''/home/u/.config/anylist-cli/config.json'')]"
    using auth_save_failure [OF _ l h _ _ _ ] sv by simp
  then show ?thesis by (auto simp: ExitCode_AuthFailure_def)
qed

theorem whoami_ignores_env_witness:
  "requireConfig (host ex_world) = Inr (JStr ''me@example.com'', JStr ''pw'') \<and>
   out (cmd_whoami False ex_world) = [Stdout ''Not authenticated. Run: anylist auth'']"
proof -
  have "loadConfigFromEnv (host ex_world) = Some (''me@example.com'', ''pw'')"
    by (simp add: loadConfigFromEnv_def)
  then show ?thesis using whoami_ignores_env [of ex_world] by simp
qed

theorem credentials_required_witness:
  "cmd_lists False (ex_world\<lparr>host := ex_host\<rparr>) =
     process_exit 3 (emit not_authenticated (ex_world\<lparr>host := ex_host\<rparr>))"
proof -
  have "requireConfig ex_host = Inl (not_authenticated, 3)"
    by (simp add: requireConfig_def loadConfigFromEnv_def loadConfig_no_file exit_codes)
  then show ?thesis
    using credentials_required [of "ex_world\<lparr>host := ex_host\<rparr>" _ "Lists False" False]
    by (simp add: exit_codes)
qed

text \<open>C36 (error). A readable config file holding \<open>{}\<close> counts as signed in for \<open>whoami\<close> (the parsed object is truthy), which prints \<open>Authenticated as: undefined\<close>, while \<open>requireConfig\<close> rejects the same file.\<close>

theorem whoami_empty_config:
  assumes "files (host w) (CONFIG_FILE (host w)) = Some (''{}'', m)" and "owner_can_read m"
    and "loadConfigFromEnv (host w) = None"
  shows "requireConfig (host w) = Inl (not_authenticated, ExitCode_AuthFailure) \<and>
    out (cmd_whoami False w) = out w @ [Stdout ''Authenticated as: undefined'']"
proof -
  have p: "json_parse ''{}'' = Some (JObj [])" by code_simp
  have "loadConfig (host w) = JObj []" using assms(1,2) by (simp add: loadConfig_file p)
  then show ?thesis using assms(3) by (simp add: requireConfig_def cmd_whoami_def world_ops)
qed

theorem whoami_empty_config_witness:
  "out (cmd_whoami False (ex_world\<lparr>host := ex_host\<lparr>files := [''/home/u/.config/anylist-cli/config.json'' \<mapsto> (''{}'', 384)]\<rparr>\<rparr>)) =
     [Stdout ''Authenticated as: undefined'']"
proof -
  let ?h = "ex_host\<lparr>files := [''/home/u/.config/anylist-cli/config.json'' \<mapsto> (''{}'', 384)]\<rparr>"
  have f: "CONFIG_FILE ?h = ''/home/u/.config/anylist-cli/config.json''"
    by (simp add: CONFIG_FILE_def CONFIG_DIR_def path_join_def)
  have e: "loadConfigFromEnv ?h = None" by (simp add: loadConfigFromEnv_def)
  show ?thesis using whoami_empty_config [of "ex_world\<lparr>host := ?h\<rparr>" 384] f e by (simp add: owner_can_read_def)
qed

text \<open>C39 (liveness). \<open>auth\<close> always finishes once its input holds a line end (which
  ends the email) and, after it, an Enter key on its own (which ends the password prompt,
  unless Ctrl-C ended the process first); it waits forever only on input without them.\<close>

theorem cmd_auth_returns:
  assumes "list_ex (list_ex is_line_end) xs" and "stdin w = xs @ [CHR 0x0D] # ys"
  shows "\<exists>w'. cmd_auth w = Some w'"
proof -
  obtain e k where l: "line_prompt [] (stdin w) = Answer e (drop k xs @ [CHR 0x0D] # ys)"
    using line_prompt_answers [OF assms(1), of "[]" "[CHR 0x0D] # ys"] assms(2) by auto
  have "hidden_prompt [] (drop k xs @ [CHR 0x0D] # ys) \<noteq> Waiting" by (rule hidden_prompt_enter)
  then show ?thesis using l
    by (cases "hidden_prompt [] (drop k xs @ [CHR 0x0D] # ys)") (auto simp: cmd_auth_def Let_def)
qed

theorem cmd_auth_returns_witness:
  "\<exists>w'. cmd_auth (ex_world\<lparr>stdin := [''me@'', ''example.com'' @ [CHR 0x0D], ''pw'', [CHR 0x0D]]\<rparr>) = Some w'"
  using cmd_auth_returns [of "[''me@'', ''example.com'' @ [CHR 0x0D], ''pw'']"
      "ex_world\<lparr>stdin := [''me@'', ''example.com'' @ [CHR 0x0D], ''pw'', [CHR 0x0D]]\<rparr>" "[]"]
  by (simp add: is_line_end_def)

lemma getAuthenticatedClient_not_signed_in:
  "\<not> signed_in w \<Longrightarrow> \<exists>w''. getAuthenticatedClient w = Inl w''"
  by (auto simp: getAuthenticatedClient_def signed_in_def getClient_def split: sum.splits prod.splits)

lemma service_not_signed_in:
  assumes "\<not> signed_in w" and "run_command c w = Some w'"
  shows "service w' = service w"
proof -
  obtain w'' where g: "getAuthenticatedClient w = Inl w''"
    using getAuthenticatedClient_not_signed_in [OF assms(1)] by blast
  then have s: "service w'' = service w" using getAuthenticatedClient_Inl by fastforce
  show ?thesis
  proof (cases c)
    case Auth
    with assms(2) show ?thesis
      by (auto simp: cmd_auth_def auth_verify_def getClient_def world_ops Let_def
          split: prompt_outcome.splits if_splits sum.splits)
  qed (use assms(2) g s in \<open>auto simp: cmd_lists_def cmd_items_def cmd_add_def cmd_check_def cmd_uncheck_def
      cmd_remove_def cmd_clear_def cmd_categories_def cmd_logout_def cmd_whoami_def world_ops Let_def
      split: sum.splits\<close>)
qed

lemma next_invocation_service [simp]: "service (next_invocation w t i f e) = service w"
  by (simp add: next_invocation_def)

text \<open>C40 (invariant). Over any sequence of invocations of any commands, signed in or
  not, starting from a service whose lists have distinct identifiers and items with
  distinct identifiers, and with fresh identifiers for new items, the service keeps that
  invariant, also when a remote call fails and the invocation stops part-way through its
  calls.\<close>

theorem cli_reach_wf_service:
  "cli_reach w \<Longrightarrow> wf_service (service w)"
proof -
  assume "cli_reach w"
  then have "wf_service (service w) \<and> fresh_id w"
  proof (induction rule: cli_reach.induct)
    case (start w)
    then show ?case by simp
  next
    case (invoke w c w' t i f e)
    have "wf_service (service w')"
    proof (cases "signed_in w")
      case True
      then show ?thesis using service_wf_step invoke by blast
    next
      case False
      then show ?thesis using service_not_signed_in invoke by metis
    qed
    with invoke.hyps(3) show ?case by simp
  qed
  then show ?thesis by simp
qed

theorem cli_reach_wf_service_witness:
  "wf_service (service (next_invocation (cmd_check ''grocery'' ''MILK'' False ex_world) True [] ''i4'' None))"
proof -
  have wf: "wf_service [ex_list]" by (simp add: wf_service_def wf_list_def)
  have fr: "fresh_id ex_world" by (simp add: fresh_id_def)
  have r0: "cli_reach ex_world" using cli_reach.start [of ex_world] wf fr by simp
  have "service_after (Check ''grocery'' ''MILK'' False) ex_world = [ex_list\<lparr>items := [ex_milk\<lparr>checked := True\<rparr>, ex_eggs]\<rparr>]"
    by (simp add: service_after_def getListByName_def client_getListByName_def checkItem_def
        findItemByName_def getItemByName_def lower_eval Let_def)
  then have svc: "service (cmd_check ''grocery'' ''MILK'' False ex_world) = [ex_list\<lparr>items := [ex_milk\<lparr>checked := True\<rparr>, ex_eggs]\<rparr>]"
    using service_step [of ex_world "Check ''grocery'' ''MILK'' False" "cmd_check ''grocery'' ''MILK'' False ex_world"]
      signed_in_ex_world wf fr by simp
  have "fresh_id (next_invocation (cmd_check ''grocery'' ''MILK'' False ex_world) True [] ''i4'' None)"
    unfolding fresh_id_def next_invocation_service svc by (simp add: next_invocation_def)
  from cli_reach.invoke [OF r0, of "Check ''grocery'' ''MILK'' False", OF _ this]
  have "cli_reach (next_invocation (cmd_check ''grocery'' ''MILK'' False ex_world) True [] ''i4'' None)" by simp
  then show ?thesis by (rule cli_reach_wf_service)
qed

text \<open>C13 (error). When a remote call of \<open>clear\<close> fails part-way, the removals sent before
  it stay done on the service: the named list has lost exactly the first \<open>k\<close> checked
  items, in list order, and nothing else changed. The \<open>catch\<close> block prints the library's
  error and exits with code 1 without a count and without closing the session.\<close>

theorem clear_partial_failure:
  assumes signed: "signed_in w" and l: "getListByName (service w) ln = Some l"
    and wf: "wf_service (service w)" and err: "service_error w = Some k"
    and k: "k < length (filter checked (items l))"
    and run: "run_command (Clear ln) w = Some w'"
  shows "exit_status w' = ExitCode_Failure \<and> out w' = out w @ [printError service_failure] \<and>
         clientInstance w' \<noteq> None \<and>
         service w' = map (\<lambda>m. if list_identifier m = list_identifier l
             then l\<lparr>items := filter (\<lambda>x. item_identifier x \<notin> item_identifier ` set (take k (filter checked (items l))))
                                   (items l)\<rparr>
             else m) (service w)"
proof -
  define cs where "cs = map (RemoveItem (list_identifier l)) (filter checked (items l))"
  define w1 where "w1 = w\<lparr>clientInstance := Some (JStr (fst (account w)), JStr (snd (account w)))\<rparr>"
  have d: "delivered cs w1 = take k cs" and short: "take k cs \<noteq> cs"
    using err k by (simp_all add: delivered_def w1_def cs_def)
  have l1: "getListByName (service w1) ln = Some l" using l by (simp add: w1_def)
  have w': "w' = library_error (send_calls (take k cs) w1)"
    using run signed l1 d short
    by (simp add: cmd_clear_def getAuthenticatedClient_signed_in find_list_def clearChecked_def
        clear_loop_eq deliver_def w1_def [symmetric] cs_def [symmetric])
  have mem: "l \<in> set (service w)" using getListByName_in [OF l] .
  have wfl: "wf_list l" using wf mem by (simp add: wf_service_def list_all_iff)
  have step: "client_step l CmdClear = (l\<lparr>items := filter (\<lambda>x. item_identifier x \<notin> item_identifier ` set (filter checked (items l))) (items l)\<rparr>, cs)"
    by (simp add: clearChecked_def clear_loop_eq cs_def)
  have tg: "list_all (\<lambda>c. call_list c = list_identifier l) (take k cs)"
    by (simp add: cs_def list_all_iff take_map)
  have wf1: "wf_service (service w1)" and mem1: "l \<in> set (service w1)"
    using wf mem by (simp_all add: w1_def)
  have "apply_calls l (take k cs) =
        l\<lparr>items := filter (\<lambda>x. item_identifier x \<notin> item_identifier ` set (take k (filter checked (items l)))) (items l)\<rparr>"
    by (simp add: cs_def take_map apply_calls_removes)
  then have sv: "service (send_calls (take k cs) w1) = map (\<lambda>m. if list_identifier m = list_identifier l
             then l\<lparr>items := filter (\<lambda>x. item_identifier x \<notin> item_identifier ` set (take k (filter checked (items l))))
                                   (items l)\<rparr>
             else m) (service w)"
    using send_calls_targeted [OF wf1 mem1 tg client_step_prefix_wf [OF wfl _ step]] by (simp add: w1_def)
  show ?thesis using sv by (simp add: w' world_ops send_calls_def w1_def)
qed

theorem clear_partial_failure_witness:
  "exit_status (cmd_clear ''Grocery'' (ex_world\<lparr>service := [ex_list\<lparr>items := [ex_milk\<lparr>checked := True\<rparr>, ex_eggs]\<rparr>],
                                             service_error := Some 1\<rparr>)) = ExitCode_Failure \<and>
   service (cmd_clear ''Grocery'' (ex_world\<lparr>service := [ex_list\<lparr>items := [ex_milk\<lparr>checked := True\<rparr>, ex_eggs]\<rparr>],
                                          service_error := Some 1\<rparr>)) = [ex_list\<lparr>items := [ex_eggs]\<rparr>]"
proof -
  have si: "signed_in (ex_world\<lparr>service := [ex_list\<lparr>items := [ex_milk\<lparr>checked := True\<rparr>, ex_eggs]\<rparr>],
                                  service_error := Some 1\<rparr>)"
    using signed_in_ex_world by (simp add: signed_in_def)
  show ?thesis
    using clear_partial_failure [OF si, of "''Grocery''" "ex_list\<lparr>items := [ex_milk\<lparr>checked := True\<rparr>, ex_eggs]\<rparr>" 1]
    by (simp add: getListByName_def client_getListByName_def wf_service_def wf_list_def)
qed


end
