(* ===== verification/Index.thy ===== *)
theory Index
  imports Cli
begin

text \<open>
  The package entry \<open>src/src/index.ts\<close>: it re-exports eleven functions of the client
  wrapper, the \<open>types.ts\<close> interfaces (compile-time only, so nothing at run time) and
  the two constants \<open>ANYLIST_CATEGORIES\<close> and \<open>ExitCode\<close>. The module is the record of
  what a program importing the package gets, each field the model of the exported binding.
  \<open>updateItemDetails\<close> is not among them: it is neither exported nor called by the CLI.
\<close>

record anylist_api =
  api_getClient :: "world \<Rightarrow> json \<Rightarrow> json \<Rightarrow> string + world"
  api_teardown :: "world \<Rightarrow> world"
  api_getLists :: "anylist_list list \<Rightarrow> ListInfo list"
  api_getListByName :: "anylist_list list \<Rightarrow> string \<Rightarrow> anylist_list option"
  api_getItems :: "anylist_list \<Rightarrow> bool \<Rightarrow> ItemInfo list"
  api_findItemByName :: "anylist_list \<Rightarrow> string \<Rightarrow> nat option"
  api_addItem :: "string \<Rightarrow> anylist_list \<Rightarrow> string \<Rightarrow> jsval \<Rightarrow> jsval \<Rightarrow> jsval \<Rightarrow> ItemInfo client_op"
  api_checkItem :: "anylist_list \<Rightarrow> string \<Rightarrow> ItemInfo option client_op"
  api_uncheckItem :: "anylist_list \<Rightarrow> string \<Rightarrow> ItemInfo option client_op"
  api_removeItem :: "anylist_list \<Rightarrow> string \<Rightarrow> bool client_op"
  api_clearChecked :: "anylist_list \<Rightarrow> nat client_op"
  api_ANYLIST_CATEGORIES :: "(string \<times> string) list"
  api_ExitCode :: "nat \<times> nat \<times> nat \<times> nat"

definition index_exports :: anylist_api where
  "index_exports =
    \<lparr>api_getClient = getClient, api_teardown = teardown, api_getLists = getLists,
     api_getListByName = getListByName, api_getItems = getItems,
     api_findItemByName = findItemByName, api_addItem = addItem, api_checkItem = checkItem,
     api_uncheckItem = uncheckItem, api_removeItem = removeItem,
     api_clearChecked = clearChecked, api_ANYLIST_CATEGORIES = ANYLIST_CATEGORIES,
     api_ExitCode = (ExitCode_Success, ExitCode_Failure, ExitCode_InvalidUsage, ExitCode_AuthFailure)\<rparr>"

end
