(* ===== verification/Program.thy ===== *)
theory Program
  imports Cli
begin

text \<open>
  The top level of the CLI (\<open>src/src/types.ts\<close> lines 402--434 and 907--908): the
  \<open>program\<close> object with its version flag, \<open>--no-color\<close> option, output
  configuration, \<open>exitOverride\<close> callback and \<open>preAction\<close> hook, and
  \<open>program.parse()\<close>. Commander's parsing of \<open>process.argv\<close> is a library: its
  outcome is the datatype \<open>parse_outcome\<close>, and \<open>program_parse\<close> is what the
  program does with each outcome. The lemmas show that every run ends with one of the four
  exit codes of \<open>ExitCode\<close>.
\<close>

section \<open>The program object (lines 402--434)\<close>

definition VERSION :: string where
  "VERSION = ''0.1.0''"

text \<open>What commander makes of the command line: \<open>-V\<close>/\<open>--version\<close>; help, written
  to stdout when asked for (\<open>commander.helpDisplayed\<close>, exit code 0) or to stderr when
  no subcommand was given (\<open>commander.help\<close>, exit code 1); a usage error with its
  message and its \<open>err.code\<close> (commander's \<open>err.exitCode\<close> is then 1); or a
  subcommand with its arguments and the value of the \<open>color\<close> option (\<open>False\<close>
  after \<open>--no-color\<close>).\<close>

datatype parse_outcome =
    VersionFlag
  | HelpShown bool string
  | UsageError string string
  | Action bool command

text \<open>\<open>setNoColor\<close> (output.ts, not among the sources) sets the flag the output
  helpers read.\<close>

definition setNoColor :: "bool \<Rightarrow> world \<Rightarrow> world" where
  "setNoColor b w = w\<lparr>no_color := b\<rparr>"

text \<open>The \<open>preAction\<close> hook (lines 428--433).\<close>

definition preAction :: "bool \<Rightarrow> world \<Rightarrow> world" where
  "preAction color w = (if color = False then setNoColor True w else w)"

text \<open>Commander's exit through the \<open>exitOverride\<close> callback (lines 416--427), after
  it wrote its text through \<open>configureOutput\<close> (lines 411--415): \<open>writeOut\<close> to
  stdout, \<open>writeErr\<close> and \<open>outputError\<close> to stderr.\<close>

definition commander_exit :: "out_line \<Rightarrow> string \<Rightarrow> nat \<Rightarrow> world \<Rightarrow> world" where
  "commander_exit l code exitCode w = process_exit (exitOverride code exitCode) (emit [l] w)"

text \<open>\<open>program.parse()\<close> (line 908). \<open>None\<close> is a run still waiting at a prompt.\<close>

fun program_parse :: "parse_outcome \<Rightarrow> world \<Rightarrow> world option" where
  "program_parse VersionFlag w = Some (commander_exit (Stdout VERSION) ''commander.version'' 0 w)"
| "program_parse (HelpShown err text) w =
     Some (if err then commander_exit (Stderr text) ''commander.help'' 1 w
           else commander_exit (Stdout text) ''commander.helpDisplayed'' 0 w)"
| "program_parse (UsageError msg code) w = Some (commander_exit (Stderr msg) code 1 w)"
| "program_parse (Action color c) w = run_command c (preAction color w)"

section \<open>Lemmas: exit codes\<close>

lemma exit_status_updates [simp]:
  "exit_status (emit ls w) = exit_status w"
  "exit_status (process_exit c w) = c"
  "exit_status (teardown w) = exit_status w"
  "exit_status (send_calls cs w) = exit_status w"
  "exit_status (library_error w) = ExitCode_Failure"
  "exit_status (uncaught_exception msg w) = ExitCode_Failure"
  "exit_status (w\<lparr>host := h\<rparr>) = exit_status w"
  "exit_status (w\<lparr>stdin := i\<rparr>) = exit_status w"
  "exit_status (w\<lparr>clientInstance := ci\<rparr>) = exit_status w"
  "exit_status (w\<lparr>no_color := b\<rparr>) = exit_status w"
  by (simp_all add: world_ops teardown_def send_calls_def exit_codes)

lemma commander_exit_status:
  "exitCode \<le> 1 \<Longrightarrow>
   exit_status (commander_exit l code exitCode w) \<in> {ExitCode_Success, ExitCode_Failure, ExitCode_InvalidUsage}"
  by (auto simp: commander_exit_def exitOverride_def exit_codes)

lemma getAuthenticatedClient_exit:
  "getAuthenticatedClient w = Inl w' \<Longrightarrow> exit_status w' = ExitCode_AuthFailure"
  "getAuthenticatedClient w = Inr w' \<Longrightarrow> exit_status w' = exit_status w"
  by (auto simp: getAuthenticatedClient_def getClient_def dest: requireConfig_Inl
      split: sum.splits prod.splits if_splits)

lemma find_list_exit:
  "find_list n w = Inl w' \<Longrightarrow> exit_status w' = ExitCode_Failure"
  "find_list n w = Inr (l, w') \<Longrightarrow> w' = w"
  by (auto simp: find_list_def split: option.splits)

lemma deliver_exit:
  "deliver cs w = Inl w' \<Longrightarrow> exit_status w' = exit_status w"
  "deliver cs w = Inr w' \<Longrightarrow> exit_status w' = exit_status w"
  by (auto simp: deliver_def split: if_splits)

lemma resolve_category_Inl: "resolve_category c = Inl code \<Longrightarrow> code = ExitCode_InvalidUsage"
  by (auto simp: resolve_category_def Let_def split: if_splits)

lemma line_prompt_no_exit [simp]: "line_prompt acc cs \<noteq> PromptExit c"
  by (induction acc cs rule: line_prompt.induct) auto

lemma hidden_prompt_exit: "hidden_prompt p cs = PromptExit c \<Longrightarrow> c = ExitCode_Failure"
  by (induction p cs rule: hidden_prompt.induct) (auto split: if_splits)

lemma auth_verify_exit: "exit_status (auth_verify e p w) \<in> {exit_status w, ExitCode_AuthFailure}"
  by (auto simp: auth_verify_def getClient_def Let_def split: sum.splits if_splits)

lemma run_command_exit_codes:
  assumes run: "run_command c w = Some w'" and fresh: "exit_code w = None"
  shows "exit_status w' \<in> {ExitCode_Success, ExitCode_Failure, ExitCode_InvalidUsage, ExitCode_AuthFailure}"
proof -
  have s: "exit_status w = ExitCode_Success" using fresh by (simp add: exit_status_def)
  note ex = getAuthenticatedClient_exit find_list_exit deliver_exit resolve_category_Inl
  show ?thesis
  proof (cases c)
    case Auth
    then show ?thesis using run s auth_verify_exit [of _ _ "w\<lparr>stdin := _\<rparr>"]
      by (auto simp: cmd_auth_def Let_def dest: hidden_prompt_exit split: prompt_outcome.splits if_splits)
  qed (use run s in \<open>auto simp: cmd_lists_def cmd_items_def cmd_add_def cmd_check_def cmd_uncheck_def
      cmd_remove_def cmd_clear_def cmd_categories_def cmd_logout_def cmd_whoami_def Let_def
      dest!: ex split: sum.splits prod.splits option.splits if_splits\<close>)
qed

section \<open>The exit codes of a run\<close>

text \<open>C14 (bounds). Whatever commander makes of the command line, a run of the program in
  a new process that ends (rather than waiting at a prompt) exits with one of the four
  codes of \<open>ExitCode\<close>: 0, 1, 2 or 3.\<close>

theorem program_exit_codes:
  assumes fresh: "exit_code w = None" and run: "program_parse p w = Some w'"
  shows "exit_status w' \<in> {ExitCode_Success, ExitCode_Failure, ExitCode_InvalidUsage, ExitCode_AuthFailure}"
proof (cases p)
  case (Action color c)
  have "exit_code (preAction color w) = None" using fresh by (simp add: preAction_def setNoColor_def)
  moreover have "run_command c (preAction color w) = Some w'" using run by (simp add: Action)
  ultimately show ?thesis by (intro run_command_exit_codes)
qed (use run commander_exit_status in \<open>fastforce+\<close>)

theorem program_exit_codes_witness:
  "exit_status (the (program_parse (UsageError ''error: unknown command foo'' ''commander.unknownCommand'') ex_world))
     \<in> {ExitCode_Success, ExitCode_Failure, ExitCode_InvalidUsage, ExitCode_AuthFailure}"
  using program_exit_codes [of ex_world "UsageError ''error: unknown command foo'' ''commander.unknownCommand''"]
  by simp

end
