(* ===== verification/Spec2Isabelle.thy ===== *)
theory Spec2Isabelle
  imports Index Program
begin

text \<open>
  \<^bold>\<open>A verification development of anylist-cli.\<close>

  anylist-cli is a command-line client for the AnyList shopping-list service. Its sources
  are \<open>src/src/types.ts\<close> (the types, the category table and exit codes, a wrapper
  around the \<open>anylist\<close> library, and the commander program with every command),
  \<open>src/src/config.ts\<close> (the credentials file and environment variables) and
  \<open>src/src/index.ts\<close> (re-exports). One invocation reads credentials (config), logs in
  through the wrapper, fetches the lists, runs one wrapper operation on one list, sends the
  library's remote calls, tears the session down, prints, and exits with one of four codes.

  \<^bold>\<open>Theories.\<close>
  \<^item> \<open>Prelude\<close>: JavaScript values of item fields (\<open>jsval\<close>: undefined, a string,
    or an object inherited from \<open>Object.prototype\<close>) with truthiness and \<open>||\<close>;
    ASCII \<open>toLowerCase\<close>; \<open>join_with\<close> (\<open>Array.join\<close>); \<open>find_idx\<close>
    (\<open>Array.find\<close> returning the position, so that the in-place mutation of the found
    object is a list update at that position); shared list lemmas.
  \<^item> \<open>Categories\<close>: \<open>ANYLIST_CATEGORIES\<close> (types.ts 60--82) as an association list in
    source order, \<open>CategoryName\<close>, \<open>ExitCode\<close> (90--93), the member access of an
    object literal (\<open>js_member\<close>, own keys first, then the keys of
    \<open>Object.prototype\<close>), and \<open>resolve_category\<close>, the \<open>--category\<close> handling
    of \<open>add\<close> (701--714). Claims C11, C12; \<open>resolve_category_accepts_inherited\<close>
    shows the inherited names \<open>constructor\<close> and \<open>__proto__\<close> accepted.
  \<^item> \<open>Client\<close>: the wrapper (types.ts 135--374). Records \<open>anylist_item\<close>,
    \<open>anylist_list\<close>, \<open>ListInfo\<close>, \<open>ItemInfo\<close>; every operation
    (\<open>getLists\<close>, \<open>getListByName\<close>, \<open>getItems\<close>, \<open>findItemByName\<close>,
    \<open>addItem\<close>, \<open>checkItem\<close>, \<open>uncheckItem\<close>, \<open>updateItemDetails\<close>,
    \<open>removeItem\<close>, \<open>clearChecked\<close>) returns its result, the list as the library
    object holds it afterwards, and the remote calls it sent, in order
    (\<open>'a client_op\<close>). The library itself is an npm dependency, not code of this
    repository: its lookups,
    \<open>createItem\<close>, \<open>addItem\<close>/\<open>removeItem\<close> and the service's handling of
    each call (\<open>apply_call\<close>) are modelled from the spec. \<open>server_reach\<close> is the
    inductive set of states of a list on the service over successive invocations, each
    running one \<open>client_step\<close>. Claims C1--C10, C16--C18: the calls reproduce the
    local snapshot (refinement), distinct item identifiers are invariant, each
    operation's result on every branch, and checking then unchecking an item restores
    the list and the service (C16). C38: the string fields the TypeScript types
    declare stay strings or \<open>undefined\<close> under every operation (\<open>item_typed\<close>,
    \<open>list_typed\<close>), and the \<open>ItemInfo\<close> the wrapper builds has string fields
    (\<open>info_typed\<close>); the category bug is what breaks the hypothesis
    (\<open>inherited_category_untyped\<close>). \<open>client_step_prefix_wf\<close>: any prefix of the
    calls of one operation keeps the list well formed.
  \<^item> \<open>Json\<close>: JSON values; \<open>JSON.stringify(obj, null, 2)\<close> of a flat object of
    strings (\<open>stringify_obj\<close>, with the standard escapes and \<open>\u00XX\<close> for other
    control characters) and \<open>JSON.parse\<close> (\<open>json_parse\<close>, a recursive-descent
    parser). The parser is a mutual \<open>fun\<close> over fuel; \<open>json_parse\<close> gives it
    \<open>2 * length s + 2\<close>. That this is enough is proved (C37,
    \<open>json_parse_fuel_enough\<close>): each successful call consumes input, each function
    given one more unit of fuel depends on the others only at shorter inputs (or, for
    \<open>parse_elems\<close>, at the same input through \<open>parse_value\<close>), so any fuel above
    \<open>2 * length s + 1\<close> gives the same result. \<open>json_parse_stringify_obj\<close> is the
    general roundtrip, for every object of strings.
  \<^item> \<open>Config\<close>: config.ts over an explicit \<open>host\<close> (environment, a file store
    from paths to contents and permission bits, directories, home directory):
    \<open>loadConfig\<close>, \<open>loadConfigFromEnv\<close>, \<open>saveConfig\<close>, \<open>clearConfig\<close>,
    \<open>requireConfig\<close> (which returns either the messages and exit code of its
    \<open>process.exit\<close> or the credentials). The \<open>node:fs\<close> calls
    (\<open>existsSync\<close>, \<open>readFileSync\<close>, \<open>mkdirSync\<close>, \<open>writeFileSync\<close>,
    \<open>unlinkSync\<close>) return Node's exceptions as \<open>Inl\<close> values, for a non-root owner
    whose read and write bits decide access; \<open>saveConfig\<close> and \<open>clearConfig\<close>
    return \<open>string + host\<close> and \<open>loadConfig\<close> turns every read error into
    \<open>null\<close> as its \<open>catch\<close> does. Claims C19--C23, C37: the roundtrip through the
    file, the logout, the file's mode (an existing file keeps its bits and one its owner
    cannot write is never overwritten), unreadable or malformed files, the parser's fuel.
  \<^item> \<open>Prompts\<close>: the two prompts (types.ts 437--482): \<open>line_prompt\<close>
    (\<open>rl.question\<close>) and \<open>hidden_prompt\<close> (the raw-mode \<open>onData\<close> handler)
    over the stdin data chunks. C32: typed one key per chunk, the password prompt is a
    reference line editor (\<open>edit_key\<close>); C33: chunks of two or more characters
    (a paste) are appended whole, so input made only of them never ends the prompt.
  \<^item> \<open>Cli\<close>: the commander program (types.ts 376--908) and the session handle
    (\<open>getClient\<close>, \<open>teardown\<close>, 110--133). A \<open>world\<close> record is the state of one
    invocation: host, terminal and stdin chunks, the account and lists of the service,
    \<open>clientInstance\<close>, the identifier the library gives the next new item, which
    remote call (if any) throws (\<open>service_error\<close>), the output lines and the exit
    code of \<open>process.exit\<close>. One \<open>cmd_*\<close> definition per command action, with
    every guard and early exit of the source; \<open>run_command\<close> dispatches a
    \<open>command\<close>. The remote calls of an operation go through \<open>deliver\<close>: all of
    them reach the service, or the prefix before the failing one does and the command's
    \<open>catch\<close> block (\<open>library_error\<close>: the message, exit 1, no \<open>teardown\<close>)
    ends the invocation. \<open>cmd_auth\<close> returns \<open>None\<close> while a prompt still
    waits. \<open>exitOverride\<close> is the mapping of commander's errors to exit codes. Claims
    C24--C31, C34--C36: when every call is accepted, the whole invocation refines one
    wrapper step on the named list and keeps the service invariant, and the session is
    always closed; the exit codes of the spec's error cases; the auth roundtrip through
    the config file; C35: \<open>lists\<close>, \<open>items\<close>, \<open>categories\<close> and
    \<open>whoami\<close> change neither the service nor the host. C15: when \<open>saveConfig\<close> throws, \<open>auth\<close> reports the
    file-system error as an authentication failure and exits 3. \<open>logout\<close> has no
    \<open>catch\<close>: an exception of \<open>clearConfig\<close> is uncaught
    (\<open>uncaught_exception\<close>, exit 1). C13: a \<open>clear\<close> interrupted after \<open>k\<close> removals leaves
    exactly the first \<open>k\<close> checked items removed and exits 1 without a count. C39:
    \<open>auth\<close> finishes once its input holds a line end and then an Enter key. C40:
    \<open>cli_reach\<close>, the worlds reachable by invocations in sequence
    (\<open>next_invocation\<close> keeps the host and the service and starts a new process,
    with any failing call), keeps the service invariant, signed in or not, failures
    included (\<open>send_calls_delivered_wf\<close>).
  \<^item> \<open>Program\<close>: the top level (types.ts 402--434, 908): \<open>VERSION\<close>, the
    \<open>preAction\<close> hook (\<open>setNoColor\<close> on \<open>--no-color\<close>), commander's output
    and exit through \<open>configureOutput\<close> and \<open>exitOverride\<close>
    (\<open>commander_exit\<close>), and \<open>program_parse\<close>, what \<open>program.parse()\<close>
    does with each outcome of commander's parse (\<open>parse_outcome\<close>: version, help,
    usage error, or a subcommand). C14: every run that ends exits with one of the four
    \<open>ExitCode\<close> values (\<open>run_command_exit_codes\<close> over every command).
  \<^item> \<open>Index\<close>: \<open>src/src/index.ts\<close>, the record \<open>anylist_api\<close> of the module's
    value exports and \<open>index_exports\<close>, the functions and constants it re-exports.

  \<^bold>\<open>What is not modelled.\<close> Colours and \<open>--no-color\<close> (output.ts is not among
  the sources; \<open>printError\<close> and \<open>printSuccess\<close> are modelled as plain lines);
  commander's tokenising of the command line (its outcome is \<open>parse_outcome\<close>) and
  its help texts (a parameter); directory permissions, the umask and the stack trace of
  an uncaught exception; the network protocol and the library's error messages (a login
  fails exactly when the credentials are not the account's, and a failing remote call
  carries one fixed message); failures of the reads (\<open>getLists\<close> at login): only the
  calls that change the service can fail; readline's line editing and the prompt
  texts written without a line end; the whitespace of JSON printed to stdout
  (\<open>StdoutJson\<close> carries the value); Unicode case mapping beyond ASCII and
  \<open>\u\<close> escapes above 255; the type-only exports of \<open>index.ts\<close>.
\<close>

end
